theory Spec2Isabelle
  imports Main
begin

section \<open>JavaScript strings\<close>

text \<open>
  Source strings are modelled as HOL strings, lists of 8-bit characters: the strings
  whose code units are below 256. \<open>slice a b s\<close> is \<open>s.slice(a, b)\<close> for non-negative
  constant bounds \<open>a \<le> b\<close>, the only way the source calls it. \<open>toLowerCase\<close> lowers
  the letters that have a lower case among these characters: \<open>A\<close> to \<open>Z\<close> and the
  accented capitals \<open>0xC0\<close> to \<open>0xDE\<close> (but not the multiplication sign \<open>0xD7\<close>), each
  32 code units below its lower case.
\<close>

definition slice :: "nat \<Rightarrow> nat \<Rightarrow> string \<Rightarrow> string" where
  "slice a b s = take (b - a) (drop a s)"

definition upper_case_letters :: string where
  "upper_case_letters =
     ''ABCDEFGHIJKLMNOPQRSTUVWXYZ''
     @ [CHR 0xC0, CHR 0xC1, CHR 0xC2, CHR 0xC3, CHR 0xC4, CHR 0xC5, CHR 0xC6, CHR 0xC7,
        CHR 0xC8, CHR 0xC9, CHR 0xCA, CHR 0xCB, CHR 0xCC, CHR 0xCD, CHR 0xCE, CHR 0xCF,
        CHR 0xD0, CHR 0xD1, CHR 0xD2, CHR 0xD3, CHR 0xD4, CHR 0xD5, CHR 0xD6,
        CHR 0xD8, CHR 0xD9, CHR 0xDA, CHR 0xDB, CHR 0xDC, CHR 0xDD, CHR 0xDE]"

definition lower_case_letters :: string where
  "lower_case_letters =
     ''abcdefghijklmnopqrstuvwxyz''
     @ [CHR 0xE0, CHR 0xE1, CHR 0xE2, CHR 0xE3, CHR 0xE4, CHR 0xE5, CHR 0xE6, CHR 0xE7,
        CHR 0xE8, CHR 0xE9, CHR 0xEA, CHR 0xEB, CHR 0xEC, CHR 0xED, CHR 0xEE, CHR 0xEF,
        CHR 0xF0, CHR 0xF1, CHR 0xF2, CHR 0xF3, CHR 0xF4, CHR 0xF5, CHR 0xF6,
        CHR 0xF8, CHR 0xF9, CHR 0xFA, CHR 0xFB, CHR 0xFC, CHR 0xFD, CHR 0xFE]"

definition lower_char :: "char \<Rightarrow> char" where
  "lower_char c =
     (case map_of (zip upper_case_letters lower_case_letters) c of
        Some l \<Rightarrow> l
      | None \<Rightarrow> c)"

definition toLowerCase :: "string \<Rightarrow> string" where
  "toLowerCase s = map lower_char s"

section \<open>Calldata recipient extraction (account-model engine)\<close>

text \<open>
  \<open>extractTransferRecipient(data?: string): string | null\<close> of the account-model
  simulator. The argument is \<open>None\<close> when \<open>transaction.data\<close> is absent; \<open>!data\<close> also
  holds for the empty string. \<open>ethers.isAddress\<close> belongs to the ethers library and is
  a parameter. A failed address check in the first branch falls through to the second
  test, as in the source.
\<close>

definition extractTransferRecipient :: "(string \<Rightarrow> bool) \<Rightarrow> string option \<Rightarrow> string option" where
  "extractTransferRecipient isAddress data =
     (case data of
        None \<Rightarrow> None
      | Some d \<Rightarrow>
          if d = [] \<or> length d < 10 then None
          else
            let selector = toLowerCase (slice 0 10 d) in
            if selector = ''0xa9059cbb'' \<and> length d \<ge> 74
               \<and> isAddress (''0x'' @ slice 34 74 d)
            then Some (''0x'' @ slice 34 74 d)
            else if selector = ''0x23b872dd'' \<and> length d \<ge> 138
               \<and> isAddress (''0x'' @ slice 98 138 d)
            then Some (''0x'' @ slice 98 138 d)
            else None)"

text \<open>
  Calldata is a hex string with the prefix \<open>0x\<close>: byte \<open>i\<close> is the two characters at
  \<open>2 + 2 * i\<close>. \<open>calldata_bytes lo hi d\<close> is the text of bytes \<open>[lo, hi)\<close>; an address
  is right-aligned in its 32-byte word, so it is the last 40 characters of the word.
\<close>

definition calldata_bytes :: "nat \<Rightarrow> nat \<Rightarrow> string \<Rightarrow> string" where
  "calldata_bytes lo hi d = slice (2 + 2 * lo) (2 + 2 * hi) d"

definition right_aligned_address :: "string \<Rightarrow> string" where
  "right_aligned_address w = ''0x'' @ drop (length w - 40) w"

text \<open>
  The shape test of an address: \<open>0x\<close> and forty hexadecimal digits. It stands for
  \<open>ethers.isAddress\<close> in the concrete evaluations below, on digit-only addresses,
  where the library's checksum rule for mixed-case input does not apply.
\<close>

definition hex_digit :: "char \<Rightarrow> bool" where
  "hex_digit c = (c \<in> set ''0123456789abcdefABCDEF'')"

definition isHexAddress :: "string \<Rightarrow> bool" where
  "isHexAddress s = (length s = 42 \<and> take 2 s = ''0x'' \<and> list_all hex_digit (drop 2 s))"

section \<open>Health probes of the two fork clients\<close>

text \<open>
  An awaited call of a backend either throws or returns. \<open>AnvilService.isConnected\<close>
  awaits \<open>this.provider?.getBlockNumber()\<close>: with a null provider the optional chain
  yields \<open>undefined\<close>, nothing throws, and the method returns true.
  \<open>ChopsticksService.isConnected\<close> tests \<open>!this.api\<close> first.
\<close>

datatype ('e, 'a) outcome = Throws 'e | Returns 'a

record 'e anvil_provider =
  getBlockNumber :: "('e, nat) outcome"

record 'e chopsticks_api =
  system_health :: "('e, unit) outcome"

definition anvil_isConnected :: "'e anvil_provider option \<Rightarrow> bool" where
  "anvil_isConnected provider =
     (case provider of
        None \<Rightarrow> True
      | Some p \<Rightarrow> (case getBlockNumber p of Throws e \<Rightarrow> False | Returns n \<Rightarrow> True))"

definition chopsticks_isConnected :: "'e chopsticks_api option \<Rightarrow> bool" where
  "chopsticks_isConnected api =
     (case api of
        None \<Rightarrow> False
      | Some a \<Rightarrow> (case system_health a of Throws e \<Rightarrow> False | Returns u \<Rightarrow> True))"

section \<open>Decimal rendering of integers\<close>

text \<open>\<open>show_int n\<close> is \<open>n.toString()\<close> of a bigint.\<close>

fun show_nat :: "nat \<Rightarrow> string" where
  "show_nat n =
     (if n < 10 then [''0123456789'' ! n]
      else show_nat (n div 10) @ [''0123456789'' ! (n mod 10)])"

declare show_nat.simps [simp del]

definition show_int :: "int \<Rightarrow> string" where
  "show_int i = (if i < 0 then CHR ''-'' # show_nat (nat (- i)) else show_nat (nat i))"

section \<open>Event decoder (account-model)\<close>

text \<open>
  A raw log as the decoder reads it: \<open>topics\<close> (the source guards against a missing
  array, which the library is handed as the empty list), \<open>data\<close>, \<open>address\<close> and the
  log index.
\<close>

record raw_log =
  log_topics :: "string list option"
  log_data :: string
  log_address :: string
  log_index :: int

text \<open>The values ethers hands back for event arguments, as far as \<open>formatArgValue\<close> tells them apart.\<close>

datatype abi_value =
    VNull
  | VBigInt int
  | VArray "abi_value list"
  | VString string
  | VBool bool

text \<open>
  What \<open>iface.parseLog\<close> returns on success: the event name, its signature, and for
  each input its name (possibly empty) with the decoded value.
\<close>

record parsed_log =
  parsed_name :: string
  parsed_signature :: string
  parsed_inputs :: "(string \<times> abi_value) list"

record DecodedEvent =
  ev_name :: string
  ev_contract :: string
  ev_args :: "(string \<times> string) list"
  ev_signature :: string
  logIndex :: int

text \<open>
  The catalogue built at module load from \<open>KNOWN_EVENT_ABIS\<close> by the ethers library:
  the list \<open>EVENT_INTERFACES\<close>, the map \<open>TOPIC_TO_INTERFACE\<close>, and the library's
  \<open>parseLog\<close>, whose answer is \<open>None\<close> both when it returns null and when it throws
  (\<open>tryDecodeWithInterface\<close> turns either into null).
\<close>

record 'i event_catalogue =
  EVENT_INTERFACES :: "'i list"
  TOPIC_TO_INTERFACE :: "string \<Rightarrow> 'i option"
  parseLog :: "'i \<Rightarrow> string list \<Rightarrow> string \<Rightarrow> parsed_log option"

fun join :: "string \<Rightarrow> string list \<Rightarrow> string" where
  "join sep [] = []"
| "join sep [x] = x"
| "join sep (x # y # ys) = x @ sep @ join sep (y # ys)"

fun formatArgValue :: "abi_value \<Rightarrow> string" where
  "formatArgValue VNull = ''null''"
| "formatArgValue (VBigInt n) = show_int n"
| "formatArgValue (VArray vs) = ''['' @ join '', '' (map formatArgValue vs) @ '']''"
| "formatArgValue (VString s) =
     (if take 2 s = ''0x'' \<and> length s = 42 then toLowerCase s else s)"
| "formatArgValue (VBool b) = (if b then ''true'' else ''false'')"

text \<open>\<open>obj[k] = v\<close> on an object whose keys keep their insertion order.\<close>

fun obj_set :: "'k \<Rightarrow> 'v \<Rightarrow> ('k \<times> 'v) list \<Rightarrow> ('k \<times> 'v) list" where
  "obj_set k v [] = [(k, v)]"
| "obj_set k v ((k', v') # kvs) =
     (if k' = k then (k, v) # kvs else (k', v') # obj_set k v kvs)"

fun build_args :: "nat \<Rightarrow> (string \<times> abi_value) list \<Rightarrow> (string \<times> string) list
    \<Rightarrow> (string \<times> string) list" where
  "build_args index [] args = args"
| "build_args index ((name, v) # inputs) args =
     build_args (Suc index) inputs
       (obj_set (if name = [] then ''arg'' @ show_nat index else name) (formatArgValue v) args)"

definition tryDecodeWithInterface :: "'i event_catalogue \<Rightarrow> raw_log \<Rightarrow> 'i \<Rightarrow> DecodedEvent option" where
  "tryDecodeWithInterface cat log iface =
     (case parseLog cat iface (case log_topics log of None \<Rightarrow> [] | Some ts \<Rightarrow> ts) (log_data log) of
        None \<Rightarrow> None
      | Some parsed \<Rightarrow>
          Some \<lparr> ev_name = parsed_name parsed,
                 ev_contract = toLowerCase (log_address log),
                 ev_args = build_args 0 (parsed_inputs parsed) [],
                 ev_signature = parsed_signature parsed,
                 logIndex = log_index log \<rparr>)"

fun try_all_interfaces :: "'i event_catalogue \<Rightarrow> raw_log \<Rightarrow> 'i list \<Rightarrow> DecodedEvent option" where
  "try_all_interfaces cat log [] = None"
| "try_all_interfaces cat log (iface # rest) =
     (case tryDecodeWithInterface cat log iface of
        Some decoded \<Rightarrow> Some decoded
      | None \<Rightarrow> try_all_interfaces cat log rest)"

definition decodeLog :: "'i event_catalogue \<Rightarrow> raw_log \<Rightarrow> DecodedEvent option" where
  "decodeLog cat log =
     (case log_topics log of
        None \<Rightarrow> None
      | Some [] \<Rightarrow> None
      | Some (t0 # ts) \<Rightarrow>
          (case (case TOPIC_TO_INTERFACE cat (toLowerCase t0) of
                   None \<Rightarrow> None
                 | Some knownInterface \<Rightarrow> tryDecodeWithInterface cat log knownInterface) of
             Some decoded \<Rightarrow> Some decoded
           | None \<Rightarrow> try_all_interfaces cat log (EVENT_INTERFACES cat)))"

text \<open>
  \<open>decoded.sort((a, b) => a.logIndex - b.logIndex)\<close>: the sort of an array is stable,
  and so is insertion by key.
\<close>

definition sort_by_logIndex :: "DecodedEvent list \<Rightarrow> DecodedEvent list" where
  "sort_by_logIndex decoded = sort_key logIndex decoded"

fun collect_decoded :: "'i event_catalogue \<Rightarrow> raw_log list \<Rightarrow> DecodedEvent list" where
  "collect_decoded cat [] = []"
| "collect_decoded cat (log # logs) =
     (case decodeLog cat log of
        Some event \<Rightarrow> event # collect_decoded cat logs
      | None \<Rightarrow> collect_decoded cat logs)"

definition decodeLogs :: "'i event_catalogue \<Rightarrow> raw_log list \<Rightarrow> DecodedEvent list" where
  "decodeLogs cat logs = sort_by_logIndex (collect_decoded cat logs)"

text \<open>
  \<open>decodeLogsWithAbi\<close>: the custom interface is tried first for each log, then the
  catalogue. \<open>customInterface\<close> stands for \<open>new ethers.Interface(abi)\<close>; when that
  constructor throws, the function throws before any log is read and returns no array.
\<close>

fun collect_decoded_custom :: "'i event_catalogue \<Rightarrow> 'i \<Rightarrow> raw_log list \<Rightarrow> DecodedEvent list" where
  "collect_decoded_custom cat customInterface [] = []"
| "collect_decoded_custom cat customInterface (log # logs) =
     (case tryDecodeWithInterface cat log customInterface of
        Some customDecoded \<Rightarrow> customDecoded # collect_decoded_custom cat customInterface logs
      | None \<Rightarrow>
          (case decodeLog cat log of
             Some knownDecoded \<Rightarrow> knownDecoded # collect_decoded_custom cat customInterface logs
           | None \<Rightarrow> collect_decoded_custom cat customInterface logs))"

definition decodeLogsWithAbi :: "'i event_catalogue \<Rightarrow> 'i \<Rightarrow> raw_log list \<Rightarrow> DecodedEvent list" where
  "decodeLogsWithAbi cat customInterface logs =
     sort_by_logIndex (collect_decoded_custom cat customInterface logs)"

text \<open>
  A one-interface catalogue for concrete evaluations, holding the ERC20 \<open>Transfer\<close>
  event: a log parses when it has three topics of which the first is the topic hash of
  \<open>Transfer(address,address,uint256)\<close>; \<open>from\<close> and \<open>to\<close> are the addresses
  right-aligned in the second and third topic, and the value is read as 1. A log of a
  transfer between two addresses is built by \<open>transfer_log\<close>.
\<close>

definition Transfer_topic :: string where
  "Transfer_topic = ''0xddf252ad1be2c89b69c2b068fc378daa952ba7f163c4a11628f55a4df523b3ef''"

definition transfer_catalogue :: "unit event_catalogue" where
  "transfer_catalogue =
     \<lparr> EVENT_INTERFACES = [()],
       TOPIC_TO_INTERFACE = (\<lambda>t. if t = Transfer_topic then Some () else None),
       parseLog = (\<lambda>i topics data.
          (case topics of
             [t0, f, t] \<Rightarrow>
               if toLowerCase t0 = Transfer_topic
               then Some \<lparr> parsed_name = ''Transfer'',
                           parsed_signature = ''Transfer(address,address,uint256)'',
                           parsed_inputs = [(''from'', VString (''0x'' @ drop 26 f)),
                                            (''to'', VString (''0x'' @ drop 26 t)),
                                            (''value'', VBigInt 1)] \<rparr>
               else None
           | _ \<Rightarrow> None)) \<rparr>"

definition topic_of_address :: "string \<Rightarrow> string" where
  "topic_of_address a = ''0x000000000000000000000000'' @ drop 2 a"

definition transfer_log :: "string \<Rightarrow> string \<Rightarrow> string \<Rightarrow> int \<Rightarrow> raw_log" where
  "transfer_log token f t i =
     \<lparr> log_topics = Some [Transfer_topic, topic_of_address f, topic_of_address t],
       log_data = ''0x0000000000000000000000000000000000000000000000000000000000000001'',
       log_address = token, log_index = i \<rparr>"

definition address_a :: string where
  "address_a = ''0xaaaaaaaaaaaaaaaaaaaaaaaaaaaaaaaaaaaaaaaa''"

definition address_b :: string where
  "address_b = ''0xbbbbbbbbbbbbbbbbbbbbbbbbbbbbbbbbbbbbbbbb''"

definition address_c :: string where
  "address_c = ''0xcccccccccccccccccccccccccccccccccccccccc''"

section \<open>Values of the language\<close>

text \<open>
  A primitive value: \<open>undefined\<close> (which is also what reading a missing property gives),
  \<open>null\<close>, a boolean, a number or a string. Numbers are integers of magnitude below
  \<open>10^21\<close>, which print as their decimal digits; \<open>NaN\<close> is left out (it is falsy like
  zero). Strings are lists of 8-bit characters, the code units below 256.
\<close>

datatype js_prim = JsUndefined | JsNull | JsBoolean bool | JsNumber int | JsString string

text \<open>Truthiness, \<open>typeof v === "string"\<close>, and the text of a value in a template string.\<close>

definition truthy_prim :: "js_prim \<Rightarrow> bool" where
  "truthy_prim v =
     (case v of
        JsUndefined \<Rightarrow> False
      | JsNull \<Rightarrow> False
      | JsBoolean b \<Rightarrow> b
      | JsNumber n \<Rightarrow> n \<noteq> 0
      | JsString s \<Rightarrow> s \<noteq> [])"

definition is_string :: "js_prim \<Rightarrow> bool" where
  "is_string v = (case v of JsString s \<Rightarrow> True | _ \<Rightarrow> False)"

definition prim_text :: "js_prim \<Rightarrow> string" where
  "prim_text v =
     (case v of
        JsUndefined \<Rightarrow> ''undefined''
      | JsNull \<Rightarrow> ''null''
      | JsBoolean b \<Rightarrow> (if b then ''true'' else ''false'')
      | JsNumber n \<Rightarrow> show_int n
      | JsString s \<Rightarrow> s)"

section \<open>Error decoder (account-model)\<close>

text \<open>
  The value handed to \<open>decodeEVMError(error: any)\<close>: a primitive or an object. The
  decoder reads the properties \<open>data\<close>, \<open>info.error.data\<close>, \<open>info.error.message\<close>,
  \<open>error.data\<close>, \<open>message\<close> and \<open>reason\<close>; an object is the record of these, each of
  them a primitive, together with the \<open>name\<close> that an instance of \<open>Error\<close> has and a
  plain object lacks. The decoder walks through \<open>info\<close>, \<open>info.error\<close> and \<open>error\<close> with
  optional chaining: each is \<open>None\<close> when the value there is missing, \<open>null\<close> or a
  primitive, which all end the chain with \<open>undefined\<close>. Property values that are
  themselves objects, arrays or functions lie outside the model. Reading a property of
  a primitive other than \<open>null\<close> and \<open>undefined\<close> gives \<open>undefined\<close>; reading a property
  of \<open>null\<close> or \<open>undefined\<close> throws a TypeError.
\<close>

record rpc_error =
  rpc_data :: js_prim
  rpc_message :: js_prim

record error_info =
  info_error :: "rpc_error option"

record error_object =
  err_name :: "string option"
  err_data :: js_prim
  err_info :: "error_info option"
  err_error :: "rpc_error option"
  err_message :: js_prim
  err_reason :: js_prim

datatype js_value = JsPrimitive js_prim | JsObject error_object

datatype js_exception = TypeError string | SyntaxError string

datatype error_type = Revert | Panic | Custom | Unknown

text \<open>
  The decoded error. Its message is declared a string; the fallback copies
  \<open>error.reason\<close> into it as it is, so that it is a primitive.
\<close>

record DecodedError =
  err_type :: error_type
  message :: js_prim
  raw :: "string option"

text \<open>\<open>new Error(msg)\<close> as a thrown value, and the properties of a value that has some.\<close>

definition empty_error_object :: error_object where
  "empty_error_object =
     \<lparr> err_name = None, err_data = JsUndefined, err_info = None, err_error = None,
       err_message = JsUndefined, err_reason = JsUndefined \<rparr>"

definition new_Error :: "string \<Rightarrow> js_value" where
  "new_Error msg =
     JsObject (empty_error_object \<lparr> err_name := Some ''Error'',
                                    err_message := JsString msg \<rparr>)"

text \<open>An exception of the language itself as the value that is thrown.\<close>

definition thrown_value :: "js_exception \<Rightarrow> js_value" where
  "thrown_value exn =
     (case exn of
        TypeError msg \<Rightarrow>
          JsObject (empty_error_object \<lparr> err_name := Some ''TypeError'',
                                         err_message := JsString msg \<rparr>)
      | SyntaxError msg \<Rightarrow>
          JsObject (empty_error_object \<lparr> err_name := Some ''SyntaxError'',
                                         err_message := JsString msg \<rparr>))"

text \<open>
  \<open>`${v}`\<close>: the text of a value in a template string. An instance of \<open>Error\<close> prints
  its name and message, any other object prints \<open>[object Object]\<close>.
\<close>

definition template_text :: "js_value \<Rightarrow> string" where
  "template_text v =
     (case v of
        JsPrimitive p \<Rightarrow> prim_text p
      | JsObject e \<Rightarrow>
          (case err_name e of
             None \<Rightarrow> ''[object Object]''
           | Some n \<Rightarrow>
               (let msg = (case err_message e of JsUndefined \<Rightarrow> [] | m \<Rightarrow> prim_text m) in
                if n = [] then msg else if msg = [] then n else n @ '': '' @ msg)))"

definition properties :: "js_value \<Rightarrow> js_exception + error_object" where
  "properties v =
     (case v of
        JsPrimitive JsNull \<Rightarrow> Inl (TypeError ''Cannot read properties of null'')
      | JsPrimitive JsUndefined \<Rightarrow> Inl (TypeError ''Cannot read properties of undefined'')
      | JsPrimitive p \<Rightarrow> Inr empty_error_object
      | JsObject e \<Rightarrow> Inr e)"

text \<open>Truthiness of an optional string: present and not empty.\<close>

definition truthy :: "string option \<Rightarrow> bool" where
  "truthy v = (case v of None \<Rightarrow> False | Some s \<Rightarrow> s \<noteq> [])"

text \<open>\<open>if (x) ... x ...\<close>: the value when it is truthy.\<close>

definition truthy_value :: "string option \<Rightarrow> string option" where
  "truthy_value v = (if truthy v then v else None)"

text \<open>\<open>error.info?.error?.data\<close>, \<open>error.info?.error?.message\<close> and \<open>error.error?.data\<close>.\<close>

definition info_error_data :: "error_object \<Rightarrow> js_prim" where
  "info_error_data e =
     (case err_info e of
        None \<Rightarrow> JsUndefined
      | Some i \<Rightarrow> (case info_error i of None \<Rightarrow> JsUndefined | Some r \<Rightarrow> rpc_data r))"

definition info_error_message :: "error_object \<Rightarrow> js_prim" where
  "info_error_message e =
     (case err_info e of
        None \<Rightarrow> JsUndefined
      | Some i \<Rightarrow> (case info_error i of None \<Rightarrow> JsUndefined | Some r \<Rightarrow> rpc_message r))"

definition error_error_data :: "error_object \<Rightarrow> js_prim" where
  "error_error_data e = (case err_error e of None \<Rightarrow> JsUndefined | Some r \<Rightarrow> rpc_data r)"

text \<open>
  The three regular expressions of the decoder all have the shape
  \<open>prefix (class+) "\<close>: a fixed prefix, a longest non-empty run of characters of a class
  that excludes the double quote, and a closing double quote. The leftmost match wins
  and its group is the run.
\<close>

definition match_run_at :: "string \<Rightarrow> (char \<Rightarrow> bool) \<Rightarrow> string \<Rightarrow> string option" where
  "match_run_at pre cls s =
     (if take (length pre) s = pre
      then let rest = drop (length pre) s;
               run = takeWhile cls rest;
               after = dropWhile cls rest
           in if run \<noteq> [] \<and> take 1 after = [CHR 0x22] then Some run else None
      else None)"

fun match_run :: "string \<Rightarrow> (char \<Rightarrow> bool) \<Rightarrow> string \<Rightarrow> string option" where
  "match_run pre cls [] = match_run_at pre cls []"
| "match_run pre cls (c # cs) =
     (case match_run_at pre cls (c # cs) of
        Some run \<Rightarrow> Some run
      | None \<Rightarrow> match_run pre cls cs)"

text \<open>\<open>/data="(0x[a-fA-F0-9]+)"/\<close>: the group includes the \<open>0x\<close>.\<close>

definition match_data :: "string \<Rightarrow> string option" where
  "match_data msg =
     (case match_run (''data='' @ [CHR 0x22] @ ''0x'') hex_digit msg of
        None \<Rightarrow> None
      | Some run \<Rightarrow> Some (''0x'' @ run))"

definition not_quote :: "char \<Rightarrow> bool" where
  "not_quote c = (c \<noteq> CHR 0x22)"

text \<open>
  \<open>extractErrorData\<close>. The first probe wants a truthy string, the next two any truthy
  value, which is returned as it is. \<open>error.message?.match(...)\<close> skips a missing or
  \<open>null\<close> message, matches a string, and throws on a boolean or a number, which have
  no \<open>match\<close>. The result \<open>null\<close> is \<open>JsNull\<close>.
\<close>

definition extractErrorData :: "error_object \<Rightarrow> js_exception + js_prim" where
  "extractErrorData e =
     (if truthy_prim (err_data e) \<and> is_string (err_data e) then Inr (err_data e)
      else if truthy_prim (info_error_data e) then Inr (info_error_data e)
      else if truthy_prim (error_error_data e) then Inr (error_error_data e)
      else (case err_message e of
              JsUndefined \<Rightarrow> Inr JsNull
            | JsNull \<Rightarrow> Inr JsNull
            | JsString msg \<Rightarrow>
                (case match_data msg of None \<Rightarrow> Inr JsNull | Some d \<Rightarrow> Inr (JsString d))
            | _ \<Rightarrow> Inl (TypeError ''error.message?.match is not a function'')))"

text \<open>
  The ethers library: decoding a \<open>uint256\<close> and a \<open>string\<close> from ABI data (\<open>None\<close> when
  the coder throws), and \<open>Interface.parseError\<close> for a signature and data, which gives
  the error name and its arguments as text (\<open>None\<close> when it throws or returns null: the
  source continues the same way in both cases).
\<close>

record ethers_abi =
  abi_decode_uint256 :: "string \<Rightarrow> nat option"
  abi_decode_string :: "string \<Rightarrow> string option"
  parseError :: "string \<Rightarrow> string \<Rightarrow> (string \<times> string list) option"

definition PANIC_CODES :: "(string \<times> string) list" where
  "PANIC_CODES =
     [(''0x00'', ''Generic compiler panic''),
      (''0x01'', ''Assertion failed''),
      (''0x11'', ''Arithmetic overflow/underflow''),
      (''0x12'', ''Division or modulo by zero''),
      (''0x21'', ''Conversion to invalid enum value''),
      (''0x22'', ''Incorrectly encoded storage byte array''),
      (''0x31'', ''Pop on empty array''),
      (''0x32'', ''Array index out of bounds''),
      (''0x41'', ''Too much memory allocated''),
      (''0x51'', ''Called invalid internal function'')]"

definition CUSTOM_ERRORS :: "(string \<times> string) list" where
  "CUSTOM_ERRORS =
     [(''0xe450d38c'', ''InsufficientBalance(address,uint256,uint256)''),
      (''0xfb8f41b2'', ''InsufficientAllowance(address,uint256,uint256)'')]"

text \<open>\<open>n.toString(16)\<close> and \<open>padStart(2, "0")\<close>.\<close>

fun show_hex :: "nat \<Rightarrow> string" where
  "show_hex n =
     (if n < 16 then [''0123456789abcdef'' ! n]
      else show_hex (n div 16) @ [''0123456789abcdef'' ! (n mod 16)])"

declare show_hex.simps [simp del]

definition padStart2 :: "string \<Rightarrow> string" where
  "padStart2 s = replicate (2 - length s) (CHR ''0'') @ s"

definition decodePanic :: "ethers_abi \<Rightarrow> string \<Rightarrow> DecodedError" where
  "decodePanic abi data =
     (case abi_decode_uint256 abi (''0x'' @ drop 10 data) of
        Some code \<Rightarrow>
          let codeHex = ''0x'' @ padStart2 (show_hex code);
              meaning = (case map_of PANIC_CODES codeHex of
                           Some m \<Rightarrow> m
                         | None \<Rightarrow> ''Unknown panic code: '' @ codeHex)
          in \<lparr> err_type = Panic, message = JsString (''Panic: '' @ meaning), raw = Some data \<rparr>
      | None \<Rightarrow>
          \<lparr> err_type = Panic, message = JsString ''Panic: Unable to decode panic code'',
            raw = Some data \<rparr>)"

definition decodeRevertReason :: "ethers_abi \<Rightarrow> string \<Rightarrow> DecodedError" where
  "decodeRevertReason abi data =
     (case abi_decode_string abi (''0x'' @ drop 10 data) of
        Some reason \<Rightarrow>
          \<lparr> err_type = Revert,
            message = JsString (if reason \<noteq> [] then reason else ''Transaction reverted''),
            raw = Some data \<rparr>
      | None \<Rightarrow>
          \<lparr> err_type = Revert, message = JsString ''Transaction reverted (unable to decode reason)'',
            raw = Some data \<rparr>)"

definition decodeCustomError :: "ethers_abi \<Rightarrow> string \<Rightarrow> string \<Rightarrow> DecodedError option" where
  "decodeCustomError abi selector data =
     (case map_of CUSTOM_ERRORS selector of
        None \<Rightarrow> None
      | Some errorSig \<Rightarrow>
          (case parseError abi errorSig data of
             Some (name, args) \<Rightarrow>
               Some \<lparr> err_type = Custom, message = JsString (name @ ''('' @ join '', '' args @ '')''),
                      raw = Some data \<rparr>
           | None \<Rightarrow>
               Some \<lparr> err_type = Custom,
                      message = JsString (takeWhile (\<lambda>c. c \<noteq> CHR ''('') errorSig),
                      raw = Some data \<rparr>))"

text \<open>
  \<open>String.prototype.trim\<close>: the white space and line terminators among the 8-bit
  characters are the tab, the line feed, the vertical tab, the form feed, the carriage
  return, the space and the no-break space.
\<close>

definition is_space :: "char \<Rightarrow> bool" where
  "is_space c =
     (c \<in> {CHR 0x09, CHR 0x0A, CHR 0x0B, CHR 0x0C, CHR 0x0D, CHR 0x20, CHR 0xA0})"

definition trim :: "string \<Rightarrow> string" where
  "trim s = rev (dropWhile is_space (rev (dropWhile is_space s)))"

definition cleanErrorMessage :: "string \<Rightarrow> string" where
  "cleanErrorMessage msg =
     (case (case match_run (''execution reverted: '' @ [CHR 0x22]) not_quote msg of
              Some g \<Rightarrow> Some g
            | None \<Rightarrow> match_run (''reason='' @ [CHR 0x22]) not_quote msg) of
        Some g \<Rightarrow> g
      | None \<Rightarrow>
          let m1 = (if take 7 msg = ''Error: '' then drop 7 msg else msg);
              m2 = (if m1 = ''execution reverted'' then ''Transaction reverted'' else m1)
          in trim m2)"

text \<open>
  \<open>cleanErrorMessage\<close> on the truthy value the fallback hands it: \<open>msg.match\<close> is not a
  function unless the value is a string.
\<close>

definition clean_message :: "js_prim \<Rightarrow> js_exception + js_prim" where
  "clean_message msg =
     (case msg of
        JsString s \<Rightarrow> Inr (JsString (cleanErrorMessage s))
      | _ \<Rightarrow> Inl (TypeError ''msg.match is not a function''))"

definition parseErrorFallback :: "error_object \<Rightarrow> js_exception + DecodedError" where
  "parseErrorFallback e =
     (if truthy_prim (err_reason e)
      then Inr \<lparr> err_type = Revert, message = err_reason e, raw = None \<rparr>
      else if truthy_prim (info_error_message e)
      then (case clean_message (info_error_message e) of
              Inl exn \<Rightarrow> Inl exn
            | Inr m \<Rightarrow> Inr \<lparr> err_type = Unknown, message = m, raw = None \<rparr>)
      else if truthy_prim (err_message e)
      then (case clean_message (err_message e) of
              Inl exn \<Rightarrow> Inl exn
            | Inr m \<Rightarrow> Inr \<lparr> err_type = Unknown, message = m, raw = None \<rparr>)
      else Inr \<lparr> err_type = Unknown, message = JsString ''Unknown error occurred'',
                 raw = None \<rparr>)"

text \<open>
  \<open>decodeEVMError\<close>. \<open>data && data.length >= 10\<close> holds of a string of at least ten
  characters only: a boolean and a number have no \<open>length\<close>.
\<close>

definition decodeEVMError :: "ethers_abi \<Rightarrow> js_value \<Rightarrow> js_exception + DecodedError" where
  "decodeEVMError abi err =
     (case properties err of
        Inl exn \<Rightarrow> Inl exn
      | Inr e \<Rightarrow>
          (case extractErrorData e of
             Inl exn \<Rightarrow> Inl exn
           | Inr (JsString data) \<Rightarrow>
               if data \<noteq> [] \<and> length data \<ge> 10
               then let selector = toLowerCase (slice 0 10 data) in
                 if selector = ''0x4e487b71'' then Inr (decodePanic abi data)
                 else if selector = ''0x08c379a0'' then Inr (decodeRevertReason abi data)
                 else (case decodeCustomError abi selector data of
                         Some customError \<Rightarrow> Inr customError
                       | None \<Rightarrow> parseErrorFallback e)
               else parseErrorFallback e
           | Inr other \<Rightarrow> parseErrorFallback e))"

text \<open>
  The decode order in the words of the specification. The payload is located by probing
  \<open>error.data\<close> (a string), \<open>error.info.error.data\<close> and \<open>error.error.data\<close>: the
  first of them that is truthy is the answer; when none is, the payload is the hex text
  of the leftmost \<open>data="0x..."\<close> within the message string. A position of the message
  holds such a text when \<open>data="0x\<close> starts there, followed by hexadecimal digits, at
  least one, up to a closing double quote.
\<close>

definition payload_at :: "string \<Rightarrow> nat \<Rightarrow> string option" where
  "payload_at msg i =
     (let digits = takeWhile hex_digit (drop (i + 8) msg) in
      if take 8 (drop i msg) = ''data='' @ [CHR 0x22] @ ''0x'' \<and> digits \<noteq> []
         \<and> take 1 (drop (i + 8 + length digits) msg) = [CHR 0x22]
      then Some (''0x'' @ digits)
      else None)"

fun first_answer :: "(nat \<Rightarrow> 'a option) \<Rightarrow> nat list \<Rightarrow> 'a option" where
  "first_answer f [] = None"
| "first_answer f (i # others) =
     (case f i of Some v \<Rightarrow> Some v | None \<Rightarrow> first_answer f others)"

definition embedded_payload :: "string \<Rightarrow> string option" where
  "embedded_payload msg = first_answer (payload_at msg) [0 ..< length msg]"

definition probes :: "error_object \<Rightarrow> js_prim list" where
  "probes e =
     [if is_string (err_data e) then err_data e else JsUndefined,
      info_error_data e, error_error_data e]"

definition located_payload :: "error_object \<Rightarrow> js_prim" where
  "located_payload e =
     (case filter truthy_prim (probes e) of
        p # others \<Rightarrow> p
      | [] \<Rightarrow>
          (case err_message e of
             JsString msg \<Rightarrow>
               (case embedded_payload msg of None \<Rightarrow> JsNull | Some d \<Rightarrow> JsString d)
           | _ \<Rightarrow> JsNull))"

text \<open>
  A payload is decoded when it is a string of at least ten characters whose first ten,
  in lower case, are the panic selector, the revert-reason selector or a selector of the
  custom-error table; the tag of the record follows the selector.
\<close>

definition selector_tag :: "string \<Rightarrow> error_type option" where
  "selector_tag d =
     (if length d < 10 then None
      else map_of [(''0x4e487b71'', Panic), (''0x08c379a0'', Revert),
                   (''0xe450d38c'', Custom), (''0xfb8f41b2'', Custom)]
             (toLowerCase (take 10 d)))"

definition decoded_payload :: "error_object \<Rightarrow> (string \<times> error_type) option" where
  "decoded_payload e =
     (case located_payload e of
        JsString d \<Rightarrow> (case selector_tag d of None \<Rightarrow> None | Some tag \<Rightarrow> Some (d, tag))
      | _ \<Rightarrow> None)"

text \<open>
  The fallback surfaces \<open>error.reason\<close>, else cleans \<open>error.info.error.message\<close>, else
  cleans \<open>error.message\<close>: \<open>fallback_message\<close> is the message that is cleaned, if any.
  A boolean and a number have no \<open>match\<close> method. The decoder meets such a message
  either when no probe answers and it searches \<open>error.message\<close>, or when it has to
  clean it.
\<close>

definition fallback_message :: "error_object \<Rightarrow> js_prim option" where
  "fallback_message e =
     (if truthy_prim (err_reason e) then None
      else List.find truthy_prim [info_error_message e, err_message e])"

definition no_match_method :: "js_prim \<Rightarrow> bool" where
  "no_match_method v = (case v of JsBoolean b \<Rightarrow> True | JsNumber n \<Rightarrow> True | _ \<Rightarrow> False)"

definition meets_unmatchable_message :: "error_object \<Rightarrow> bool" where
  "meets_unmatchable_message e =
     ((filter truthy_prim (probes e) = [] \<and> no_match_method (err_message e))
      \<or> (decoded_payload e = None
          \<and> (case fallback_message e of None \<Rightarrow> False | Some m \<Rightarrow> no_match_method m)))"

text \<open>Absent, \<open>null\<close> or a string.\<close>

definition textual :: "js_prim \<Rightarrow> bool" where
  "textual v = (case v of JsBoolean b \<Rightarrow> False | JsNumber n \<Rightarrow> False | _ \<Rightarrow> True)"


text \<open>An ABI coder that rejects every payload, for evaluations that never reach it.\<close>

definition rejecting_abi :: ethers_abi where
  "rejecting_abi =
     \<lparr> abi_decode_uint256 = (\<lambda>d. None), abi_decode_string = (\<lambda>d. None),
       parseError = (\<lambda>sig d. None) \<rparr>"

text \<open>
  Inputs for concrete evaluations: a panic payload with code \<open>0x11\<close>; an ABI coder that
  reads the word of that payload as 17 and rejects everything else; the error that ethers
  throws with the payload inside its message; a message with a verbose prefix between
  no-break spaces; and a payload whose selector is not known.
\<close>

definition panic_payload :: string where
  "panic_payload =
     ''0x4e487b710000000000000000000000000000000000000000000000000000000000000011''"

definition unknown_payload :: string where
  "unknown_payload =
     ''0x123456780000000000000000000000000000000000000000000000000000000000000001''"

definition word_abi :: ethers_abi where
  "word_abi =
     \<lparr> abi_decode_uint256 =
         (\<lambda>d. if d = ''0x0000000000000000000000000000000000000000000000000000000000000011''
               then Some 17 else None),
       abi_decode_string = (\<lambda>d. None), parseError = (\<lambda>sig d. None) \<rparr>"

definition call_exception :: js_value where
  "call_exception =
     new_Error (''call revert exception (action='' @ [CHR 0x22] @ ''call'' @ [CHR 0x22]
                @ '', data='' @ [CHR 0x22] @ panic_payload @ [CHR 0x22]
                @ '', code=CALL_EXCEPTION)'')"

definition padded_message :: string where
  "padded_message = [CHR 0xA0] @ ''Something went wrong'' @ [CHR 0xA0]"

section \<open>State-impact builder (account-model)\<close>

text \<open>
  A \<open>Map\<close> is an association list in insertion order: \<open>map_of\<close> is \<open>get\<close>, \<open>obj_set\<close> is
  \<open>set\<close> (a present key keeps its place), and the keys of a \<open>Map\<close> are pairwise distinct.
  Balances are bigints; the report renders them with \<open>toString()\<close>, and the model keeps
  the integers.
\<close>

record BalanceSnapshot =
  native :: int
  tokens :: "(string \<times> int) list"

record TokenBalance =
  tb_token :: string
  tb_contractAddress :: "string option"
  tb_balance :: int
  tb_decimals :: nat
  tb_symbol :: string

record TokenBalanceChange =
  ch_token :: string
  ch_contractAddress :: "string option"
  ch_before :: int
  ch_after :: int
  ch_delta :: int
  ch_decimals :: nat
  ch_symbol :: string

record AddressState =
  address :: string
  before :: "TokenBalance list"
  after :: "TokenBalance list"
  changes :: "TokenBalanceChange list"

record StateImpactReport =
  sender :: AddressState
  recipient :: AddressState
  contractsAffected :: "AddressState list"

record TokenMetadata =
  tm_symbol :: string
  tm_decimals :: nat

text \<open>\<open>new Set([...xs])\<close> keeps the first occurrence of each element, in order.\<close>

fun new_Set :: "'a list \<Rightarrow> 'a list" where
  "new_Set [] = []"
| "new_Set (x # xs) = x # filter (\<lambda>y. y \<noteq> x) (new_Set xs)"

text \<open>\<open>m.get(k) || 0n\<close>.\<close>

definition get_or_zero :: "(string \<times> int) list \<Rightarrow> string \<Rightarrow> int" where
  "get_or_zero m k = (case map_of m k of None \<Rightarrow> 0 | Some v \<Rightarrow> v)"

definition metadata_or_unknown :: "(string \<times> TokenMetadata) list \<Rightarrow> string \<Rightarrow> TokenMetadata" where
  "metadata_or_unknown tokenMetadata tokenAddress =
     (case map_of tokenMetadata tokenAddress of
        None \<Rightarrow> \<lparr> tm_symbol = ''UNKNOWN'', tm_decimals = 18 \<rparr>
      | Some m \<Rightarrow> m)"

definition token_balance_row :: "(string \<times> TokenMetadata) list \<Rightarrow> (string \<times> int) list \<Rightarrow> string \<Rightarrow> TokenBalance" where
  "token_balance_row tokenMetadata toks tokenAddress =
     (let metadata = metadata_or_unknown tokenMetadata tokenAddress in
      \<lparr> tb_token = tm_symbol metadata, tb_contractAddress = Some tokenAddress,
        tb_balance = get_or_zero toks tokenAddress, tb_decimals = tm_decimals metadata,
        tb_symbol = tm_symbol metadata \<rparr>)"

definition native_balance_row :: "string \<Rightarrow> int \<Rightarrow> TokenBalance" where
  "native_balance_row nativeSymbol bal =
     \<lparr> tb_token = nativeSymbol, tb_contractAddress = None, tb_balance = bal,
       tb_decimals = 18, tb_symbol = nativeSymbol \<rparr>"

definition native_change :: "string \<Rightarrow> BalanceSnapshot \<Rightarrow> BalanceSnapshot \<Rightarrow> TokenBalanceChange list" where
  "native_change nativeSymbol bef aft =
     (let nativeDelta = native aft - native bef in
      if nativeDelta \<noteq> 0
      then [\<lparr> ch_token = nativeSymbol, ch_contractAddress = None, ch_before = native bef,
              ch_after = native aft, ch_delta = nativeDelta, ch_decimals = 18,
              ch_symbol = nativeSymbol \<rparr>]
      else [])"

fun token_changes :: "(string \<times> TokenMetadata) list \<Rightarrow> BalanceSnapshot \<Rightarrow> BalanceSnapshot
    \<Rightarrow> string list \<Rightarrow> TokenBalanceChange list" where
  "token_changes tokenMetadata bef aft [] = []"
| "token_changes tokenMetadata bef aft (tokenAddress # rest) =
     (let metadata = metadata_or_unknown tokenMetadata tokenAddress;
          beforeBal = get_or_zero (tokens bef) tokenAddress;
          afterBal = get_or_zero (tokens aft) tokenAddress;
          delta = afterBal - beforeBal
      in (if delta \<noteq> 0
          then [\<lparr> ch_token = tm_symbol metadata, ch_contractAddress = Some tokenAddress,
                  ch_before = beforeBal, ch_after = afterBal, ch_delta = delta,
                  ch_decimals = tm_decimals metadata, ch_symbol = tm_symbol metadata \<rparr>]
          else [])
         @ token_changes tokenMetadata bef aft rest)"

definition buildAddressState :: "string \<Rightarrow> BalanceSnapshot \<Rightarrow> BalanceSnapshot
    \<Rightarrow> (string \<times> TokenMetadata) list \<Rightarrow> string \<Rightarrow> AddressState" where
  "buildAddressState addr bef aft tokenMetadata nativeSymbol =
     (let allTokens = new_Set (map fst (tokens bef) @ map fst (tokens aft)) in
      \<lparr> address = toLowerCase addr,
        before = native_balance_row nativeSymbol (native bef)
                   # map (token_balance_row tokenMetadata (tokens bef)) allTokens,
        after = native_balance_row nativeSymbol (native aft)
                   # map (token_balance_row tokenMetadata (tokens aft)) allTokens,
        changes = native_change nativeSymbol bef aft
                   @ token_changes tokenMetadata bef aft allTokens \<rparr>)"

text \<open>
  \<open>getTokenMetadata\<close> asks the chain (through a cache) and falls back to \<open>UNKNOWN\<close> with
  18 decimals; it never throws. It is a parameter giving the metadata of a token address.
\<close>

fun collect_metadata :: "(string \<Rightarrow> TokenMetadata) \<Rightarrow> string list
    \<Rightarrow> (string \<times> TokenMetadata) list \<Rightarrow> (string \<times> TokenMetadata) list" where
  "collect_metadata getTokenMetadata [] tokenMetadata = tokenMetadata"
| "collect_metadata getTokenMetadata (tokenAddress # rest) tokenMetadata =
     collect_metadata getTokenMetadata rest
       (obj_set (toLowerCase tokenAddress) (getTokenMetadata tokenAddress) tokenMetadata)"

fun affected_loop :: "string list \<Rightarrow> (string \<times> BalanceSnapshot) list
    \<Rightarrow> (string \<times> TokenMetadata) list \<Rightarrow> string
    \<Rightarrow> (string \<times> BalanceSnapshot) list \<Rightarrow> AddressState list" where
  "affected_loop excludeAddresses balancesAfter tokenMetadata nativeSymbol [] = []"
| "affected_loop excludeAddresses balancesAfter tokenMetadata nativeSymbol
     ((addr, beforeSnapshot) # rest) =
     (if addr \<in> set excludeAddresses
      then affected_loop excludeAddresses balancesAfter tokenMetadata nativeSymbol rest
      else
        (case map_of balancesAfter addr of
           None \<Rightarrow> affected_loop excludeAddresses balancesAfter tokenMetadata nativeSymbol rest
         | Some afterSnapshot \<Rightarrow>
             (let state = buildAddressState addr beforeSnapshot afterSnapshot tokenMetadata
                            nativeSymbol
              in if changes state \<noteq> []
                 then state # affected_loop excludeAddresses balancesAfter tokenMetadata
                                nativeSymbol rest
                 else affected_loop excludeAddresses balancesAfter tokenMetadata
                        nativeSymbol rest)))"

definition zero_snapshot :: BalanceSnapshot where
  "zero_snapshot = \<lparr> native = 0, tokens = [] \<rparr>"

text \<open>
  \<open>buildStateImpactReport\<close>. The sender's snapshots are read with a non-null assertion:
  when one is missing, \<open>buildAddressState\<close> reads \<open>native\<close> of \<open>undefined\<close> and throws.
  The recipient's snapshots default to zero. \<open>tokenRecipient\<close> is an optional string and
  \<open>tokenRecipient || transactionTo\<close> picks it when it is truthy.
\<close>

definition buildStateImpactReport :: "(string \<Rightarrow> TokenMetadata) \<Rightarrow> string \<Rightarrow> string
    \<Rightarrow> string list \<Rightarrow> (string \<times> BalanceSnapshot) list \<Rightarrow> (string \<times> BalanceSnapshot) list
    \<Rightarrow> string \<Rightarrow> string option \<Rightarrow> js_exception + StateImpactReport" where
  "buildStateImpactReport getTokenMetadata sndr transactionTo tokenAddresses balancesBefore
      balancesAfter nativeSymbol tokenRecipient =
     (let tokenMetadata = collect_metadata getTokenMetadata tokenAddresses [] in
      case (map_of balancesBefore (toLowerCase sndr), map_of balancesAfter (toLowerCase sndr)) of
        (Some senderBefore, Some senderAfter) \<Rightarrow>
          (let senderState = buildAddressState sndr senderBefore senderAfter tokenMetadata
                               nativeSymbol;
               recipientAddress = (case truthy_value tokenRecipient of
                                     Some r \<Rightarrow> r
                                   | None \<Rightarrow> transactionTo);
               recipientState = buildAddressState recipientAddress
                  (case map_of balancesBefore (toLowerCase recipientAddress) of
                     Some s \<Rightarrow> s | None \<Rightarrow> zero_snapshot)
                  (case map_of balancesAfter (toLowerCase recipientAddress) of
                     Some s \<Rightarrow> s | None \<Rightarrow> zero_snapshot)
                  tokenMetadata nativeSymbol;
               excludeAddresses = [toLowerCase sndr, toLowerCase recipientAddress]
           in Inr \<lparr> sender = senderState, recipient = recipientState,
                    contractsAffected = affected_loop excludeAddresses balancesAfter
                                          tokenMetadata nativeSymbol balancesBefore \<rparr>)
      | _ \<Rightarrow> Inl (TypeError ''Cannot read properties of undefined (reading native)''))"

text \<open>
  The words of the invariant of the builder. An address has a change when its native
  balance or one of its token balances differs between its two snapshots, a missing
  snapshot or token counting as zero; the rows of a report are the sender, the
  counterparty and the other affected addresses.
\<close>

definition snapshot_of :: "(string \<times> BalanceSnapshot) list \<Rightarrow> string \<Rightarrow> BalanceSnapshot" where
  "snapshot_of m a = (case map_of m a of Some s \<Rightarrow> s | None \<Rightarrow> zero_snapshot)"

definition snapshots_differ :: "BalanceSnapshot \<Rightarrow> BalanceSnapshot \<Rightarrow> bool" where
  "snapshots_differ bef aft =
     (native aft \<noteq> native bef
      \<or> (\<exists>t \<in> set (map fst (tokens bef) @ map fst (tokens aft)).
            get_or_zero (tokens aft) t \<noteq> get_or_zero (tokens bef) t))"

definition has_change :: "(string \<times> BalanceSnapshot) list \<Rightarrow> (string \<times> BalanceSnapshot) list
    \<Rightarrow> string \<Rightarrow> bool" where
  "has_change balancesBefore balancesAfter a =
     snapshots_differ (snapshot_of balancesBefore a) (snapshot_of balancesAfter a)"

definition report_rows :: "StateImpactReport \<Rightarrow> AddressState list" where
  "report_rows r = sender r # recipient r # contractsAffected r"

definition times_reported :: "StateImpactReport \<Rightarrow> string \<Rightarrow> nat" where
  "times_reported r a = count_list (map address (report_rows r)) a"

definition unknown_metadata :: "string \<Rightarrow> TokenMetadata" where
  "unknown_metadata tokenAddress = \<lparr> tm_symbol = ''UNKNOWN'', tm_decimals = 18 \<rparr>"

definition reported_count :: "js_exception + StateImpactReport \<Rightarrow> string \<Rightarrow> nat option" where
  "reported_count result a =
     (case result of Inl exn \<Rightarrow> None | Inr r \<Rightarrow> Some (times_reported r a))"

text \<open>
  Snapshots for concrete evaluations: a transfer of one unit from \<open>0xaa\<close> to \<open>0xbb\<close>
  that also moves the balance of a third address \<open>0xcc\<close>; and a self-transfer of
  \<open>0xaa\<close> around which \<open>0xcc\<close> is observed only before and \<open>0xdd\<close> only after.
\<close>

definition native_only :: "int \<Rightarrow> BalanceSnapshot" where
  "native_only n = \<lparr> native = n, tokens = [] \<rparr>"

definition transfer_before :: "(string \<times> BalanceSnapshot) list" where
  "transfer_before =
     [(''0xaa'', native_only 10), (''0xbb'', native_only 0), (''0xcc'', native_only 100)]"

definition transfer_after :: "(string \<times> BalanceSnapshot) list" where
  "transfer_after =
     [(''0xaa'', native_only 9), (''0xbb'', native_only 1), (''0xcc'', native_only 105)]"

definition self_before :: "(string \<times> BalanceSnapshot) list" where
  "self_before = [(''0xaa'', native_only 10), (''0xcc'', native_only 100)]"

definition self_after :: "(string \<times> BalanceSnapshot) list" where
  "self_after = [(''0xaa'', native_only 9), (''0xdd'', native_only 5)]"

section \<open>Event filters (runtime-module)\<close>

text \<open>
  A decoded event record: the phase of block execution and the event (its \<open>method\<close>
  is the field \<open>method_name\<close>). The reducer reads
  \<open>data.from\<close>, \<open>data.to\<close>, \<open>data.who\<close> and \<open>data.amount\<close> of balances events, which
  the event decoder delivers as text; the dispatch error of a failure event
  (\<open>data.dispatchError\<close> or \<open>data.dispatch_error\<close>) is passed on to the error decoder
  unread.
\<close>

datatype phase = ApplyExtrinsic nat | Initialization | Finalization | UnknownPhase

datatype dispatch_error =
    DispatchModule nat nat
  | DispatchBadOrigin
  | DispatchCannotLookup
  | DispatchArithmetic string
  | DispatchToken string
  | DispatchOther string

record WasmDecodedEvent =
  pallet :: string
  method_name :: string
  data_from :: string
  data_to :: string
  data_who :: string
  data_amount :: string
  data_dispatchError :: "dispatch_error option"
  index :: nat

record WasmEventRecord =
  rec_phase :: phase
  rec_event :: WasmDecodedEvent

definition filterEventsByExtrinsicIndex :: "WasmEventRecord list \<Rightarrow> int \<Rightarrow> WasmDecodedEvent list" where
  "filterEventsByExtrinsicIndex evs extrinsicIndex =
     map rec_event
       (filter (\<lambda>e. case rec_phase e of
                       ApplyExtrinsic v \<Rightarrow> int v = extrinsicIndex
                     | _ \<Rightarrow> False) evs)"

fun last_index_loop :: "WasmEventRecord list \<Rightarrow> int \<Rightarrow> int" where
  "last_index_loop [] mx = mx"
| "last_index_loop (e # es) mx =
     (case rec_phase e of
        ApplyExtrinsic v \<Rightarrow> last_index_loop es (if int v > mx then int v else mx)
      | _ \<Rightarrow> last_index_loop es mx)"

definition getLastExtrinsicIndex :: "WasmEventRecord list \<Rightarrow> int" where
  "getLastExtrinsicIndex evs = last_index_loop evs (- 1)"

definition filterRelevantEvents :: "WasmDecodedEvent list \<Rightarrow> WasmDecodedEvent list" where
  "filterRelevantEvents evs =
     filter (\<lambda>e. pallet e \<in> set [''balances'', ''assets'', ''tokens'', ''system'',
                                  ''transactionPayment'']
                \<or> method_name e \<in> set [''Transfer'', ''Deposit'', ''Withdraw'', ''Reserved'',
                                   ''Unreserved'', ''ExtrinsicSuccess'', ''ExtrinsicFailed''])
       evs"

section \<open>Amount parsing (runtime-module)\<close>

text \<open>
  \<open>BigInt(s)\<close> on a string: white space is trimmed; the empty string is zero; a prefix
  \<open>0x\<close>, \<open>0o\<close> or \<open>0b\<close> introduces unsigned digits of that base; otherwise an optional
  sign and decimal digits. Anything else is a SyntaxError (\<open>None\<close>).
\<close>

definition digit_value :: "char \<Rightarrow> nat option" where
  "digit_value c =
     map_of (zip ''0123456789abcdef'' [0, 1, 2, 3, 4, 5, 6, 7, 8, 9, 10, 11, 12, 13, 14, 15])
       (lower_char c)"

fun digits_value :: "nat \<Rightarrow> string \<Rightarrow> nat \<Rightarrow> nat option" where
  "digits_value base [] acc = Some acc"
| "digits_value base (c # cs) acc =
     (case digit_value c of
        None \<Rightarrow> None
      | Some d \<Rightarrow> if d < base then digits_value base cs (acc * base + d) else None)"

definition parse_digits :: "nat \<Rightarrow> string \<Rightarrow> nat option" where
  "parse_digits base s = (if s = [] then None else digits_value base s 0)"

definition BigInt :: "string \<Rightarrow> int option" where
  "BigInt s =
     (let t = trim s in
      if t = [] then Some 0
      else if toLowerCase (take 2 t) = ''0x'' then map_option int (parse_digits 16 (drop 2 t))
      else if toLowerCase (take 2 t) = ''0o'' then map_option int (parse_digits 8 (drop 2 t))
      else if toLowerCase (take 2 t) = ''0b'' then map_option int (parse_digits 2 (drop 2 t))
      else if take 1 t = ''-'' then map_option (\<lambda>n. - int n) (parse_digits 10 (drop 1 t))
      else if take 1 t = ''+'' then map_option int (parse_digits 10 (drop 1 t))
      else map_option int (parse_digits 10 t))"

text \<open>\<open>data.amount.toString().replace(/,/g, "")\<close> and the bigint of the result.\<close>

definition strip_commas :: "string \<Rightarrow> string" where
  "strip_commas s = filter (\<lambda>c. c \<noteq> CHR '','') s"

definition parse_amount :: "string \<Rightarrow> int option" where
  "parse_amount s = BigInt (strip_commas s)"

section \<open>State impact from events (runtime-module)\<close>

record NativeBalance =
  free :: int
  reserved :: int
  frozen :: int

record WasmBalanceSnapshot =
  wasm_native :: NativeBalance
  assets :: "(nat \<times> int) list"

record WasmTokenBalance =
  wtb_token :: string
  wtb_assetId :: "nat option"
  wtb_balance :: int
  wtb_decimals :: nat
  wtb_symbol :: string

record WasmBalanceChange =
  wch_token :: string
  wch_assetId :: "nat option"
  wch_before :: int
  wch_after :: int
  wch_delta :: int
  wch_decimals :: nat
  wch_symbol :: string

record WasmAddressState =
  wasm_address :: string
  wasm_before :: "WasmTokenBalance list"
  wasm_after :: "WasmTokenBalance list"
  wasm_changes :: "WasmBalanceChange list"

record WasmStateImpactReport =
  wasm_sender :: WasmAddressState
  wasm_recipient :: "WasmAddressState option"
  otherAffected :: "WasmAddressState list"

text \<open>
  The first loop of \<open>buildStateFromEvents\<close>: the map \<open>balanceDeltas\<close> after the events.
  The amount is parsed before the map is touched, so a SyntaxError leaves the loop at
  once.
\<close>

fun reduce_events :: "WasmDecodedEvent list \<Rightarrow> (string \<times> int) list
    \<Rightarrow> js_exception + (string \<times> int) list" where
  "reduce_events [] balanceDeltas = Inr balanceDeltas"
| "reduce_events (event # rest) balanceDeltas =
     (if pallet event = ''balances''
      then
        if method_name event = ''Transfer''
        then (case parse_amount (data_amount event) of
                None \<Rightarrow> Inl (SyntaxError ''Cannot convert to a BigInt'')
              | Some amount \<Rightarrow>
                  let d1 = obj_set (data_from event)
                             (get_or_zero balanceDeltas (data_from event) - amount)
                             balanceDeltas;
                      d2 = obj_set (data_to event)
                             (get_or_zero d1 (data_to event) + amount) d1
                  in reduce_events rest d2)
        else if method_name event = ''Withdraw''
        then (case parse_amount (data_amount event) of
                None \<Rightarrow> Inl (SyntaxError ''Cannot convert to a BigInt'')
              | Some amount \<Rightarrow>
                  reduce_events rest
                    (obj_set (data_who event)
                       (get_or_zero balanceDeltas (data_who event) - amount) balanceDeltas))
        else if method_name event = ''Deposit''
        then (case parse_amount (data_amount event) of
                None \<Rightarrow> Inl (SyntaxError ''Cannot convert to a BigInt'')
              | Some amount \<Rightarrow>
                  reduce_events rest
                    (obj_set (data_who event)
                       (get_or_zero balanceDeltas (data_who event) + amount) balanceDeltas))
        else reduce_events rest balanceDeltas
      else reduce_events rest balanceDeltas)"

text \<open>The total controlled balance of an address before: free plus reserved, zero when not snapshotted.\<close>

definition total_before :: "(string \<times> WasmBalanceSnapshot) list \<Rightarrow> string \<Rightarrow> int" where
  "total_before balancesBefore addr =
     (case map_of balancesBefore addr of
        Some snapshot \<Rightarrow> free (wasm_native snapshot) + reserved (wasm_native snapshot)
      | None \<Rightarrow> 0)"

definition wasm_native_balance :: "string \<Rightarrow> nat \<Rightarrow> int \<Rightarrow> WasmTokenBalance" where
  "wasm_native_balance nativeSymbol nativeDecimals bal =
     \<lparr> wtb_token = nativeSymbol, wtb_assetId = None, wtb_balance = bal,
       wtb_decimals = nativeDecimals, wtb_symbol = nativeSymbol \<rparr>"

definition wasm_native_change :: "string \<Rightarrow> nat \<Rightarrow> int \<Rightarrow> int \<Rightarrow> int \<Rightarrow> WasmBalanceChange" where
  "wasm_native_change nativeSymbol nativeDecimals bef aft delta =
     \<lparr> wch_token = nativeSymbol, wch_assetId = None, wch_before = bef, wch_after = aft,
       wch_delta = delta, wch_decimals = nativeDecimals, wch_symbol = nativeSymbol \<rparr>"

definition changed_row :: "string \<Rightarrow> nat \<Rightarrow> string \<Rightarrow> int \<Rightarrow> int \<Rightarrow> WasmAddressState" where
  "changed_row nativeSymbol nativeDecimals addr bef delta =
     \<lparr> wasm_address = addr,
       wasm_before = [wasm_native_balance nativeSymbol nativeDecimals bef],
       wasm_after = [wasm_native_balance nativeSymbol nativeDecimals (bef + delta)],
       wasm_changes = [wasm_native_change nativeSymbol nativeDecimals bef (bef + delta) delta] \<rparr>"

fun other_affected_loop :: "string \<Rightarrow> string option \<Rightarrow> (string \<times> WasmBalanceSnapshot) list
    \<Rightarrow> string \<Rightarrow> nat \<Rightarrow> (string \<times> int) list \<Rightarrow> WasmAddressState list" where
  "other_affected_loop sndr rcpt balancesBefore nativeSymbol nativeDecimals [] = []"
| "other_affected_loop sndr rcpt balancesBefore nativeSymbol nativeDecimals
     ((addr, delta) # rest) =
     (if addr = sndr \<or> Some addr = rcpt \<or> delta = 0
      then other_affected_loop sndr rcpt balancesBefore nativeSymbol nativeDecimals rest
      else changed_row nativeSymbol nativeDecimals addr (total_before balancesBefore addr) delta
           # other_affected_loop sndr rcpt balancesBefore nativeSymbol nativeDecimals rest)"

definition buildStateFromEvents :: "string \<Rightarrow> string option \<Rightarrow> WasmDecodedEvent list
    \<Rightarrow> (string \<times> WasmBalanceSnapshot) list \<Rightarrow> string \<Rightarrow> nat
    \<Rightarrow> js_exception + WasmStateImpactReport" where
  "buildStateFromEvents sndr rcpt evs balancesBefore nativeSymbol nativeDecimals =
     (case reduce_events evs [] of
        Inl exn \<Rightarrow> Inl exn
      | Inr balanceDeltas \<Rightarrow>
          (let senderBefore = total_before balancesBefore sndr;
               senderDelta = get_or_zero balanceDeltas sndr;
               senderAfter = senderBefore + senderDelta;
               senderState =
                 \<lparr> wasm_address = sndr,
                   wasm_before = [wasm_native_balance nativeSymbol nativeDecimals senderBefore],
                   wasm_after = [wasm_native_balance nativeSymbol nativeDecimals senderAfter],
                   wasm_changes =
                     (if senderDelta \<noteq> 0
                      then [wasm_native_change nativeSymbol nativeDecimals senderBefore
                              senderAfter senderDelta]
                      else []) \<rparr>;
               recipientState =
                 (case truthy_value rcpt of
                    None \<Rightarrow> None
                  | Some r \<Rightarrow>
                      (let recipientBefore = total_before balancesBefore r;
                           recipientDelta = get_or_zero balanceDeltas r
                       in if recipientDelta \<noteq> 0
                          then Some (changed_row nativeSymbol nativeDecimals r recipientBefore
                                       recipientDelta)
                          else None))
           in Inr \<lparr> wasm_sender = senderState, wasm_recipient = recipientState,
                    otherAffected = other_affected_loop sndr rcpt balancesBefore nativeSymbol
                                      nativeDecimals balanceDeltas \<rparr>))"

text \<open>
  The reduction in the words of the specification. The injected extrinsic is the one
  with the greatest index among the \<open>ApplyExtrinsic\<close> phases of the block; its events
  are the events of the records whose phase is \<open>ApplyExtrinsic\<close> of that index, in
  block order.
\<close>

definition extrinsic_indices :: "WasmEventRecord list \<Rightarrow> nat list" where
  "extrinsic_indices recs =
     concat (map (\<lambda>r. case rec_phase r of ApplyExtrinsic i \<Rightarrow> [i] | _ \<Rightarrow> []) recs)"

definition injected_index :: "WasmEventRecord list \<Rightarrow> nat option" where
  "injected_index recs =
     (if extrinsic_indices recs = [] then None else Some (Max (set (extrinsic_indices recs))))"

definition injected_events :: "WasmEventRecord list \<Rightarrow> WasmDecodedEvent list" where
  "injected_events recs =
     map rec_event
       (filter (\<lambda>r. injected_index recs \<noteq> None
                     \<and> rec_phase r = ApplyExtrinsic (the (injected_index recs))) recs)"

text \<open>
  The amount of an event is its text without the thousands separators, read as an
  integer the way the language reads a string into a bigint (0 for a text that cannot
  be read, which the reducer never gets past). For a text of decimal digits and
  separators this is the number that the digits spell.
\<close>

definition separators_stripped :: "string \<Rightarrow> string" where
  "separators_stripped s = concat (map (\<lambda>c. if c = CHR '','' then [] else [c]) s)"

definition amount_of :: "string \<Rightarrow> int" where
  "amount_of s = (case BigInt (separators_stripped s) of Some n \<Rightarrow> n | None \<Rightarrow> 0)"



text \<open>
  The contribution of one event to the native delta of an address: a balances.Transfer
  takes the amount from \<open>from\<close> and gives it to \<open>to\<close>, a balances.Withdraw takes it
  from \<open>who\<close>, a balances.Deposit gives it to \<open>who\<close>, and every other event, Reserved
  and Unreserved and the events of other pallets among them, contributes nothing. The
  native delta of an address is the sum over the events.
\<close>

definition event_contribution :: "string \<Rightarrow> WasmDecodedEvent \<Rightarrow> int" where
  "event_contribution addr event =
     (if pallet event = ''balances'' \<and> method_name event = ''Transfer''
      then (if data_from event = addr then - amount_of (data_amount event) else 0)
           + (if data_to event = addr then amount_of (data_amount event) else 0)
      else if pallet event = ''balances'' \<and> method_name event = ''Withdraw''
      then (if data_who event = addr then - amount_of (data_amount event) else 0)
      else if pallet event = ''balances'' \<and> method_name event = ''Deposit''
      then (if data_who event = addr then amount_of (data_amount event) else 0)
      else 0)"

definition native_delta :: "WasmDecodedEvent list \<Rightarrow> string \<Rightarrow> int" where
  "native_delta evs addr = sum_list (map (event_contribution addr) evs)"



section \<open>Balance snapshotter (account-model)\<close>

text \<open>
  What the fork answers to the reads of the snapshotter: \<open>provider.getBalance\<close> and the
  \<open>balanceOf\<close> call of a token contract, each of which throws or returns.
  \<open>getTokenBalance\<close> catches every failure and answers zero.
\<close>

record evm_chain =
  getBalance :: "string \<Rightarrow> (js_value, int) outcome"
  balanceOf :: "string \<Rightarrow> string \<Rightarrow> (js_value, int) outcome"

definition getTokenBalance :: "evm_chain \<Rightarrow> string \<Rightarrow> string \<Rightarrow> int" where
  "getTokenBalance chain tokenAddress walletAddress =
     (case balanceOf chain tokenAddress walletAddress of
        Throws e \<Rightarrow> 0
      | Returns b \<Rightarrow> b)"

fun capture_tokens :: "evm_chain \<Rightarrow> string \<Rightarrow> string list \<Rightarrow> (string \<times> int) list
    \<Rightarrow> (string \<times> int) list" where
  "capture_tokens chain addr [] toks = toks"
| "capture_tokens chain addr (tokenAddress # rest) toks =
     capture_tokens chain addr rest
       (obj_set (toLowerCase tokenAddress) (getTokenBalance chain tokenAddress addr) toks)"

fun capture_loop :: "evm_chain \<Rightarrow> string list \<Rightarrow> string list
    \<Rightarrow> (string \<times> BalanceSnapshot) list \<Rightarrow> js_value + (string \<times> BalanceSnapshot) list" where
  "capture_loop chain [] tokenAddresses snapshots = Inr snapshots"
| "capture_loop chain (addr # rest) tokenAddresses snapshots =
     (case getBalance chain addr of
        Throws e \<Rightarrow> Inl e
      | Returns bal \<Rightarrow>
          capture_loop chain rest tokenAddresses
            (obj_set (toLowerCase addr)
               \<lparr> native = bal, tokens = capture_tokens chain addr tokenAddresses [] \<rparr>
               snapshots))"

definition captureBalances :: "evm_chain \<Rightarrow> string list \<Rightarrow> string list
    \<Rightarrow> js_value + (string \<times> BalanceSnapshot) list" where
  "captureBalances chain addresses tokenAddresses =
     capture_loop chain addresses tokenAddresses []"

section \<open>Balance snapshotter (runtime-module)\<close>

text \<open>
  The reads of the runtime-module snapshotter. \<open>system.account\<close> throws or returns the
  account data, whose fields are rendered with \<open>toString()\<close> (\<open>frozen\<close> may be missing).
  \<open>assets.account\<close> exists only when the chain has the assets pallet; it throws or
  returns an optional asset account, of which the balance is read.
\<close>

record account_data =
  data_free :: string
  data_reserved :: string
  data_frozen :: "string option"

record wasm_chain =
  system_account :: "string \<Rightarrow> (js_value, account_data) outcome"
  assets_account :: "(nat \<Rightarrow> string \<Rightarrow> (js_value, string option) outcome) option"

text \<open>One asset: the inner \<open>try\<close> with its \<open>catch\<close>, which stores zero.\<close>

definition capture_asset :: "wasm_chain \<Rightarrow> string \<Rightarrow> nat \<Rightarrow> (nat \<times> int) list \<Rightarrow> (nat \<times> int) list" where
  "capture_asset chain addr assetId as =
     (case assets_account chain of
        None \<Rightarrow> as
      | Some query \<Rightarrow>
          (case query assetId addr of
             Throws e \<Rightarrow> obj_set assetId 0 as
           | Returns None \<Rightarrow> obj_set assetId 0 as
           | Returns (Some bal) \<Rightarrow>
               (case BigInt bal of
                  None \<Rightarrow> obj_set assetId 0 as
                | Some b \<Rightarrow> obj_set assetId b as)))"

fun capture_assets :: "wasm_chain \<Rightarrow> string \<Rightarrow> nat list \<Rightarrow> (nat \<times> int) list \<Rightarrow> (nat \<times> int) list" where
  "capture_assets chain addr [] as = as"
| "capture_assets chain addr (assetId # rest) as =
     capture_assets chain addr rest (capture_asset chain addr assetId as)"

text \<open>The body of the outer \<open>try\<close> for one address: it throws or yields the snapshot.\<close>

definition capture_address :: "wasm_chain \<Rightarrow> string \<Rightarrow> nat list \<Rightarrow> js_value + WasmBalanceSnapshot" where
  "capture_address chain addr assetIds =
     (case system_account chain addr of
        Throws e \<Rightarrow> Inl e
      | Returns d \<Rightarrow>
          (case (BigInt (data_free d), BigInt (data_reserved d),
                 BigInt (case truthy_value (data_frozen d) of Some f \<Rightarrow> f | None \<Rightarrow> ''0'')) of
             (Some f, Some r, Some z) \<Rightarrow>
               Inr \<lparr> wasm_native = \<lparr> free = f, reserved = r, frozen = z \<rparr>,
                     assets = capture_assets chain addr assetIds [] \<rparr>
           | _ \<Rightarrow> Inl (thrown_value (SyntaxError ''Cannot convert to a BigInt''))))"

definition zero_wasm_snapshot :: WasmBalanceSnapshot where
  "zero_wasm_snapshot = \<lparr> wasm_native = \<lparr> free = 0, reserved = 0, frozen = 0 \<rparr>, assets = [] \<rparr>"

text \<open>
  The loop over the addresses, with the lines written by \<open>console.error\<close>. The
  \<open>catch\<close> of the outer \<open>try\<close> logs and stores the zero snapshot; nothing else in the
  loop can throw, and the function returns the map.
\<close>

definition balance_warning :: "string \<Rightarrow> string" where
  "balance_warning addr = ''Failed to get balance for '' @ addr @ '':''"

fun wasm_capture_loop :: "wasm_chain \<Rightarrow> string list \<Rightarrow> nat list
    \<Rightarrow> (string \<times> WasmBalanceSnapshot) list \<times> string list
    \<Rightarrow> js_value + (string \<times> WasmBalanceSnapshot) list \<times> string list" where
  "wasm_capture_loop chain [] assetIds (snapshots, log) = Inr (snapshots, log)"
| "wasm_capture_loop chain (addr # rest) assetIds (snapshots, log) =
     (case capture_address chain addr assetIds of
        Inr snapshot \<Rightarrow>
          wasm_capture_loop chain rest assetIds (obj_set addr snapshot snapshots, log)
      | Inl e \<Rightarrow>
          wasm_capture_loop chain rest assetIds
            (obj_set addr zero_wasm_snapshot snapshots,
             log @ [balance_warning addr]))"

definition wasm_captureBalances :: "wasm_chain \<Rightarrow> string list \<Rightarrow> nat list
    \<Rightarrow> js_value + (string \<times> WasmBalanceSnapshot) list \<times> string list" where
  "wasm_captureBalances chain addresses assetIds =
     wasm_capture_loop chain addresses assetIds ([], [])"

text \<open>
  Chains for concrete evaluations. On the first, an account-model chain, every native
  read fails. On the second, an account-model chain, every native balance is 5 and the
  token contract \<open>address_b\<close> fails to answer while every other token answers 7. On
  the third, a runtime-module chain, the account of \<open>bob\<close> cannot be read; the account
  of asset 1 cannot be read, that of asset 2 is missing, and every other asset account
  holds 42.
\<close>

definition failing_evm_chain :: evm_chain where
  "failing_evm_chain =
     \<lparr> getBalance = (\<lambda>a. Throws (new_Error ''Balance fetch failed'')),
       balanceOf = (\<lambda>t a. Returns 0) \<rparr>"

definition token_failing_chain :: evm_chain where
  "token_failing_chain =
     \<lparr> getBalance = (\<lambda>a. Returns 5),
       balanceOf = (\<lambda>t a. if t = address_b then Throws (new_Error ''call revert exception'')
                          else Returns 7) \<rparr>"

definition asset_failing_chain :: wasm_chain where
  "asset_failing_chain =
     \<lparr> system_account =
         (\<lambda>a. if a = ''bob'' then Throws (new_Error ''Query failed'')
               else Returns \<lparr> data_free = ''2000'', data_reserved = ''7'',
                               data_frozen = None \<rparr>),
       assets_account =
         Some (\<lambda>i a. if i = 1 then Throws (new_Error ''Asset query failed'')
                      else if i = 2 then Returns None
                      else Returns (Some ''42'')) \<rparr>"

section \<open>Simulation engine (account-model)\<close>

text \<open>
  Awaited calls are sequenced by \<open>await\<close>: the first one that throws ends the sequence
  with the thrown value. An exception of the language becomes the value it throws.
\<close>

definition await :: "('e, 'a) outcome \<Rightarrow> ('a \<Rightarrow> ('e, 'b) outcome) \<Rightarrow> ('e, 'b) outcome" where
  "await x f = (case x of Throws e \<Rightarrow> Throws e | Returns v \<Rightarrow> f v)"

definition raising :: "js_exception + 'a \<Rightarrow> (js_value, 'a) outcome" where
  "raising r = (case r of Inl exn \<Rightarrow> Throws (thrown_value exn) | Inr v \<Rightarrow> Returns v)"

definition throwing :: "js_value + 'a \<Rightarrow> (js_value, 'a) outcome" where
  "throwing r = (case r of Inl e \<Rightarrow> Throws e | Inr v \<Rightarrow> Returns v)"

record SimulateRequest =
  req_sender :: string
  tx_to :: string
  tx_data :: "string option"
  tx_value :: "string option"
  tx_gasLimit :: "string option"
  req_trackTokens :: "string list option"

record receipt =
  rc_status :: "int option"
  rc_logs :: "raw_log list option"
  rc_gasUsed :: int
  rc_gasPrice :: "int option"

record GasReport =
  gasUsed :: int
  gasPrice :: int
  totalCostWei :: int
  totalCostNative :: string
  nativeSymbol :: string

text \<open>
  The response of both engines: \<open>error\<close> is an optional property, absent when it is
  \<open>None\<close>.
\<close>

record ('st, 'ev, 'gas, 'err) SimulateResponse =
  success :: bool
  stateChanges :: 'st
  events :: "'ev list"
  gas :: 'gas
  error :: "'err option"

type_synonym EvmResponse = "(StateImpactReport, DecodedEvent, GasReport, DecodedError) SimulateResponse"

text \<open>
  The libraries and the configuration the engine is linked with: the event catalogue,
  the ABI coder, the address check, the token metadata reader, \<open>ethers.formatEther\<close>
  and the native symbol.
\<close>

record 'i evm_env =
  env_catalogue :: "'i event_catalogue"
  env_abi :: ethers_abi
  env_isAddress :: "string \<Rightarrow> bool"
  env_getTokenMetadata :: "string \<Rightarrow> TokenMetadata"
  env_formatEther :: "int \<Rightarrow> string"
  NATIVE_SYMBOL :: string

text \<open>
  What the fork backend and the live RPC answer to the calls of one run, in the order
  in which the engine makes them. The three snapshot captures read the chain at three
  different moments.
\<close>

record anvil_world =
  aw_connected :: bool
  aw_snapshot :: "(js_value, string) outcome"
  aw_chain_before :: evm_chain
  aw_live_fee :: "(js_value, int option) outcome"
  aw_fork_fee :: "(js_value, int option) outcome"
  aw_getImpersonatedSigner :: "(js_value, unit) outcome"
  aw_sendTransaction :: "(js_value, unit) outcome"
  aw_wait :: "(js_value, receipt option) outcome"
  aw_revert_lookup :: "(js_value, bool) outcome"
  aw_chain_historical :: evm_chain
  aw_sendTransaction2 :: "(js_value, unit) outcome"
  aw_wait2 :: "(js_value, unit) outcome"
  aw_chain_after :: evm_chain
  aw_stopImpersonating :: "(js_value, unit) outcome"
  aw_revert_cleanup :: "(js_value, bool) outcome"
  aw_reset :: "(js_value, unit) outcome"

definition set_add :: "'a \<Rightarrow> 'a list \<Rightarrow> 'a list" where
  "set_add x xs = (if x \<in> set xs then xs else xs @ [x])"

definition getCurrentGasPrice :: "anvil_world \<Rightarrow> (js_value, int) outcome" where
  "getCurrentGasPrice w =
     (case aw_live_fee w of
        Returns g \<Rightarrow> Returns (case g of None \<Rightarrow> 0 | Some p \<Rightarrow> p)
      | Throws e \<Rightarrow>
          (case aw_fork_fee w of
             Returns g \<Rightarrow> Returns (case g of None \<Rightarrow> 0 | Some p \<Rightarrow> p)
           | Throws e' \<Rightarrow> Throws e'))"

text \<open>\<open>x ? BigInt(x) : fallback\<close> for the optional decimal strings of the transaction.\<close>

definition optional_BigInt :: "string option \<Rightarrow> (js_value, int option) outcome" where
  "optional_BigInt x =
     (case truthy_value x of
        None \<Rightarrow> Returns None
      | Some s \<Rightarrow>
          (case BigInt s of
             None \<Rightarrow> Throws (thrown_value (SyntaxError ''Cannot convert to a BigInt''))
           | Some n \<Rightarrow> Returns (Some n)))"

text \<open>The addresses of the Transfer events that are not tracked yet.\<close>

definition discover_field :: "(string \<times> string) list \<Rightarrow> string \<Rightarrow> string list \<Rightarrow> string list
    \<Rightarrow> string list" where
  "discover_field args field addressesToTrack newAddresses =
     (case truthy_value (map_of args field) of
        None \<Rightarrow> newAddresses
      | Some a \<Rightarrow>
          (let addr = toLowerCase a in
           if addr \<notin> set addressesToTrack then set_add addr newAddresses else newAddresses))"

fun discover :: "DecodedEvent list \<Rightarrow> string list \<Rightarrow> string list \<Rightarrow> string list" where
  "discover [] addressesToTrack newAddresses = newAddresses"
| "discover (event # rest) addressesToTrack newAddresses =
     (if ev_name event = ''Transfer''
      then discover rest addressesToTrack
             (discover_field (ev_args event) ''to'' addressesToTrack
                (discover_field (ev_args event) ''from'' addressesToTrack newAddresses))
      else discover rest addressesToTrack newAddresses)"

text \<open>The merge loop: each new address is tracked, and its historical snapshot, when there is one, becomes its BEFORE snapshot.\<close>

fun merge_historical :: "string list \<Rightarrow> (string \<times> BalanceSnapshot) list option
    \<Rightarrow> (string \<times> BalanceSnapshot) list \<Rightarrow> (string \<times> BalanceSnapshot) list" where
  "merge_historical [] historicalBalances balancesBefore = balancesBefore"
| "merge_historical (addr # rest) historicalBalances balancesBefore =
     merge_historical rest historicalBalances
       (case historicalBalances of
          None \<Rightarrow> balancesBefore
        | Some h \<Rightarrow>
            (case map_of h addr of
               None \<Rightarrow> balancesBefore
             | Some s \<Rightarrow> obj_set addr s balancesBefore))"

definition calculateGasReport :: "(int \<Rightarrow> string) \<Rightarrow> receipt option \<Rightarrow> string \<Rightarrow> GasReport" where
  "calculateGasReport formatEther rcpt symbol =
     (case rcpt of
        None \<Rightarrow>
          \<lparr> gasUsed = 0, gasPrice = 0, totalCostWei = 0, totalCostNative = ''0'',
            nativeSymbol = symbol \<rparr>
      | Some r \<Rightarrow>
          (let gu = rc_gasUsed r;
               gp = (case rc_gasPrice r of None \<Rightarrow> 0 | Some p \<Rightarrow> p);
               total = gu * gp
           in \<lparr> gasUsed = gu, gasPrice = gp, totalCostWei = total,
                totalCostNative = formatEther total, nativeSymbol = symbol \<rparr>))"

definition emptyStateReport :: "SimulateRequest \<Rightarrow> StateImpactReport" where
  "emptyStateReport request =
     \<lparr> sender = \<lparr> address = toLowerCase (req_sender request), before = [], after = [],
                   changes = [] \<rparr>,
       recipient = \<lparr> address = toLowerCase (tx_to request), before = [], after = [],
                      changes = [] \<rparr>,
       contractsAffected = [] \<rparr>"

definition emptyGasReport :: "string \<Rightarrow> GasReport" where
  "emptyGasReport symbol =
     \<lparr> gasUsed = 0, gasPrice = 0, totalCostWei = 0, totalCostNative = ''0'',
       nativeSymbol = symbol \<rparr>"

text \<open>
  The two-pass step: with new addresses, the engine reverts to the snapshot (a false
  answer is thrown as a fatal error), captures their historical balances and executes
  the transaction again.
\<close>

definition historical_lookup :: "anvil_world \<Rightarrow> SimulateRequest \<Rightarrow> string list
    \<Rightarrow> (js_value, (string \<times> BalanceSnapshot) list option) outcome" where
  "historical_lookup w request newAddresses =
     (if newAddresses \<noteq> []
      then
        await (aw_revert_lookup w) (\<lambda>revertSuccess.
          if \<not> revertSuccess
          then Throws (new_Error
                 ''FATAL: Failed to revert to snapshot for historical balance lookup'')
          else
            await (throwing (captureBalances (aw_chain_historical w) newAddresses
                     (case req_trackTokens request of None \<Rightarrow> [] | Some ts \<Rightarrow> ts)))
              (\<lambda>historicalBalances.
            await (optional_BigInt (tx_value request)) (\<lambda>val.
            await (optional_BigInt (tx_gasLimit request)) (\<lambda>gasLimit.
            await (aw_sendTransaction2 w) (\<lambda>tx2.
            await (aw_wait2 w) (\<lambda>u.
              Returns (Some historicalBalances)))))))
      else Returns None)"

text \<open>
  The \<open>try\<close> block up to the impersonation (after which \<open>impersonating\<close> is true): the
  tracked addresses, the extracted recipient and the BEFORE snapshot.
\<close>

definition prepare :: "'i evm_env \<Rightarrow> anvil_world \<Rightarrow> SimulateRequest
    \<Rightarrow> (js_value, string list \<times> string option \<times> (string \<times> BalanceSnapshot) list) outcome" where
  "prepare env w request =
     (let trackTokens = (case req_trackTokens request of None \<Rightarrow> [] | Some ts \<Rightarrow> ts);
          extractedRecipient = extractTransferRecipient (env_isAddress env) (tx_data request);
          addressesToTrack0 =
            new_Set [toLowerCase (req_sender request), toLowerCase (tx_to request)];
          addressesToTrack =
            (case truthy_value extractedRecipient of
               None \<Rightarrow> addressesToTrack0
             | Some r \<Rightarrow> set_add (toLowerCase r) addressesToTrack0)
      in
        await (throwing (captureBalances (aw_chain_before w) addressesToTrack trackTokens))
          (\<lambda>balancesBefore.
        await (getCurrentGasPrice w) (\<lambda>currentGasPrice.
        await (aw_getImpersonatedSigner w) (\<lambda>signer.
          Returns (addressesToTrack, extractedRecipient, balancesBefore)))))"

text \<open>The rest of the \<open>try\<close> block, from the first execution to the returned response.\<close>

definition execute_and_report :: "'i evm_env \<Rightarrow> anvil_world \<Rightarrow> SimulateRequest
    \<Rightarrow> string list \<times> string option \<times> (string \<times> BalanceSnapshot) list
    \<Rightarrow> (js_value, EvmResponse) outcome" where
  "execute_and_report env w request prepared =
     (case prepared of (addressesToTrack, extractedRecipient, balancesBefore) \<Rightarrow>
      let trackTokens = (case req_trackTokens request of None \<Rightarrow> [] | Some ts \<Rightarrow> ts) in
        await (optional_BigInt (tx_value request)) (\<lambda>val.
        await (optional_BigInt (tx_gasLimit request)) (\<lambda>gasLimit.
        await (aw_sendTransaction w) (\<lambda>tx.
        await (aw_wait w) (\<lambda>rcpt.
          let evs = (case rcpt of
                       None \<Rightarrow> []
                     | Some r \<Rightarrow>
                         (case rc_logs r of
                            None \<Rightarrow> []
                          | Some logs \<Rightarrow> decodeLogs (env_catalogue env) logs));
              newAddresses = discover evs addressesToTrack []
          in
            await (historical_lookup w request newAddresses) (\<lambda>historicalBalances.
              let tracked = addressesToTrack @ newAddresses;
                  merged = merge_historical newAddresses historicalBalances balancesBefore
              in
                await (throwing (captureBalances (aw_chain_after w) tracked trackTokens))
                  (\<lambda>balancesAfter.
                await (raising (buildStateImpactReport (env_getTokenMetadata env)
                         (req_sender request) (tx_to request) trackTokens merged balancesAfter
                         (NATIVE_SYMBOL env) extractedRecipient))
                  (\<lambda>report.
                  let gasReport = calculateGasReport (env_formatEther env) rcpt
                                    (NATIVE_SYMBOL env);
                      ok = (case rcpt of None \<Rightarrow> False | Some r \<Rightarrow> rc_status r = Some 1)
                  in Returns
                       \<lparr> success = ok, stateChanges = report, events = evs, gas = gasReport,
                         error = (if ok then None
                                  else Some \<lparr> err_type = Revert,
                                              message = JsString ''Transaction reverted'',
                                              raw = None \<rparr>) \<rparr>))))))))"

text \<open>
  The \<open>catch\<close> block: whatever the \<open>try\<close> block threw is decoded and returned as a
  failed response. The decoder itself throws on \<open>null\<close> and \<open>undefined\<close>.
\<close>

definition catch_block :: "'i evm_env \<Rightarrow> SimulateRequest \<Rightarrow> (js_value, EvmResponse) outcome
    \<Rightarrow> (js_value, EvmResponse) outcome" where
  "catch_block env request tried =
     (case tried of
        Returns r \<Rightarrow> Returns r
      | Throws err \<Rightarrow>
          await (raising (decodeEVMError (env_abi env) err)) (\<lambda>decodedError.
            Returns \<lparr> success = False, stateChanges = emptyStateReport request, events = [],
                      gas = emptyGasReport (NATIVE_SYMBOL env), error = Some decodedError \<rparr>))"

text \<open>
  The \<open>finally\<close> block. A failure to stop impersonating is ignored. The revert must
  answer true; a false answer or a throw leads to the reset, and when the reset throws
  as well the block throws the fatal error, which replaces the result of the
  \<open>try\<close> and \<open>catch\<close> blocks.
\<close>

definition cleanup :: "anvil_world \<Rightarrow> bool \<Rightarrow> (js_value, unit) outcome" where
  "cleanup w impersonating =
     (let ignored = (if impersonating then aw_stopImpersonating w else Returns ()) in
      case (case aw_revert_cleanup w of
              Returns revertSuccess \<Rightarrow>
                if \<not> revertSuccess
                then Throws (new_Error
                       ''FATAL: Failed to revert snapshot - state may be corrupted'')
                else Returns ()
            | Throws e \<Rightarrow> Throws e) of
        Returns u \<Rightarrow> Returns ()
      | Throws revertError \<Rightarrow>
          (case aw_reset w of
             Returns u \<Rightarrow> Returns ()
           | Throws resetError \<Rightarrow>
               Throws (new_Error
                 (''FATAL: State cleanup failed - both revert and reset failed. State is corrupted. Revert error: ''
                  @ template_text revertError @ ''. Reset error: ''
                  @ template_text resetError))))"

definition executeSimulation :: "'i evm_env \<Rightarrow> anvil_world \<Rightarrow> SimulateRequest
    \<Rightarrow> (js_value, EvmResponse) outcome" where
  "executeSimulation env w request =
     (if \<not> aw_connected w
      then Throws (new_Error ''Anvil not connected. Call connect() first.'')
      else
        await (aw_snapshot w) (\<lambda>snapshotId.
          let prepared = prepare env w request;
              impersonating = (case prepared of Returns p \<Rightarrow> True | Throws e \<Rightarrow> False);
              tried = await prepared (execute_and_report env w request);
              caught = catch_block env request tried
          in case cleanup w impersonating of
               Throws fatal \<Rightarrow> Throws fatal
             | Returns u \<Rightarrow> caught))"

text \<open>
  \<open>simulateTransaction\<close> runs the engine between the acquisition and the release of
  the backend mutex; its result is the engine's.
\<close>

definition simulateTransaction :: "'i evm_env \<Rightarrow> anvil_world \<Rightarrow> SimulateRequest
    \<Rightarrow> (js_value, EvmResponse) outcome" where
  "simulateTransaction env w request = executeSimulation env w request"

text \<open>
  A run for concrete evaluations. The sender \<open>address_a\<close> calls the token contract
  \<open>address_b\<close>; the receipt carries one Transfer log from the sender to \<open>address_c\<close>,
  an address that is not tracked; the fork answers false to the revert of the historical
  lookup and true to the revert of the cleanup.
\<close>

definition example_env :: "unit evm_env" where
  "example_env =
     \<lparr> env_catalogue = transfer_catalogue, env_abi = rejecting_abi,
       env_isAddress = isHexAddress, env_getTokenMetadata = unknown_metadata,
       env_formatEther = show_int, NATIVE_SYMBOL = ''GLMR'' \<rparr>"

definition example_request :: SimulateRequest where
  "example_request =
     \<lparr> req_sender = address_a, tx_to = address_b, tx_data = None, tx_value = None,
       tx_gasLimit = None, req_trackTokens = None \<rparr>"

definition steady_chain :: evm_chain where
  "steady_chain = \<lparr> getBalance = (\<lambda>a. Returns 100), balanceOf = (\<lambda>t a. Returns 0) \<rparr>"

definition transfer_receipt :: receipt where
  "transfer_receipt =
     \<lparr> rc_status = Some 1,
       rc_logs = Some [transfer_log address_b address_a address_c 0],
       rc_gasUsed = 21000, rc_gasPrice = Some 1 \<rparr>"

definition lookup_revert_false_world :: anvil_world where
  "lookup_revert_false_world =
     \<lparr> aw_connected = True, aw_snapshot = Returns ''0x1'', aw_chain_before = steady_chain,
       aw_live_fee = Returns (Some 1), aw_fork_fee = Returns (Some 1),
       aw_getImpersonatedSigner = Returns (), aw_sendTransaction = Returns (),
       aw_wait = Returns (Some transfer_receipt), aw_revert_lookup = Returns False,
       aw_chain_historical = steady_chain, aw_sendTransaction2 = Returns (),
       aw_wait2 = Returns (), aw_chain_after = steady_chain,
       aw_stopImpersonating = Returns (), aw_revert_cleanup = Returns True,
       aw_reset = Returns () \<rparr>"

text \<open>
  Two more runs, of a request whose calldata is a token transfer of one unit to
  \<open>address_c\<close>: one on a fork where everything succeeds, and one on a fork where
  sending the transaction is rejected.
\<close>

definition transfer_calldata :: string where
  "transfer_calldata =
     ''0xa9059cbb''
     @ ''000000000000000000000000cccccccccccccccccccccccccccccccccccccccc''
     @ ''0000000000000000000000000000000000000000000000000000000000000001''"

definition token_transfer_request :: SimulateRequest where
  "token_transfer_request = example_request \<lparr> tx_data := Some transfer_calldata \<rparr>"

definition transfer_success_world :: anvil_world where
  "transfer_success_world = lookup_revert_false_world \<lparr> aw_revert_lookup := Returns True \<rparr>"

definition send_failure_world :: anvil_world where
  "send_failure_world =
     lookup_revert_false_world
       \<lparr> aw_sendTransaction := Throws (new_Error ''execution reverted'') \<rparr>"

definition the_logs :: "receipt \<Rightarrow> raw_log list" where
  "the_logs r = (case rc_logs r of None \<Rightarrow> [] | Some logs \<Rightarrow> logs)"

section \<open>Simulation engine (runtime-module)\<close>

text \<open>
  The request: a structured call, whose arguments matter to the engine only through
  \<open>toString()\<close> (\<open>None\<close> for a null or undefined argument), or raw hex.
\<close>

datatype extrinsic_def = Structured string string "string option list" | RawHex string

record WasmSimulateRequest =
  wasm_req_sender :: string
  req_extrinsic :: extrinsic_def
  req_trackAssets :: "nat list option"

record payment_info =
  partialFee :: string
  weight_refTime :: string
  weight_proofSize :: string

record WasmGasReport =
  gas_refTime :: string
  gas_proofSize :: string
  gas_partialFee :: string
  partialFeeFormatted :: string
  wasm_nativeSymbol :: string

record WasmDecodedError =
  wde_type :: string
  wde_pallet :: "string option"
  wde_error :: "string option"
  wde_message :: string
  wde_raw :: "string option"

type_synonym WasmResponse =
  "(WasmStateImpactReport, WasmDecodedEvent, WasmGasReport, WasmDecodedError) SimulateResponse"

text \<open>
  What the engine is linked with. \<open>decodeWasmError\<close> is the runtime-module error
  decoder, a collaborator of the engine that is taken as given here; \<open>compactToU8a\<close>
  is the library's compact length encoding; \<open>BigInt_pow10 d\<close> is
  \<open>BigInt(10 ** d)\<close>, the bigint of a floating-point power.
\<close>

record wasm_env =
  env_decodeWasmError :: "dispatch_error option \<Rightarrow> (js_value, WasmDecodedError) outcome"
  env_compactToU8a :: "nat \<Rightarrow> nat list"
  env_BigInt_pow10 :: "nat \<Rightarrow> int"

text \<open>
  What the fork answers to the calls of one run, in the order of the calls. The chain
  properties are the native symbol and decimals. \<open>cw_tx_exists\<close> tells whether
  \<open>api.tx[pallet]?.[method]\<close> is defined, \<open>cw_build\<close> is the construction of the
  extrinsic, nested calls included, and \<open>cw_signFake\<close> gives the bytes of the fake-signed
  extrinsic without length prefix.
\<close>

record chopsticks_world =
  cw_reset_first :: "(js_value, unit) outcome"
  cw_connected :: bool
  cw_properties :: "(js_value, string \<times> nat) outcome"
  cw_tx_exists :: bool
  cw_build :: "(js_value, unit) outcome"
  cw_chain :: wasm_chain
  cw_paymentInfo :: "(js_value, payment_info) outcome"
  cw_nonce :: "(js_value, nat) outcome"
  cw_signFake :: "(js_value, nat list) outcome"
  cw_submitExtrinsic :: "string \<Rightarrow> (js_value, unit) outcome"
  cw_newBlock :: "(js_value, unit) outcome"
  cw_events :: "(js_value, WasmEventRecord list) outcome"
  cw_reset_after_failure :: "(js_value, unit) outcome"
  cw_reset_after_success :: "(js_value, unit) outcome"
  cw_reset_in_catch :: "(js_value, unit) outcome"

text \<open>\<open>s.includes(sub)\<close>.\<close>

fun str_includes :: "string \<Rightarrow> string \<Rightarrow> bool" where
  "str_includes sub [] = (sub = [])"
| "str_includes sub (c # cs) = (take (length sub) (c # cs) = sub \<or> str_includes sub cs)"

text \<open>
  The signature patch: four marker bytes and sixty filler bytes from offset 35. A write
  beyond the end of a typed array is dropped, as list update is out of range.
\<close>

definition patch_signature :: "nat list \<Rightarrow> nat list" where
  "patch_signature bytes =
     (let sigStart = 35;
          b = bytes[sigStart := 0xde, sigStart + 1 := 0xad, sigStart + 2 := 0xbe,
                    sigStart + 3 := 0xef]
      in foldl (\<lambda>bs i. bs[sigStart + i := 0xcd]) b [4 ..< 64])"

definition extrinsic_hex :: "wasm_env \<Rightarrow> nat list \<Rightarrow> string" where
  "extrinsic_hex env bytes =
     ''0x'' @ concat (map (\<lambda>b. padStart2 (show_hex b))
                        (env_compactToU8a env (length bytes) @ bytes))"

text \<open>
  \<open>formatBalance\<close>: bigint division truncates towards zero, and the remainder has the
  sign of the dividend; \<open>padStart(decimals, "0")\<close> pads on the left.
\<close>

definition padStart :: "nat \<Rightarrow> string \<Rightarrow> string" where
  "padStart n s = replicate (n - length s) (CHR ''0'') @ s"

definition formatBalance :: "wasm_env \<Rightarrow> string \<Rightarrow> nat \<Rightarrow> (js_value, string) outcome" where
  "formatBalance env bal decimals =
     (case BigInt bal of
        None \<Rightarrow> Throws (thrown_value (SyntaxError ''Cannot convert to a BigInt''))
      | Some v \<Rightarrow>
          (let divisor = env_BigInt_pow10 env decimals in
           if divisor = 0 then Throws (new_Error ''Division by zero'')
           else
             let whole = sgn v * sgn divisor * (\<bar>v\<bar> div \<bar>divisor\<bar>);
                 fraction = sgn v * (\<bar>v\<bar> mod \<bar>divisor\<bar>);
                 fractionStr = slice 0 6 (padStart decimals (show_int fraction))
             in Returns (show_int whole @ ''.'' @ fractionStr)))"

definition wasm_emptyStateReport :: "string \<Rightarrow> WasmStateImpactReport" where
  "wasm_emptyStateReport sndr =
     \<lparr> wasm_sender = \<lparr> wasm_address = sndr, wasm_before = [], wasm_after = [],
                        wasm_changes = [] \<rparr>,
       wasm_recipient = None, otherAffected = [] \<rparr>"

definition wasm_emptyGasReport :: "string \<Rightarrow> WasmGasReport" where
  "wasm_emptyGasReport symbol =
     \<lparr> gas_refTime = ''0'', gas_proofSize = ''0'', gas_partialFee = ''0'',
       partialFeeFormatted = ''0'', wasm_nativeSymbol = symbol \<rparr>"

definition payment_gas :: "wasm_env \<Rightarrow> payment_info \<Rightarrow> string \<Rightarrow> nat
    \<Rightarrow> (js_value, WasmGasReport) outcome" where
  "payment_gas env paymentInfo symbol decimals =
     await (formatBalance env (partialFee paymentInfo) decimals) (\<lambda>formatted.
       Returns \<lparr> gas_refTime = weight_refTime paymentInfo,
                 gas_proofSize = weight_proofSize paymentInfo,
                 gas_partialFee = partialFee paymentInfo,
                 partialFeeFormatted = formatted, wasm_nativeSymbol = symbol \<rparr>)"

text \<open>The presumptive recipient of a structured call.\<close>

definition presumptive_recipient :: "string \<Rightarrow> string option list \<Rightarrow> string option" where
  "presumptive_recipient meth args =
     (if str_includes ''transfer'' (toLowerCase meth) \<and> length args > 0
      then (case args of a # rest \<Rightarrow> truthy_value a | [] \<Rightarrow> None)
      else None)"

text \<open>The events of the injected extrinsic: those of the highest extrinsic index of the block.\<close>

definition our_events :: "WasmEventRecord list \<Rightarrow> WasmDecodedEvent list" where
  "our_events allEventRecords =
     filterEventsByExtrinsicIndex allEventRecords (getLastExtrinsicIndex allEventRecords)"

definition find_failed :: "WasmDecodedEvent list \<Rightarrow> WasmDecodedEvent option" where
  "find_failed evs =
     List.find (\<lambda>e. pallet e = ''system'' \<and> method_name e = ''ExtrinsicFailed'') evs"

text \<open>
  The two exits of the \<open>try\<close> block. Each resets the fork first; when the reset
  throws, a fatal error is thrown in its place.
\<close>

definition failure_exit :: "wasm_env \<Rightarrow> chopsticks_world \<Rightarrow> string \<Rightarrow> string \<Rightarrow> nat
    \<Rightarrow> payment_info \<Rightarrow> WasmDecodedEvent list \<Rightarrow> WasmDecodedEvent
    \<Rightarrow> (js_value, WasmResponse) outcome" where
  "failure_exit env w sndr symbol decimals paymentInfo relevantEvents failedEvent =
     await (case cw_reset_after_failure w of
              Returns u \<Rightarrow> Returns u
            | Throws resetError \<Rightarrow>
                Throws (new_Error
                  (''FATAL: State cleanup failed after transaction failure. Reset error: ''
                   @ template_text resetError))) (\<lambda>u.
     await (payment_gas env paymentInfo symbol decimals) (\<lambda>gasReport.
     await (env_decodeWasmError env (data_dispatchError failedEvent)) (\<lambda>decodedError.
       Returns \<lparr> success = False, stateChanges = wasm_emptyStateReport sndr,
                 events = relevantEvents, gas = gasReport, error = Some decodedError \<rparr>)))"

definition success_exit :: "wasm_env \<Rightarrow> chopsticks_world \<Rightarrow> string \<Rightarrow> string option
    \<Rightarrow> string \<Rightarrow> nat \<Rightarrow> payment_info \<Rightarrow> (string \<times> WasmBalanceSnapshot) list
    \<Rightarrow> WasmDecodedEvent list \<Rightarrow> WasmDecodedEvent list \<Rightarrow> (js_value, WasmResponse) outcome" where
  "success_exit env w sndr rcpt symbol decimals paymentInfo balancesBefore ourEvents
      relevantEvents =
     await (raising (buildStateFromEvents sndr rcpt ourEvents balancesBefore symbol decimals))
       (\<lambda>report.
     await (case cw_reset_after_success w of
              Returns u \<Rightarrow> Returns u
            | Throws resetError \<Rightarrow>
                Throws (new_Error
                  (''FATAL: State cleanup failed after successful transaction. Reset error: ''
                   @ template_text resetError))) (\<lambda>u.
     await (payment_gas env paymentInfo symbol decimals) (\<lambda>gasReport.
       Returns \<lparr> success = True, stateChanges = report, events = relevantEvents,
                 gas = gasReport, error = None \<rparr>)))"

text \<open>
  The \<open>try\<close> block from the BEFORE snapshot on. The asset metadata that the engine
  resolves before the snapshot (\<open>getAssetMetadata\<close>, which catches its own failures)
  is handed to \<open>buildStateFromEvents\<close> but never read there, and is left out.
\<close>

definition submit_and_report :: "wasm_env \<Rightarrow> chopsticks_world \<Rightarrow> WasmSimulateRequest
    \<Rightarrow> string \<Rightarrow> nat \<Rightarrow> string option \<Rightarrow> (js_value, WasmResponse) outcome" where
  "submit_and_report env w request symbol decimals rcpt =
     (let sndr = wasm_req_sender request;
          trackAssets = (case req_trackAssets request of None \<Rightarrow> [] | Some a \<Rightarrow> a);
          addressesToTrack = sndr # (case truthy_value rcpt of None \<Rightarrow> [] | Some r \<Rightarrow> [r])
      in
        await (throwing (wasm_captureBalances (cw_chain w) addressesToTrack trackAssets))
          (\<lambda>captured.
        await (cw_paymentInfo w) (\<lambda>paymentInfo.
        await (cw_nonce w) (\<lambda>nonce.
        await (cw_signFake w) (\<lambda>bytes.
        await (cw_submitExtrinsic w (extrinsic_hex env (patch_signature bytes))) (\<lambda>u.
        await (cw_newBlock w) (\<lambda>u.
        await (cw_events w) (\<lambda>allEventRecords.
          let ourEvents = our_events allEventRecords;
              relevantEvents = filterRelevantEvents ourEvents
          in
            case find_failed ourEvents of
              Some failedEvent \<Rightarrow>
                failure_exit env w sndr symbol decimals paymentInfo relevantEvents failedEvent
            | None \<Rightarrow>
                success_exit env w sndr rcpt symbol decimals paymentInfo (fst captured)
                  ourEvents relevantEvents))))))))"

text \<open>
  The \<open>try\<close> block: the extrinsic is built first. A structured call whose pallet or
  method the chain does not have returns the failure response at once.
\<close>

definition try_block :: "wasm_env \<Rightarrow> chopsticks_world \<Rightarrow> WasmSimulateRequest \<Rightarrow> string \<Rightarrow> nat
    \<Rightarrow> (js_value, WasmResponse) outcome" where
  "try_block env w request symbol decimals =
     (case req_extrinsic request of
        RawHex hex \<Rightarrow>
          await (cw_build w) (\<lambda>extrinsic.
            submit_and_report env w request symbol decimals None)
      | Structured pal meth args \<Rightarrow>
          if \<not> cw_tx_exists w
          then Returns \<lparr> success = False,
                         stateChanges = wasm_emptyStateReport (wasm_req_sender request),
                         events = [], gas = wasm_emptyGasReport symbol,
                         error = Some \<lparr> wde_type = ''unknown'', wde_pallet = None,
                                       wde_error = None,
                                       wde_message = ''Unknown extrinsic: '' @ pal @ ''.'' @ meth,
                                       wde_raw = None \<rparr> \<rparr>
          else
            await (cw_build w) (\<lambda>extrinsic.
              submit_and_report env w request symbol decimals
                (presumptive_recipient meth args)))"

text \<open>
  \<open>error.message\<close> inside the template of the fatal error of the \<open>catch\<close> block: a
  missing message prints as \<open>undefined\<close>, and reading it from \<open>null\<close> or \<open>undefined\<close>
  throws.
\<close>

definition message_text :: "js_value \<Rightarrow> js_exception + string" where
  "message_text v =
     (case properties v of
        Inl exn \<Rightarrow> Inl exn
      | Inr e \<Rightarrow> Inr (prim_text (err_message e)))"

definition wasm_catch_block :: "chopsticks_world \<Rightarrow> (js_value, WasmResponse) outcome
    \<Rightarrow> (js_value, WasmResponse) outcome" where
  "wasm_catch_block w tried =
     (case tried of
        Returns r \<Rightarrow> Returns r
      | Throws err \<Rightarrow>
          (case cw_reset_in_catch w of
             Returns u \<Rightarrow> Throws err
           | Throws resetError \<Rightarrow>
               await (raising (message_text err)) (\<lambda>msg.
                 Throws (new_Error
                   (''FATAL: State cleanup failed after simulation error. Original error: ''
                    @ msg @ ''. Reset error: '' @ template_text resetError)))))"

definition executeWasmSimulation :: "wasm_env \<Rightarrow> chopsticks_world \<Rightarrow> WasmSimulateRequest
    \<Rightarrow> (js_value, WasmResponse) outcome" where
  "executeWasmSimulation env w request =
     await (cw_reset_first w) (\<lambda>u.
       if \<not> cw_connected w
       then Throws (new_Error ''Chopsticks not connected. Call connect() first.'')
       else
         await (cw_properties w) (\<lambda>props.
           case props of (symbol, decimals) \<Rightarrow>
             wasm_catch_block w (try_block env w request symbol decimals)))"

definition simulateWasmTransaction :: "wasm_env \<Rightarrow> chopsticks_world \<Rightarrow> WasmSimulateRequest
    \<Rightarrow> (js_value, WasmResponse) outcome" where
  "simulateWasmTransaction env w request = executeWasmSimulation env w request"


text \<open>
  A run for concrete evaluations: \<open>alice\<close> transfers 1,000 to \<open>bob\<close> and pays a fee of
  100, of which 80 are deposited to the treasury; an earlier extrinsic of the block
  deposits a reward to \<open>carol\<close>.
\<close>

definition balances_event :: "string \<Rightarrow> string \<Rightarrow> string \<Rightarrow> string \<Rightarrow> string \<Rightarrow> WasmDecodedEvent" where
  "balances_event m f t who amount =
     \<lparr> pallet = ''balances'', method_name = m, data_from = f, data_to = t, data_who = who,
       data_amount = amount, data_dispatchError = None, index = 0 \<rparr>"

definition transfer_block :: "WasmEventRecord list" where
  "transfer_block =
     [\<lparr> rec_phase = Initialization,
         rec_event = balances_event ''Deposit'' [] [] ''carol'' ''5'' \<rparr>,
      \<lparr> rec_phase = ApplyExtrinsic 0,
         rec_event = balances_event ''Deposit'' [] [] ''carol'' ''7'' \<rparr>,
      \<lparr> rec_phase = ApplyExtrinsic 1,
         rec_event = balances_event ''Withdraw'' [] [] ''alice'' ''100'' \<rparr>,
      \<lparr> rec_phase = ApplyExtrinsic 1,
         rec_event = balances_event ''Transfer'' ''alice'' ''bob'' [] ''1,000'' \<rparr>,
      \<lparr> rec_phase = ApplyExtrinsic 1,
         rec_event = balances_event ''Reserved'' [] [] ''alice'' ''50'' \<rparr>,
      \<lparr> rec_phase = ApplyExtrinsic 1,
         rec_event = balances_event ''Deposit'' [] [] ''treasury'' ''80'' \<rparr>]"

definition transfer_chain :: wasm_chain where
  "transfer_chain =
     \<lparr> system_account = (\<lambda>a. Returns \<lparr> data_free = ''2000'', data_reserved = ''7'',
                                          data_frozen = None \<rparr>),
       assets_account = None \<rparr>"

definition transfer_world :: chopsticks_world where
  "transfer_world =
     \<lparr> cw_reset_first = Returns (), cw_connected = True,
       cw_properties = Returns (''UNIT'', 12), cw_tx_exists = True, cw_build = Returns (),
       cw_chain = transfer_chain,
       cw_paymentInfo = Returns \<lparr> partialFee = ''100'', weight_refTime = ''1'',
                                  weight_proofSize = ''2'' \<rparr>,
       cw_nonce = Returns 0, cw_signFake = Returns [],
       cw_submitExtrinsic = (\<lambda>hex. Returns ()), cw_newBlock = Returns (),
       cw_events = Returns transfer_block, cw_reset_after_failure = Returns (),
       cw_reset_after_success = Returns (), cw_reset_in_catch = Returns () \<rparr>"

definition transfer_request :: WasmSimulateRequest where
  "transfer_request =
     \<lparr> wasm_req_sender = ''alice'',
       req_extrinsic = Structured ''balances'' ''transferKeepAlive'' [Some ''bob'', Some ''1000''],
       req_trackAssets = None \<rparr>"

definition plain_wasm_env :: wasm_env where
  "plain_wasm_env =
     \<lparr> env_decodeWasmError = (\<lambda>d. Returns \<lparr> wde_type = ''unknown'', wde_pallet = None,
                                             wde_error = None,
                                             wde_message = ''Unknown error occurred'',
                                             wde_raw = None \<rparr>),
       env_compactToU8a = (\<lambda>n. [4 * n]),
       env_BigInt_pow10 = (\<lambda>d. 10 ^ d) \<rparr>"

text \<open>
  The recipient the engine derives from a request, and the BEFORE snapshot it captures
  for the sender and that recipient (empty if the snapshotter were to raise).
\<close>

definition request_recipient :: "WasmSimulateRequest \<Rightarrow> string option" where
  "request_recipient request =
     (case req_extrinsic request of
        RawHex hex \<Rightarrow> None
      | Structured pal meth args \<Rightarrow> presumptive_recipient meth args)"

definition balances_before :: "chopsticks_world \<Rightarrow> WasmSimulateRequest
    \<Rightarrow> (string \<times> WasmBalanceSnapshot) list" where
  "balances_before w request =
     (case wasm_captureBalances (cw_chain w)
             (wasm_req_sender request
              # (case truthy_value (request_recipient request) of None \<Rightarrow> [] | Some r \<Rightarrow> [r]))
             (case req_trackAssets request of None \<Rightarrow> [] | Some a \<Rightarrow> a) of
        Inr captured \<Rightarrow> fst captured
      | Inl e \<Rightarrow> [])"

section \<open>Maps in insertion order and sequenced calls: basic facts\<close>

lemma map_of_obj_set: "map_of (obj_set k v m) = (map_of m)(k \<mapsto> v)"
  by (induction m) (auto simp: fun_eq_iff)

lemma set_obj_set: "set (obj_set k v m) \<subseteq> insert (k, v) (set m)"
  by (induction m) (auto split: if_splits)

lemma keys_obj_set:
  "map fst (obj_set k v m) = (if k \<in> fst ` set m then map fst m else map fst m @ [k])"
  by (induction m) (auto split: if_splits)

lemma distinct_obj_set: "distinct (map fst m) \<Longrightarrow> distinct (map fst (obj_set k v m))"
  by (simp add: keys_obj_set)

lemma get_or_zero_obj_set:
  "get_or_zero (obj_set k v m) a = (if a = k then v else get_or_zero m a)"
  by (simp add: get_or_zero_def map_of_obj_set)

lemma await_Returns:
  "await x f = Returns r \<longleftrightarrow> (\<exists>v. x = Returns v \<and> f v = Returns r)"
  by (cases x) (simp_all add: await_def)

lemma raising_Returns: "raising x = Returns v \<longleftrightarrow> x = Inr v"
  by (cases x) (simp_all add: raising_def)

lemma throwing_Returns: "throwing x = Returns v \<longleftrightarrow> x = Inr v"
  by (cases x) (simp_all add: throwing_def)

section \<open>Calldata recipient extraction: results\<close>

lemma slice_bytes_transfer:
  "74 \<le> length d \<Longrightarrow> ''0x'' @ slice 34 74 d = right_aligned_address (calldata_bytes 4 36 d)"
proof -
  assume len: "74 \<le> length d"
  then have "length (calldata_bytes 4 36 d) = 64"
    by (simp add: calldata_bytes_def slice_def)
  then show ?thesis
    by (simp add: right_aligned_address_def) (simp add: calldata_bytes_def slice_def drop_take)
qed

lemma slice_bytes_transferFrom:
  "138 \<le> length d \<Longrightarrow> ''0x'' @ slice 98 138 d = right_aligned_address (calldata_bytes 36 68 d)"
proof -
  assume len: "138 \<le> length d"
  then have "length (calldata_bytes 36 68 d) = 64"
    by (simp add: calldata_bytes_def slice_def)
  then show ?thesis
    by (simp add: right_aligned_address_def) (simp add: calldata_bytes_def slice_def drop_take)
qed

text \<open>
  Claim C2, as amended. A recipient is extracted exactly when the data string starts
  (case-insensitively) with the selector \<open>0xa9059cbb\<close> and has at least 74 characters,
  that is the selector and at least 32 bytes of payload, in which case it is the address
  right-aligned in bytes \<open>[4, 36)\<close>; or starts with \<open>0x23b872dd\<close> and has at least 138
  characters, the selector and at least 64 bytes of payload, in which case it is the
  address right-aligned in bytes \<open>[36, 68)\<close>; and in both cases the address passes the
  well-formedness check. Every other input, absent and empty data included, yields none.
\<close>

theorem extractTransferRecipient_exact:
  "extractTransferRecipient isAddress data = Some r \<longleftrightarrow>
     (\<exists>d. data = Some d \<and> isAddress r \<and>
        ((toLowerCase (slice 0 10 d) = ''0xa9059cbb'' \<and> 74 \<le> length d
            \<and> r = right_aligned_address (calldata_bytes 4 36 d))
       \<or> (toLowerCase (slice 0 10 d) = ''0x23b872dd'' \<and> 138 \<le> length d
            \<and> r = right_aligned_address (calldata_bytes 36 68 d))))"
proof (cases data)
  case None
  then show ?thesis by (simp add: extractTransferRecipient_def)
next
  case (Some d)
  show ?thesis
  proof (cases "length d < 10")
    case True
    then show ?thesis using Some by (auto simp: extractTransferRecipient_def)
  next
    case False
    then have ne: "d \<noteq> []" by auto
    show ?thesis
      using Some False ne slice_bytes_transfer [of d] slice_bytes_transferFrom [of d]
      by (auto simp: extractTransferRecipient_def Let_def)
  qed
qed

text \<open>The theorem at a transferFrom calldata with an upper-case selector.\<close>

theorem extractTransferRecipient_exact_witness:
  "extractTransferRecipient isHexAddress
     (Some ''0x23B872DD000000000000000000000000222222222222222222222222222222222222222200000000000000000000000033333333333333333333333333333333333333330000000000000000000000000000000000000000000000000000000000000001'')
   = Some ''0x3333333333333333333333333333333333333333''"
  using extractTransferRecipient_exact [of isHexAddress
     "Some ''0x23B872DD000000000000000000000000222222222222222222222222222222222222222200000000000000000000000033333333333333333333333333333333333333330000000000000000000000000000000000000000000000000000000000000001''"
     "''0x3333333333333333333333333333333333333333''"]
  by (simp add: toLowerCase_def lower_char_def upper_case_letters_def lower_case_letters_def
        slice_def isHexAddress_def hex_digit_def right_aligned_address_def calldata_bytes_def)

text \<open>
  Claim C2 as stated asks for 64 bytes of payload after the transfer selector and for no
  recipient when fewer than 68 hex characters follow it. A transfer calldata whose payload
  is the 32-byte recipient word alone (64 hex characters) yields that recipient.
\<close>

theorem extractTransferRecipient_short_payload_counterexample:
  "length (drop 10 ''0xa9059cbb0000000000000000000000001111111111111111111111111111111111111111'') < 68
   \<and> extractTransferRecipient isHexAddress
        (Some ''0xa9059cbb0000000000000000000000001111111111111111111111111111111111111111'')
      = Some ''0x1111111111111111111111111111111111111111''"
  by (simp add: extractTransferRecipient_def toLowerCase_def lower_char_def
        upper_case_letters_def lower_case_letters_def slice_def isHexAddress_def hex_digit_def)

section \<open>Health probes: results\<close>

text \<open>
  Claim C10. The account-model client's probe answers true when the provider is null, and
  false only when a connected provider's block-number read throws; the runtime-module
  client's probe answers false on a null API.
\<close>

theorem isConnected_null_provider:
  "anvil_isConnected None = True
   \<and> (anvil_isConnected p = False \<longleftrightarrow> (\<exists>q e. p = Some q \<and> getBlockNumber q = Throws e))
   \<and> chopsticks_isConnected None = False"
  by (auto simp: anvil_isConnected_def chopsticks_isConnected_def
        split: option.splits outcome.splits)

section \<open>Event decoder: results\<close>

lemma tryDecodeWithInterface_logIndex:
  "tryDecodeWithInterface cat log iface = Some d \<Longrightarrow> logIndex d = log_index log"
  by (auto simp: tryDecodeWithInterface_def split: option.splits)

lemma try_all_interfaces_logIndex:
  "try_all_interfaces cat log ifaces = Some d \<Longrightarrow> logIndex d = log_index log"
  by (induction ifaces) (auto split: option.splits dest: tryDecodeWithInterface_logIndex)

lemma decodeLog_logIndex:
  "decodeLog cat log = Some d \<Longrightarrow> logIndex d = log_index log"
  by (auto simp: decodeLog_def split: option.splits list.splits
        dest: tryDecodeWithInterface_logIndex try_all_interfaces_logIndex)

lemma collect_decoded_indices:
  "map logIndex (collect_decoded cat logs) =
     map log_index (filter (\<lambda>log. decodeLog cat log \<noteq> None) logs)"
  by (induction logs) (auto split: option.splits dest: decodeLog_logIndex)

lemma collect_decoded_custom_indices:
  "map logIndex (collect_decoded_custom cat ci logs) =
     map log_index
       (filter (\<lambda>log. tryDecodeWithInterface cat log ci \<noteq> None \<or> decodeLog cat log \<noteq> None) logs)"
  by (induction logs)
     (auto split: option.splits dest: decodeLog_logIndex tryDecodeWithInterface_logIndex)

lemma distinct_map_filter_index:
  "distinct (map log_index logs) \<Longrightarrow> distinct (map log_index (filter P logs))"
  by (simp add: distinct_map_filter)

lemma distinct_map_sort_by_logIndex:
  "distinct (map logIndex (sort_by_logIndex es)) = distinct (map logIndex es)"
  by (simp add: sort_by_logIndex_def distinct_map)

lemma sorted_sort_by_logIndex:
  "sorted (map logIndex (sort_by_logIndex es))"
  by (simp add: sort_by_logIndex_def)

text \<open>
  Claim C9, as amended. The decoded events of \<open>decodeLogs\<close> and of
  \<open>decodeLogsWithAbi\<close> are sorted ascending by log index; when the raw logs carry
  pairwise distinct indices, the order is strictly ascending, that is the ordinals of the
  response are unique.
\<close>

theorem decodeLogs_sorted:
  "sorted (map logIndex (decodeLogs cat logs))
   \<and> sorted (map logIndex (decodeLogsWithAbi cat customInterface logs))
   \<and> (distinct (map log_index logs) \<longrightarrow>
        sorted_wrt (<) (map logIndex (decodeLogs cat logs))
        \<and> sorted_wrt (<) (map logIndex (decodeLogsWithAbi cat customInterface logs)))"
proof -
  have s1: "sorted (map logIndex (decodeLogs cat logs))"
    by (simp add: decodeLogs_def sorted_sort_by_logIndex)
  have s2: "sorted (map logIndex (decodeLogsWithAbi cat customInterface logs))"
    by (simp add: decodeLogsWithAbi_def sorted_sort_by_logIndex)
  have d1: "distinct (map logIndex (decodeLogs cat logs))" if "distinct (map log_index logs)"
    using that
    by (simp add: decodeLogs_def distinct_map_sort_by_logIndex collect_decoded_indices
          distinct_map_filter_index)
  have d2: "distinct (map logIndex (decodeLogsWithAbi cat customInterface logs))"
    if "distinct (map log_index logs)"
    using that
    by (simp add: decodeLogsWithAbi_def distinct_map_sort_by_logIndex
          collect_decoded_custom_indices distinct_map_filter_index)
  show ?thesis
    using s1 s2 d1 d2 by (simp add: strict_sorted_iff)
qed

text \<open>The theorem at two transfer logs given in descending index order.\<close>

theorem decodeLogs_sorted_witness:
  "distinct (map log_index
      [transfer_log address_b address_a address_c 3, transfer_log address_b address_c address_a 1])
   \<and> map logIndex (decodeLogs transfer_catalogue
      [transfer_log address_b address_a address_c 3, transfer_log address_b address_c address_a 1])
     = [1, 3]
   \<and> sorted_wrt (<) (map logIndex (decodeLogs transfer_catalogue
      [transfer_log address_b address_a address_c 3,
       transfer_log address_b address_c address_a 1]))"
proof -
  have d: "distinct (map log_index
      [transfer_log address_b address_a address_c 3,
       transfer_log address_b address_c address_a 1])"
    by (simp add: transfer_log_def)
  have e: "map logIndex (decodeLogs transfer_catalogue
      [transfer_log address_b address_a address_c 3, transfer_log address_b address_c address_a 1])
     = [1, 3]"
    by code_simp
  from decodeLogs_sorted [of transfer_catalogue
      "[transfer_log address_b address_a address_c 3,
        transfer_log address_b address_c address_a 1]" "()"] d e
  show ?thesis by simp
qed

text \<open>
  Claim C9 as stated covers every list of raw logs. Two logs that carry the same index
  both decode, and the result holds the index twice: it is not strictly ascending.
\<close>

theorem decodeLogs_duplicate_index_counterexample:
  "map logIndex (decodeLogs transfer_catalogue
      [transfer_log address_b address_a address_c 0, transfer_log address_b address_c address_a 0])
     = [0, 0]
   \<and> \<not> sorted_wrt (<) (map logIndex (decodeLogs transfer_catalogue
      [transfer_log address_b address_a address_c 0,
       transfer_log address_b address_c address_a 0]))"
proof -
  have e: "map logIndex (decodeLogs transfer_catalogue
      [transfer_log address_b address_a address_c 0, transfer_log address_b address_c address_a 0])
     = [0, 0]"
    by code_simp
  then show ?thesis by simp
qed

section \<open>Error decoder: results\<close>

lemma first_answer_map_Suc:
  "first_answer f (map Suc xs) = first_answer (\<lambda>i. f (Suc i)) xs"
  by (induction xs) (auto split: option.splits)

lemma first_answer_append:
  "first_answer f (xs @ ys) =
     (case first_answer f xs of Some v \<Rightarrow> Some v | None \<Rightarrow> first_answer f ys)"
  by (induction xs) (auto split: option.splits)

lemma first_answer_map_option:
  "first_answer (\<lambda>i. map_option g (f i)) xs = map_option g (first_answer f xs)"
  by (induction xs) (auto split: option.splits)

lemma match_run_first_answer:
  "match_run pre cls s
     = first_answer (\<lambda>i. match_run_at pre cls (drop i s)) [0 ..< Suc (length s)]"
proof (induction s)
  case Nil
  then show ?case by (simp split: option.splits)
next
  case (Cons c cs)
  have "[0 ..< Suc (Suc (length cs))] = 0 # map Suc [0 ..< Suc (length cs)]"
    by (metis map_Suc_upt upt_conv_Cons zero_less_Suc)
  then show ?case
    using Cons.IH
    by (simp add: first_answer_map_Suc del: upt_Suc split: option.splits)
qed

lemma match_run_at_drop:
  "match_run_at pre cls (drop i s)
     = (if take (length pre) (drop i s) = pre
           \<and> takeWhile cls (drop (i + length pre) s) \<noteq> []
           \<and> take 1 (drop (i + length pre
                            + length (takeWhile cls (drop (i + length pre) s))) s)
               = [CHR 0x22]
        then Some (takeWhile cls (drop (i + length pre) s))
        else None)"
  by (simp add: match_run_at_def Let_def dropWhile_eq_drop add.commute add.left_commute)

lemma payload_at_match_run_at:
  "payload_at msg i
     = map_option ((@) ''0x'')
         (match_run_at (''data='' @ [CHR 0x22] @ ''0x'') hex_digit (drop i msg))"
proof -
  have len: "length (''data='' @ [CHR 0x22] @ ''0x'') = 8" by simp
  show ?thesis
    unfolding payload_at_def match_run_at_drop len Let_def by simp
qed

lemma match_data_embedded_payload: "match_data msg = embedded_payload msg"
proof -
  let ?at = "\<lambda>i. match_run_at (''data='' @ [CHR 0x22] @ ''0x'') hex_digit (drop i msg)"
  have last: "?at (length msg) = None"
    by (simp add: match_run_at_def)
  have "match_run (''data='' @ [CHR 0x22] @ ''0x'') hex_digit msg
          = first_answer ?at ([0 ..< length msg] @ [length msg])"
    by (simp add: match_run_first_answer)
  also have "\<dots> = first_answer ?at [0 ..< length msg]"
    using last by (simp add: first_answer_append split: option.splits)
  finally have m: "match_run (''data='' @ [CHR 0x22] @ ''0x'') hex_digit msg
                     = first_answer ?at [0 ..< length msg]" .
  have p: "payload_at msg = (\<lambda>i. map_option ((@) ''0x'') (?at i))"
    by (rule ext) (rule payload_at_match_run_at)
  have "embedded_payload msg = map_option ((@) ''0x'') (first_answer ?at [0 ..< length msg])"
    unfolding embedded_payload_def p by (rule first_answer_map_option)
  with m show ?thesis
    by (simp add: match_data_def split: option.splits)
qed

lemma extractErrorData_located:
  "extractErrorData e
     = (if filter truthy_prim (probes e) = [] \<and> no_match_method (err_message e)
        then Inl (TypeError ''error.message?.match is not a function'')
        else Inr (located_payload e))"
proof (cases "filter truthy_prim (probes e)")
  case Nil
  then have f: "\<not> (truthy_prim (err_data e) \<and> is_string (err_data e))"
    "\<not> truthy_prim (info_error_data e)" "\<not> truthy_prim (error_error_data e)"
    by (auto simp: probes_def split: if_splits)
  show ?thesis
    using Nil f
    by (cases "err_message e")
       (auto simp: extractErrorData_def located_payload_def no_match_method_def
          match_data_embedded_payload split: option.splits)
next
  case (Cons p ps)
  then have l: "located_payload e = p" by (simp add: located_payload_def)
  from Cons have "extractErrorData e = Inr p"
    by (auto simp: probes_def extractErrorData_def truthy_prim_def split: if_splits)
  with Cons l show ?thesis by simp
qed

lemma selector_tag_cases:
  "selector_tag d = Some tag \<longleftrightarrow>
     10 \<le> length d
     \<and> ((toLowerCase (slice 0 10 d) = ''0x4e487b71'' \<and> tag = Panic)
        \<or> (toLowerCase (slice 0 10 d) = ''0x08c379a0'' \<and> tag = Revert)
        \<or> (toLowerCase (slice 0 10 d) \<in> {''0xe450d38c'', ''0xfb8f41b2''} \<and> tag = Custom))"
  by (auto simp: selector_tag_def slice_def split: if_splits)

lemma selector_tag_None:
  "selector_tag d = None \<longleftrightarrow>
     length d < 10
     \<or> toLowerCase (slice 0 10 d)
          \<notin> {''0x4e487b71'', ''0x08c379a0'', ''0xe450d38c'', ''0xfb8f41b2''}"
  by (auto simp: selector_tag_def slice_def split: if_splits)

lemma decodePanic_fields: "err_type (decodePanic abi d) = Panic \<and> raw (decodePanic abi d) = Some d"
  by (simp add: decodePanic_def Let_def split: option.splits)

lemma decodeRevertReason_fields:
  "err_type (decodeRevertReason abi d) = Revert \<and> raw (decodeRevertReason abi d) = Some d"
  by (simp add: decodeRevertReason_def split: option.splits)

lemma decodeCustomError_fields:
  "(\<forall>r. decodeCustomError abi sel d = Some r \<longrightarrow> err_type r = Custom \<and> raw r = Some d)
   \<and> (decodeCustomError abi sel d \<noteq> None \<longleftrightarrow> sel \<in> {''0xe450d38c'', ''0xfb8f41b2''})"
  by (auto simp: decodeCustomError_def CUSTOM_ERRORS_def split: option.splits prod.splits)

lemma decodeEVMError_decoded:
  assumes "decoded_payload e = Some (d, tag)"
  shows "\<exists>r. decodeEVMError abi (JsObject e) = Inr r \<and> raw r = Some d \<and> err_type r = tag"
proof -
  from assms have loc: "located_payload e = JsString d" and tg: "selector_tag d = Some tag"
    by (auto simp: decoded_payload_def split: js_prim.splits option.splits)
  from loc have nm: "\<not> (filter truthy_prim (probes e) = [] \<and> no_match_method (err_message e))"
    by (auto simp: located_payload_def no_match_method_def split: js_prim.splits)
  with loc have x: "extractErrorData e = Inr (JsString d)"
    by (simp add: extractErrorData_located)
  from tg have len: "10 \<le> length d" and ne: "d \<noteq> []"
    by (auto simp: selector_tag_cases)
  from tg consider
      (panic) "toLowerCase (slice 0 10 d) = ''0x4e487b71''" "tag = Panic"
    | (revert) "toLowerCase (slice 0 10 d) = ''0x08c379a0''" "tag = Revert"
    | (custom) "toLowerCase (slice 0 10 d) \<in> {''0xe450d38c'', ''0xfb8f41b2''}" "tag = Custom"
    by (auto simp: selector_tag_cases)
  then show ?thesis
  proof cases
    case panic
    then show ?thesis
      using x len ne decodePanic_fields [of abi d]
      by (simp add: decodeEVMError_def properties_def Let_def)
  next
    case revert
    then show ?thesis
      using x len ne decodeRevertReason_fields [of abi d]
      by (simp add: decodeEVMError_def properties_def Let_def)
  next
    case custom
    from custom(1) have sel: "toLowerCase (slice 0 10 d) \<noteq> ''0x4e487b71''"
      "toLowerCase (slice 0 10 d) \<noteq> ''0x08c379a0''"
      by auto
    from custom(1) decodeCustomError_fields [of abi "toLowerCase (slice 0 10 d)" d]
    obtain r where r: "decodeCustomError abi (toLowerCase (slice 0 10 d)) d = Some r"
      "err_type r = Custom" "raw r = Some d"
      by auto
    then show ?thesis
      using x len ne sel custom(2)
      by (simp add: decodeEVMError_def properties_def Let_def)
  qed
qed

lemma decodeEVMError_fallback:
  assumes "decoded_payload e = None"
    and "\<not> (filter truthy_prim (probes e) = [] \<and> no_match_method (err_message e))"
  shows "decodeEVMError abi (JsObject e) = parseErrorFallback e"
proof -
  from assms(2) have x: "extractErrorData e = Inr (located_payload e)"
    by (simp add: extractErrorData_located)
  show ?thesis
  proof (cases "located_payload e")
    case (JsString d)
    with assms(1) have "selector_tag d = None"
      by (simp add: decoded_payload_def split: option.splits)
    then have "length d < 10
        \<or> toLowerCase (slice 0 10 d)
            \<notin> {''0x4e487b71'', ''0x08c379a0'', ''0xe450d38c'', ''0xfb8f41b2''}"
      by (simp add: selector_tag_None)
    then show ?thesis
    proof
      assume "length d < 10"
      with x JsString show ?thesis
        by (simp add: decodeEVMError_def properties_def)
    next
      assume n: "toLowerCase (slice 0 10 d)
            \<notin> {''0x4e487b71'', ''0x08c379a0'', ''0xe450d38c'', ''0xfb8f41b2''}"
      then have "decodeCustomError abi (toLowerCase (slice 0 10 d)) d = None"
        using decodeCustomError_fields [of abi "toLowerCase (slice 0 10 d)" d] by auto
      with x JsString n show ?thesis
        by (simp add: decodeEVMError_def properties_def Let_def)
    qed
  qed (use x in \<open>simp_all add: decodeEVMError_def properties_def\<close>)
qed

lemma parseErrorFallback_raises:
  "(\<exists>exn. parseErrorFallback e = Inl exn)
     \<longleftrightarrow> (case fallback_message e of None \<Rightarrow> False | Some m \<Rightarrow> no_match_method m)"
proof (cases "truthy_prim (err_reason e)")
  case True
  then show ?thesis by (simp add: parseErrorFallback_def fallback_message_def)
next
  case r: False
  show ?thesis
  proof (cases "truthy_prim (info_error_message e)")
    case True
    with r show ?thesis
      by (cases "info_error_message e")
         (simp_all add: parseErrorFallback_def fallback_message_def clean_message_def
            no_match_method_def truthy_prim_def)
  next
    case i: False
    show ?thesis
    proof (cases "truthy_prim (err_message e)")
      case True
      with r i show ?thesis
        by (cases "err_message e")
           (simp_all add: parseErrorFallback_def fallback_message_def clean_message_def
              no_match_method_def truthy_prim_def)
    next
      case False
      with r i show ?thesis
        by (simp add: parseErrorFallback_def fallback_message_def)
    qed
  qed
qed

lemma parseErrorFallback_order:
  assumes "parseErrorFallback e = Inr r"
  shows "raw r = None
     \<and> (truthy_prim (err_reason e) \<longrightarrow> err_type r = Revert \<and> message r = err_reason e)
     \<and> (\<not> truthy_prim (err_reason e) \<and> truthy_prim (info_error_message e) \<longrightarrow>
          err_type r = Unknown
          \<and> (\<exists>s. info_error_message e = JsString s
                \<and> message r = JsString (cleanErrorMessage s)))
     \<and> (\<not> truthy_prim (err_reason e) \<and> \<not> truthy_prim (info_error_message e)
          \<and> truthy_prim (err_message e) \<longrightarrow>
          err_type r = Unknown
          \<and> (\<exists>s. err_message e = JsString s \<and> message r = JsString (cleanErrorMessage s)))
     \<and> (\<not> truthy_prim (err_reason e) \<and> \<not> truthy_prim (info_error_message e)
          \<and> \<not> truthy_prim (err_message e) \<longrightarrow>
          err_type r = Unknown \<and> message r = JsString ''Unknown error occurred'')"
proof (cases "truthy_prim (err_reason e)")
  case True
  with assms show ?thesis by (auto simp: parseErrorFallback_def)
next
  case rs: False
  show ?thesis
  proof (cases "truthy_prim (info_error_message e)")
    case True
    with rs assms show ?thesis
      by (cases "info_error_message e")
         (auto simp: parseErrorFallback_def clean_message_def)
  next
    case i: False
    show ?thesis
    proof (cases "truthy_prim (err_message e)")
      case True
      with rs i assms show ?thesis
        by (cases "err_message e")
           (auto simp: parseErrorFallback_def clean_message_def)
    next
      case False
      with rs i assms show ?thesis
        by (auto simp: parseErrorFallback_def)
    qed
  qed
qed

lemma decodeEVMError_raises_iff:
  "(\<exists>exn. decodeEVMError abi (JsObject e) = Inl exn) \<longleftrightarrow> meets_unmatchable_message e"
proof (cases "filter truthy_prim (probes e) = [] \<and> no_match_method (err_message e)")
  case True
  then have "extractErrorData e = Inl (TypeError ''error.message?.match is not a function'')"
    by (simp add: extractErrorData_located)
  with True show ?thesis
    by (simp add: decodeEVMError_def properties_def meets_unmatchable_message_def)
next
  case False
  show ?thesis
  proof (cases "decoded_payload e")
    case None
    from decodeEVMError_fallback [OF None False, of abi] parseErrorFallback_raises [of e]
    show ?thesis using None False by (auto simp: meets_unmatchable_message_def)
  next
    case (Some p)
    obtain d tag where "p = (d, tag)" by (cases p)
    with Some decodeEVMError_decoded [of e d tag abi] False show ?thesis
      by (auto simp: meets_unmatchable_message_def)
  qed
qed

lemma parseErrorFallback_TypeError:
  "parseErrorFallback e = Inl exn \<Longrightarrow> \<exists>msg. exn = TypeError msg"
  by (auto simp: parseErrorFallback_def clean_message_def
        split: if_splits js_prim.splits)

lemma extractErrorData_TypeError:
  "extractErrorData e = Inl exn \<Longrightarrow> \<exists>msg. exn = TypeError msg"
  by (auto simp: extractErrorData_located split: if_splits)

lemma decodeEVMError_raises_TypeError:
  assumes "decodeEVMError abi (JsObject e) = Inl exn"
  shows "\<exists>msg. exn = TypeError msg"
proof (cases "extractErrorData e")
  case (Inl x)
  with assms extractErrorData_TypeError [OF Inl] show ?thesis
    by (simp add: decodeEVMError_def properties_def)
next
  case (Inr p)
  with assms have "parseErrorFallback e = Inl exn"
    by (auto simp: decodeEVMError_def properties_def Let_def
          split: js_prim.splits if_splits option.splits)
  then show ?thesis by (rule parseErrorFallback_TypeError)
qed

lemma textual_never_unmatchable:
  assumes "textual (err_message e)" and "textual (info_error_message e)"
  shows "\<not> meets_unmatchable_message e"
  using assms
  by (auto simp: meets_unmatchable_message_def textual_def no_match_method_def
        fallback_message_def split: js_prim.splits if_splits)

text \<open>
  Claim C8, as amended. On \<open>null\<close> and \<open>undefined\<close> the decoder throws a TypeError; on
  every other primitive it returns the unknown record with the fixed message. On an
  object it throws, a TypeError, exactly when it has to call \<open>match\<close> on a message that
  is a boolean or a number; so it returns a tagged record for every object whose
  \<open>message\<close> and \<open>info.error.message\<close> are each absent, \<open>null\<close> or a string. The record
  it returns has the located payload in \<open>raw\<close>, and the tag of its selector, when that
  payload is a string of at least ten characters with a known selector. Otherwise the
  record has no \<open>raw\<close> and is the fallback: \<open>error.reason\<close> as a revert when it is
  truthy, else the cleaned \<open>error.info.error.message\<close> when that is truthy, else the
  cleaned \<open>error.message\<close> when that is truthy, else the fixed message, the last three
  tagged unknown.
\<close>

theorem decodeEVMError_total:
  "decodeEVMError abi (JsPrimitive JsNull) = Inl (TypeError ''Cannot read properties of null'')
   \<and> decodeEVMError abi (JsPrimitive JsUndefined)
       = Inl (TypeError ''Cannot read properties of undefined'')
   \<and> (v \<noteq> JsNull \<and> v \<noteq> JsUndefined \<longrightarrow>
        decodeEVMError abi (JsPrimitive v)
          = Inr \<lparr> err_type = Unknown, message = JsString ''Unknown error occurred'',
                  raw = None \<rparr>)
   \<and> ((\<exists>exn. decodeEVMError abi (JsObject e) = Inl exn) \<longleftrightarrow> meets_unmatchable_message e)
   \<and> (\<forall>exn. decodeEVMError abi (JsObject e) = Inl exn \<longrightarrow> (\<exists>msg. exn = TypeError msg))
   \<and> (textual (err_message e) \<and> textual (info_error_message e) \<longrightarrow>
        (\<exists>r. decodeEVMError abi (JsObject e) = Inr r))
   \<and> (\<forall>r. decodeEVMError abi (JsObject e) = Inr r \<longrightarrow>
        (\<forall>d tag. decoded_payload e = Some (d, tag) \<longrightarrow> raw r = Some d \<and> err_type r = tag)
        \<and> (decoded_payload e = None \<longrightarrow>
             raw r = None
             \<and> (truthy_prim (err_reason e) \<longrightarrow>
                  err_type r = Revert \<and> message r = err_reason e)
             \<and> (\<not> truthy_prim (err_reason e) \<and> truthy_prim (info_error_message e) \<longrightarrow>
                  err_type r = Unknown
                  \<and> (\<exists>s. info_error_message e = JsString s
                        \<and> message r = JsString (cleanErrorMessage s)))
             \<and> (\<not> truthy_prim (err_reason e) \<and> \<not> truthy_prim (info_error_message e)
                  \<and> truthy_prim (err_message e) \<longrightarrow>
                  err_type r = Unknown
                  \<and> (\<exists>s. err_message e = JsString s
                        \<and> message r = JsString (cleanErrorMessage s)))
             \<and> (\<not> truthy_prim (err_reason e) \<and> \<not> truthy_prim (info_error_message e)
                  \<and> \<not> truthy_prim (err_message e) \<longrightarrow>
                  err_type r = Unknown \<and> message r = JsString ''Unknown error occurred'')))"
proof -
  have n1: "decodeEVMError abi (JsPrimitive JsNull)
              = Inl (TypeError ''Cannot read properties of null'')"
    by (simp add: decodeEVMError_def properties_def)
  have n2: "decodeEVMError abi (JsPrimitive JsUndefined)
              = Inl (TypeError ''Cannot read properties of undefined'')"
    by (simp add: decodeEVMError_def properties_def)
  have n3: "decodeEVMError abi (JsPrimitive v)
          = Inr \<lparr> err_type = Unknown, message = JsString ''Unknown error occurred'',
                  raw = None \<rparr>"
    if "v \<noteq> JsNull \<and> v \<noteq> JsUndefined"
    using that
    by (cases v)
       (simp_all add: decodeEVMError_def properties_def extractErrorData_def
          empty_error_object_def truthy_prim_def info_error_data_def error_error_data_def
          parseErrorFallback_def info_error_message_def)
  have t: "\<exists>r. decodeEVMError abi (JsObject e) = Inr r"
    if "textual (err_message e) \<and> textual (info_error_message e)"
  proof -
    from that have "\<not> meets_unmatchable_message e"
      by (simp add: textual_never_unmatchable)
    then have "\<not> (\<exists>exn. decodeEVMError abi (JsObject e) = Inl exn)"
      by (simp add: decodeEVMError_raises_iff)
    then show ?thesis by (cases "decodeEVMError abi (JsObject e)") auto
  qed
  have res: "(\<forall>d tag. decoded_payload e = Some (d, tag) \<longrightarrow> raw r = Some d \<and> err_type r = tag)
        \<and> (decoded_payload e = None \<longrightarrow>
             raw r = None
             \<and> (truthy_prim (err_reason e) \<longrightarrow>
                  err_type r = Revert \<and> message r = err_reason e)
             \<and> (\<not> truthy_prim (err_reason e) \<and> truthy_prim (info_error_message e) \<longrightarrow>
                  err_type r = Unknown
                  \<and> (\<exists>s. info_error_message e = JsString s
                        \<and> message r = JsString (cleanErrorMessage s)))
             \<and> (\<not> truthy_prim (err_reason e) \<and> \<not> truthy_prim (info_error_message e)
                  \<and> truthy_prim (err_message e) \<longrightarrow>
                  err_type r = Unknown
                  \<and> (\<exists>s. err_message e = JsString s
                        \<and> message r = JsString (cleanErrorMessage s)))
             \<and> (\<not> truthy_prim (err_reason e) \<and> \<not> truthy_prim (info_error_message e)
                  \<and> \<not> truthy_prim (err_message e) \<longrightarrow>
                  err_type r = Unknown \<and> message r = JsString ''Unknown error occurred''))"
    if r: "decodeEVMError abi (JsObject e) = Inr r" for r
  proof (intro conjI allI impI)
    fix d tag
    assume "decoded_payload e = Some (d, tag)"
    from decodeEVMError_decoded [OF this, of abi] r
    show "raw r = Some d" and "err_type r = tag" by auto
  next
    assume none: "decoded_payload e = None"
    from r have "\<not> meets_unmatchable_message e"
      using decodeEVMError_raises_iff [of abi e] by auto
    then have "\<not> (filter truthy_prim (probes e) = [] \<and> no_match_method (err_message e))"
      by (simp add: meets_unmatchable_message_def)
    from decodeEVMError_fallback [OF none this, of abi] r
    have f: "parseErrorFallback e = Inr r" by simp
    note o = parseErrorFallback_order [OF f]
    from o show "raw r = None" by simp
    {
      assume "truthy_prim (err_reason e)"
      with o show "err_type r = Revert" and "message r = err_reason e" by simp_all
    }
    {
      assume "\<not> truthy_prim (err_reason e) \<and> truthy_prim (info_error_message e)"
      with o show "err_type r = Unknown"
        and "\<exists>s. info_error_message e = JsString s \<and> message r = JsString (cleanErrorMessage s)"
        by simp_all
    }
    {
      assume "\<not> truthy_prim (err_reason e) \<and> \<not> truthy_prim (info_error_message e)
                  \<and> truthy_prim (err_message e)"
      with o show "err_type r = Unknown"
        and "\<exists>s. err_message e = JsString s \<and> message r = JsString (cleanErrorMessage s)"
        by simp_all
    }
    {
      assume "\<not> truthy_prim (err_reason e) \<and> \<not> truthy_prim (info_error_message e)
                  \<and> \<not> truthy_prim (err_message e)"
      with o show "err_type r = Unknown" and "message r = JsString ''Unknown error occurred''"
        by simp_all
    }
  qed
  from n1 n2 n3 t res decodeEVMError_raises_iff [of abi e]
    decodeEVMError_raises_TypeError [of abi e]
  show ?thesis by blast
qed

text \<open>
  The theorem at three objects: one with the panic payload in \<open>data\<close>, the error of the
  library with the same payload inside its message, and one whose only property is a
  message with a verbose prefix between no-break spaces.
\<close>

theorem decodeEVMError_total_witness:
  "decodeEVMError word_abi (JsObject (empty_error_object \<lparr> err_data := JsString panic_payload \<rparr>))
     = Inr \<lparr> err_type = Panic, message = JsString ''Panic: Arithmetic overflow/underflow'',
             raw = Some panic_payload \<rparr>
   \<and> decodeEVMError word_abi call_exception
     = Inr \<lparr> err_type = Panic, message = JsString ''Panic: Arithmetic overflow/underflow'',
             raw = Some panic_payload \<rparr>
   \<and> decodeEVMError word_abi (new_Error (''Error: '' @ padded_message))
     = Inr \<lparr> err_type = Unknown, message = JsString ''Something went wrong'', raw = None \<rparr>"
proof -
  let ?e1 = "empty_error_object \<lparr> err_data := JsString panic_payload \<rparr>"
  let ?e2 = "empty_error_object \<lparr> err_name := Some ''Error'',
               err_message := JsString (''call revert exception (action='' @ [CHR 0x22]
                 @ ''call'' @ [CHR 0x22] @ '', data='' @ [CHR 0x22] @ panic_payload
                 @ [CHR 0x22] @ '', code=CALL_EXCEPTION)'') \<rparr>"
  let ?e3 = "empty_error_object \<lparr> err_name := Some ''Error'',
               err_message := JsString (''Error: '' @ padded_message) \<rparr>"
  have v2: "call_exception = JsObject ?e2"
    by (simp add: call_exception_def new_Error_def)
  have v3: "new_Error (''Error: '' @ padded_message) = JsObject ?e3"
    by (simp add: new_Error_def)
  have t1: "textual (err_message ?e1) \<and> textual (info_error_message ?e1)"
    and t2: "textual (err_message ?e2) \<and> textual (info_error_message ?e2)"
    and t3: "textual (err_message ?e3) \<and> textual (info_error_message ?e3)"
    by (simp_all add: textual_def empty_error_object_def info_error_message_def)
  have p1: "decoded_payload ?e1 = Some (panic_payload, Panic)"
    and p2: "decoded_payload ?e2 = Some (panic_payload, Panic)"
    and p3: "decoded_payload ?e3 = None"
    by code_simp+
  have m1: "(case decodeEVMError word_abi (JsObject ?e1) of
               Inr r \<Rightarrow> message r = JsString ''Panic: Arithmetic overflow/underflow''
             | Inl exn \<Rightarrow> True)"
    and m2: "(case decodeEVMError word_abi (JsObject ?e2) of
               Inr r \<Rightarrow> message r = JsString ''Panic: Arithmetic overflow/underflow''
             | Inl exn \<Rightarrow> True)"
    by code_simp+
  have c3: "cleanErrorMessage (''Error: '' @ padded_message) = ''Something went wrong''"
    by code_simp
  have f3: "\<not> truthy_prim (err_reason ?e3)" "\<not> truthy_prim (info_error_message ?e3)"
    "truthy_prim (err_message ?e3)"
    by (simp_all add: truthy_prim_def empty_error_object_def info_error_message_def)
  from decodeEVMError_total [of word_abi JsNull ?e1] t1 p1 m1
  have r1: "decodeEVMError word_abi (JsObject ?e1)
     = Inr \<lparr> err_type = Panic, message = JsString ''Panic: Arithmetic overflow/underflow'',
             raw = Some panic_payload \<rparr>"
    by (auto simp: DecodedError.equality)
  from decodeEVMError_total [of word_abi JsNull ?e2] t2 p2 m2
  have r2: "decodeEVMError word_abi (JsObject ?e2)
     = Inr \<lparr> err_type = Panic, message = JsString ''Panic: Arithmetic overflow/underflow'',
             raw = Some panic_payload \<rparr>"
    by (auto simp: DecodedError.equality)
  from decodeEVMError_total [of word_abi JsNull ?e3] t3 p3 f3 c3
  have r3: "decodeEVMError word_abi (JsObject ?e3)
     = Inr \<lparr> err_type = Unknown, message = JsString ''Something went wrong'', raw = None \<rparr>"
    by (auto simp: DecodedError.equality)
  from r1 r2 r3 v2 v3 show ?thesis by simp
qed

text \<open>
  Claim C8 as stated covers every input value and every input that carries a payload.
  On \<open>null\<close> the decoder throws a TypeError instead of returning a record, and so it
  does on an object whose message is a number; and a payload whose selector is not known
  leads to the fallback record, which has no \<open>raw\<close>.
\<close>

theorem decodeEVMError_null_and_raw_counterexample:
  "decodeEVMError rejecting_abi (JsPrimitive JsNull)
     = Inl (TypeError ''Cannot read properties of null'')
   \<and> decodeEVMError rejecting_abi
        (JsObject (empty_error_object \<lparr> err_message := JsNumber 42 \<rparr>))
     = Inl (TypeError ''error.message?.match is not a function'')
   \<and> decodeEVMError rejecting_abi
        (JsObject (empty_error_object \<lparr> err_data := JsString unknown_payload \<rparr>))
     = Inr \<lparr> err_type = Unknown, message = JsString ''Unknown error occurred'',
             raw = None \<rparr>"
  by code_simp

section \<open>State-impact builder (account-model): results\<close>

lemma set_new_Set: "set (new_Set xs) = set xs"
  by (induction xs) auto

lemma token_changes_empty:
  "token_changes tokenMetadata bef aft ts = []
     \<longleftrightarrow> (\<forall>t \<in> set ts. get_or_zero (tokens aft) t = get_or_zero (tokens bef) t)"
  by (induction ts) (auto simp: Let_def)

lemma changes_buildAddressState:
  "changes (buildAddressState addr bef aft tokenMetadata nativeSym) \<noteq> []
     \<longleftrightarrow> snapshots_differ bef aft"
  by (auto simp: buildAddressState_def Let_def native_change_def token_changes_empty
        set_new_Set snapshots_differ_def)

lemma address_buildAddressState:
  "address (buildAddressState addr bef aft tokenMetadata nativeSym) = toLowerCase addr"
  by (simp add: buildAddressState_def Let_def)

lemma buildStateImpactReport_addresses:
  assumes "buildStateImpactReport getTokenMetadata sndr transactionTo tokenAddresses
             balancesBefore balancesAfter nativeSym tokenRecipient = Inr r"
  shows "address (sender r) = toLowerCase sndr
     \<and> address (recipient r)
         = toLowerCase (case truthy_value tokenRecipient of
                          Some t \<Rightarrow> t
                        | None \<Rightarrow> transactionTo)"
  using assms
  by (auto simp: buildStateImpactReport_def Let_def address_buildAddressState
        split: option.splits)

lemma affected_loop_absent:
  "a \<notin> fst ` set bs \<Longrightarrow> \<forall>k \<in> fst ` set bs. toLowerCase k = k \<Longrightarrow>
     count_list (map address (affected_loop ex aft tm ns bs)) a = 0"
  by (induction bs)
     (auto simp: Let_def address_buildAddressState split: option.splits)

lemma affected_loop_count:
  assumes "distinct (map fst bs)" and "\<forall>k \<in> fst ` set bs. toLowerCase k = k"
  shows "count_list (map address (affected_loop ex aft tm ns bs)) a =
           (if a \<notin> set ex
               \<and> (\<exists>b c. map_of bs a = Some b \<and> map_of aft a = Some c \<and> snapshots_differ b c)
            then 1 else 0)"
  using assms
proof (induction bs)
  case Nil
  then show ?case by simp
next
  case (Cons p bs)
  obtain k b where p: "p = (k, b)" by (cases p)
  from Cons.prems p have notin: "k \<notin> fst ` set bs" and dist: "distinct (map fst bs)"
    and low: "\<forall>k \<in> fst ` set bs. toLowerCase k = k" and lowk: "toLowerCase k = k"
    by auto
  note IH = Cons.IH [OF dist low]
  show ?case
  proof (cases "a = k")
    case True
    have rest0: "count_list (map address (affected_loop ex aft tm ns bs)) k = 0"
      using affected_loop_absent [OF notin low] .
    show ?thesis
      using True p rest0 lowk
      by (auto simp: Let_def address_buildAddressState changes_buildAddressState
            split: option.splits)
  next
    case False
    then show ?thesis
      using p IH lowk
      by (auto simp: Let_def address_buildAddressState split: option.splits)
  qed
qed

text \<open>
  Claim C6, as amended. Given BEFORE and AFTER maps, BEFORE with lower-case keys, in
  which the sender is snapshotted, the builder returns a report in which every address
  is counted as follows: once if it is the sender, once more if it is the counterparty,
  and, for an address that is neither, once if it appears in both BEFORE and AFTER and
  has at least one non-zero balance change. So when the sender and the counterparty are
  different addresses, each of them is reported exactly once, whatever its changes, and
  every address that appears in both BEFORE and AFTER and has a change is reported
  exactly once.
\<close>

theorem buildStateImpactReport_reported_once:
  assumes "distinct (map fst balancesBefore)"
    and "\<forall>k \<in> fst ` set balancesBefore. toLowerCase k = k"
    and "toLowerCase sndr \<in> fst ` set balancesBefore"
    and "toLowerCase sndr \<in> fst ` set balancesAfter"
  shows "\<exists>r. buildStateImpactReport getTokenMetadata sndr transactionTo tokenAddresses
                balancesBefore balancesAfter nativeSym tokenRecipient = Inr r
     \<and> address (sender r) = toLowerCase sndr
     \<and> address (recipient r)
         = toLowerCase (case truthy_value tokenRecipient of Some t \<Rightarrow> t | None \<Rightarrow> transactionTo)
     \<and> (\<forall>a. times_reported r a =
           (if a = address (sender r) then 1 else 0)
           + (if a = address (recipient r) then 1 else 0)
           + (if a \<noteq> address (sender r) \<and> a \<noteq> address (recipient r)
                 \<and> a \<in> fst ` set balancesBefore \<and> a \<in> fst ` set balancesAfter
                 \<and> has_change balancesBefore balancesAfter a
              then 1 else 0))
     \<and> (address (sender r) \<noteq> address (recipient r) \<longrightarrow>
           times_reported r (address (sender r)) = 1
           \<and> times_reported r (address (recipient r)) = 1
           \<and> (\<forall>a. a \<in> fst ` set balancesBefore \<and> a \<in> fst ` set balancesAfter
                   \<and> has_change balancesBefore balancesAfter a \<longrightarrow>
                 times_reported r a = 1))"
proof -
  define rcpt where
    "rcpt = (case truthy_value tokenRecipient of Some t \<Rightarrow> t | None \<Rightarrow> transactionTo)"
  define tm where "tm = collect_metadata getTokenMetadata tokenAddresses []"
  from assms(3) obtain sb where sb: "map_of balancesBefore (toLowerCase sndr) = Some sb"
    by (metis domD dom_map_of_conv_image_fst)
  from assms(4) obtain sa where sa: "map_of balancesAfter (toLowerCase sndr) = Some sa"
    by (metis domD dom_map_of_conv_image_fst)
  define r where
    "r = \<lparr> sender = buildAddressState sndr sb sa tm nativeSym,
           recipient = buildAddressState rcpt
              (case map_of balancesBefore (toLowerCase rcpt) of
                 Some s \<Rightarrow> s | None \<Rightarrow> zero_snapshot)
              (case map_of balancesAfter (toLowerCase rcpt) of
                 Some s \<Rightarrow> s | None \<Rightarrow> zero_snapshot)
              tm nativeSym,
           contractsAffected = affected_loop [toLowerCase sndr, toLowerCase rcpt] balancesAfter
                                 tm nativeSym balancesBefore \<rparr>"
  have res: "buildStateImpactReport getTokenMetadata sndr transactionTo tokenAddresses
               balancesBefore balancesAfter nativeSym tokenRecipient = Inr r"
    by (simp add: buildStateImpactReport_def Let_def sb sa r_def rcpt_def tm_def)
  have a1: "address (sender r) = toLowerCase sndr"
    by (simp add: r_def address_buildAddressState)
  have a2: "address (recipient r) = toLowerCase rcpt"
    by (simp add: r_def address_buildAddressState)
  have others: "count_list (map address (contractsAffected r)) a =
               (if a \<noteq> toLowerCase sndr \<and> a \<noteq> toLowerCase rcpt
                   \<and> a \<in> fst ` set balancesBefore \<and> a \<in> fst ` set balancesAfter
                   \<and> has_change balancesBefore balancesAfter a
                then 1 else 0)" for a
  proof -
    have "count_list (map address (contractsAffected r)) a =
            (if a \<notin> set [toLowerCase sndr, toLowerCase rcpt]
               \<and> (\<exists>b c. map_of balancesBefore a = Some b \<and> map_of balancesAfter a = Some c
                     \<and> snapshots_differ b c)
            then 1 else 0)"
      unfolding r_def using affected_loop_count [OF assms(1) assms(2)] by simp
    also have "\<dots> = (if a \<noteq> toLowerCase sndr \<and> a \<noteq> toLowerCase rcpt
                   \<and> a \<in> fst ` set balancesBefore \<and> a \<in> fst ` set balancesAfter
                   \<and> has_change balancesBefore balancesAfter a
                then 1 else 0)"
    proof (cases "map_of balancesBefore a")
      case None
      then have "a \<notin> fst ` set balancesBefore" by (simp add: map_of_eq_None_iff)
      with None show ?thesis by simp
    next
      case b: (Some b)
      then have inb: "a \<in> fst ` set balancesBefore"
        by (metis domI dom_map_of_conv_image_fst)
      show ?thesis
      proof (cases "map_of balancesAfter a")
        case None
        then have "a \<notin> fst ` set balancesAfter" by (simp add: map_of_eq_None_iff)
        with None show ?thesis by simp
      next
        case c: (Some c)
        then have inc: "a \<in> fst ` set balancesAfter"
          by (metis domI dom_map_of_conv_image_fst)
        show ?thesis
          using b c inb inc by (simp add: has_change_def snapshot_of_def)
      qed
    qed
    finally show ?thesis .
  qed
  have cnt: "times_reported r a =
           (if a = address (sender r) then 1 else 0)
           + (if a = address (recipient r) then 1 else 0)
           + (if a \<noteq> address (sender r) \<and> a \<noteq> address (recipient r)
                 \<and> a \<in> fst ` set balancesBefore \<and> a \<in> fst ` set balancesAfter
                 \<and> has_change balancesBefore balancesAfter a
              then 1 else 0)" for a
    using others [of a] by (simp add: times_reported_def report_rows_def a1 a2)
  have once: "times_reported r (address (sender r)) = 1
           \<and> times_reported r (address (recipient r)) = 1
           \<and> (\<forall>a. a \<in> fst ` set balancesBefore \<and> a \<in> fst ` set balancesAfter
                   \<and> has_change balancesBefore balancesAfter a \<longrightarrow>
                 times_reported r a = 1)"
    if "address (sender r) \<noteq> address (recipient r)"
    using that cnt by auto
  show ?thesis
    using res a1 a2 cnt once by (intro exI [of _ r]) (simp add: rcpt_def)
qed

text \<open>
  The theorem at a transfer from \<open>0xAA\<close> to \<open>0xbb\<close> that also changes \<open>0xcc\<close>: each of
  the three addresses is reported once.
\<close>

theorem buildStateImpactReport_reported_once_witness:
  "distinct (map fst transfer_before)
   \<and> list_all (\<lambda>k. toLowerCase k = k) (map fst transfer_before)
   \<and> toLowerCase ''0xAA'' \<in> fst ` set transfer_before
   \<and> toLowerCase ''0xAA'' \<in> fst ` set transfer_after
   \<and> map (reported_count
            (buildStateImpactReport unknown_metadata ''0xAA'' ''0xbb'' [] transfer_before
               transfer_after ''ETH'' None)) [''0xaa'', ''0xbb'', ''0xcc'', ''0xdd'']
       = [Some 1, Some 1, Some 1, Some 0]"
proof -
  have h1: "distinct (map fst transfer_before)"
    by (simp add: transfer_before_def)
  have h2: "\<forall>k \<in> fst ` set transfer_before. toLowerCase k = k"
    by (simp add: transfer_before_def) code_simp
  have h3: "toLowerCase ''0xAA'' \<in> fst ` set transfer_before"
    by code_simp
  have h4: "toLowerCase ''0xAA'' \<in> fst ` set transfer_after"
    by code_simp
  have c: "has_change transfer_before transfer_after ''0xcc''"
    by (simp add: has_change_def snapshot_of_def snapshots_differ_def transfer_before_def
          transfer_after_def native_only_def)
  have k: "''0xcc'' \<in> fst ` set transfer_before" "''0xcc'' \<in> fst ` set transfer_after"
    "''0xdd'' \<notin> fst ` set transfer_before"
    by (simp_all add: transfer_before_def transfer_after_def)
  have l: "toLowerCase ''0xAA'' = ''0xaa''" "toLowerCase ''0xbb'' = ''0xbb''"
    by code_simp+
  from buildStateImpactReport_reported_once [OF h1 h2 h3 h4,
      of unknown_metadata "''0xbb''" "[]" "''ETH''" None]
  obtain r where r:
    "buildStateImpactReport unknown_metadata ''0xAA'' ''0xbb'' [] transfer_before
       transfer_after ''ETH'' None = Inr r"
    "address (sender r) = ''0xaa''" "address (recipient r) = ''0xbb''"
    "\<forall>a. times_reported r a =
           (if a = address (sender r) then 1 else 0)
           + (if a = address (recipient r) then 1 else 0)
           + (if a \<noteq> address (sender r) \<and> a \<noteq> address (recipient r)
                 \<and> a \<in> fst ` set transfer_before \<and> a \<in> fst ` set transfer_after
                 \<and> has_change transfer_before transfer_after a
              then 1 else 0)"
    by (auto simp: truthy_value_def truthy_def l)
  from r(2,3,4) c k have "times_reported r ''0xaa'' = 1" "times_reported r ''0xbb'' = 1"
    "times_reported r ''0xcc'' = 1" "times_reported r ''0xdd'' = 0"
    by simp_all
  moreover have "list_all (\<lambda>k. toLowerCase k = k) (map fst transfer_before)"
    using h2 by (simp add: list_all_iff)
  ultimately show ?thesis using r(1) h1 h3 h4 by (simp add: reported_count_def)
qed

text \<open>
  Claim C6 as stated covers arbitrary maps. In a self-transfer the sender is also the
  counterparty and its changed address fills two rows; an address observed with a
  balance only after, or only before, is not reported at all.
\<close>

theorem buildStateImpactReport_reported_once_counterexample:
  "''0xaa'' \<in> fst ` set self_before \<and> has_change self_before self_after ''0xaa''
   \<and> reported_count
         (buildStateImpactReport unknown_metadata ''0xaa'' ''0xaa'' [] self_before self_after
            ''ETH'' None) ''0xaa'' = Some 2
   \<and> ''0xdd'' \<in> fst ` set self_after \<and> has_change self_before self_after ''0xdd''
   \<and> reported_count
         (buildStateImpactReport unknown_metadata ''0xaa'' ''0xaa'' [] self_before self_after
            ''ETH'' None) ''0xdd'' = Some 0
   \<and> ''0xcc'' \<in> fst ` set self_before \<and> has_change self_before self_after ''0xcc''
   \<and> reported_count
         (buildStateImpactReport unknown_metadata ''0xaa'' ''0xaa'' [] self_before self_after
            ''ETH'' None) ''0xcc'' = Some 0"
  by code_simp

section \<open>Balance snapshotters: results\<close>

lemma capture_assets_keeps_or_sets:
  "map_of (capture_assets chain addr ids as) i =
     (if i \<in> set ids \<and> assets_account chain \<noteq> None
      then map_of (capture_assets chain addr ids as) i
      else map_of as i)"
  by (induction ids arbitrary: as)
     (auto simp: capture_asset_def map_of_obj_set split: option.splits outcome.splits)

lemma capture_asset_value:
  assumes "assets_account chain = Some query"
  shows "map_of (capture_asset chain addr i as) i =
           Some (case query i addr of
                   Throws e \<Rightarrow> 0
                 | Returns None \<Rightarrow> 0
                 | Returns (Some bal) \<Rightarrow> (case BigInt bal of None \<Rightarrow> 0 | Some b \<Rightarrow> b))"
  using assms
  by (auto simp: capture_asset_def map_of_obj_set split: option.splits outcome.splits)

lemma capture_assets_value:
  assumes "assets_account chain = Some query" and "i \<in> set ids"
  shows "map_of (capture_assets chain addr ids as) i =
           Some (case query i addr of
                   Throws e \<Rightarrow> 0
                 | Returns None \<Rightarrow> 0
                 | Returns (Some bal) \<Rightarrow> (case BigInt bal of None \<Rightarrow> 0 | Some b \<Rightarrow> b))"
  using assms(2)
proof (induction ids arbitrary: as)
  case Nil
  then show ?case by simp
next
  case (Cons j ids)
  show ?case
  proof (cases "i \<in> set ids")
    case True
    then show ?thesis using Cons.IH by simp
  next
    case False
    with Cons.prems have ij: "j = i" by simp
    have "map_of (capture_assets chain addr ids (capture_asset chain addr i as)) i
            = map_of (capture_asset chain addr i as) i"
      using False capture_assets_keeps_or_sets [of chain addr ids _ i] by simp
    then show ?thesis
      using ij capture_asset_value [OF assms(1)] by simp
  qed
qed

lemma wasm_capture_loop_result:
  "\<exists>snaps log'. wasm_capture_loop chain addrs ids (snapshots, log) = Inr (snaps, log')
     \<and> (\<forall>a. map_of snaps a =
            (if a \<in> set addrs
             then Some (case capture_address chain a ids of
                          Inr s \<Rightarrow> s | Inl e \<Rightarrow> zero_wasm_snapshot)
             else map_of snapshots a))
     \<and> set log' = set log \<union>
          {balance_warning a | a.
             a \<in> set addrs \<and> (\<exists>e. capture_address chain a ids = Inl e)}"
proof (induction addrs arbitrary: snapshots log)
  case Nil
  then show ?case by simp
next
  case (Cons addr rest)
  show ?case
  proof (cases "capture_address chain addr ids")
    case (Inr s)
    from Cons.IH [of "obj_set addr s snapshots" log]
    obtain snaps log' where
      r: "wasm_capture_loop chain rest ids (obj_set addr s snapshots, log) = Inr (snaps, log')"
      and m: "\<forall>a. map_of snaps a =
            (if a \<in> set rest
             then Some (case capture_address chain a ids of
                          Inr s \<Rightarrow> s | Inl e \<Rightarrow> zero_wasm_snapshot)
             else map_of (obj_set addr s snapshots) a)"
      and l: "set log' = set log \<union>
          {balance_warning a | a.
             a \<in> set rest \<and> (\<exists>e. capture_address chain a ids = Inl e)}"
      by blast
    have "\<forall>a. map_of snaps a =
            (if a \<in> set (addr # rest)
             then Some (case capture_address chain a ids of
                          Inr s \<Rightarrow> s | Inl e \<Rightarrow> zero_wasm_snapshot)
             else map_of snapshots a)"
      using m Inr by (auto simp: map_of_obj_set)
    moreover have "set log' = set log \<union>
          {balance_warning a | a.
             a \<in> set (addr # rest) \<and> (\<exists>e. capture_address chain a ids = Inl e)}"
      using l Inr by auto
    ultimately show ?thesis using r Inr by simp
  next
    case (Inl e)
    let ?line = "balance_warning addr"
    from Cons.IH [of "obj_set addr zero_wasm_snapshot snapshots" "log @ [?line]"]
    obtain snaps log' where
      r: "wasm_capture_loop chain rest ids
            (obj_set addr zero_wasm_snapshot snapshots, log @ [?line]) = Inr (snaps, log')"
      and m: "\<forall>a. map_of snaps a =
            (if a \<in> set rest
             then Some (case capture_address chain a ids of
                          Inr s \<Rightarrow> s | Inl e \<Rightarrow> zero_wasm_snapshot)
             else map_of (obj_set addr zero_wasm_snapshot snapshots) a)"
      and l: "set log' = set (log @ [?line]) \<union>
          {balance_warning a | a.
             a \<in> set rest \<and> (\<exists>e. capture_address chain a ids = Inl e)}"
      by blast
    have "\<forall>a. map_of snaps a =
            (if a \<in> set (addr # rest)
             then Some (case capture_address chain a ids of
                          Inr s \<Rightarrow> s | Inl e \<Rightarrow> zero_wasm_snapshot)
             else map_of snapshots a)"
      using m Inl by (auto simp: map_of_obj_set)
    moreover have "set log' = set log \<union>
          {balance_warning a | a.
             a \<in> set (addr # rest) \<and> (\<exists>e. capture_address chain a ids = Inl e)}"
      using l Inl by auto
    ultimately show ?thesis using r Inl by simp
  qed
qed

lemma capture_address_read_failure:
  "system_account chain a = Throws e \<Longrightarrow> capture_address chain a ids = Inl e"
  by (simp add: capture_address_def)

lemma capture_address_assets:
  assumes "capture_address chain a ids = Inr s"
    and "assets_account chain = Some query" and "i \<in> set ids"
  shows "map_of (assets s) i =
           Some (case query i a of
                   Throws e \<Rightarrow> 0
                 | Returns None \<Rightarrow> 0
                 | Returns (Some bal) \<Rightarrow> (case BigInt bal of None \<Rightarrow> 0 | Some b \<Rightarrow> b))"
proof -
  from assms(1) have "assets s = capture_assets chain a ids []"
    by (auto simp: capture_address_def split: outcome.splits option.splits)
  then show ?thesis using capture_assets_value [OF assms(2,3)] by simp
qed

lemma capture_address_parsed:
  assumes "system_account chain a = Returns d"
    and "BigInt (data_free d) = Some f" and "BigInt (data_reserved d) = Some r"
    and "BigInt (case truthy_value (data_frozen d) of Some x \<Rightarrow> x | None \<Rightarrow> ''0'') = Some z"
  shows "capture_address chain a ids
           = Inr \<lparr> wasm_native = \<lparr> free = f, reserved = r, frozen = z \<rparr>,
                   assets = capture_assets chain a ids [] \<rparr>"
  using assms by (simp add: capture_address_def)

lemma capture_address_unparsed:
  assumes "system_account chain a = Returns d"
    and "BigInt (data_free d) = None \<or> BigInt (data_reserved d) = None
         \<or> BigInt (case truthy_value (data_frozen d) of Some x \<Rightarrow> x | None \<Rightarrow> ''0'') = None"
  shows "\<exists>e. capture_address chain a ids = Inl e"
  using assms by (auto simp: capture_address_def split: option.splits)

lemma capture_assets_no_pallet:
  "assets_account chain = None \<Longrightarrow> capture_assets chain a ids as = as"
  by (induction ids arbitrary: as) (simp_all add: capture_asset_def)

lemma capture_tokens_keys:
  "fst ` set (capture_tokens chain a toks m) = fst ` set m \<union> toLowerCase ` set toks"
proof (induction toks arbitrary: m)
  case Nil
  then show ?case by simp
next
  case (Cons t toks)
  have "fst ` set (obj_set (toLowerCase t) (getTokenBalance chain t a) m)
          = insert (toLowerCase t) (fst ` set m)"
    using keys_obj_set [of "toLowerCase t" "getTokenBalance chain t a" m]
    by (metis (no_types, lifting) insert_absorb list.set_map list.simps(15) set_append
          Un_insert_right sup_bot.right_neutral empty_set)
  with Cons.IH [of "obj_set (toLowerCase t) (getTokenBalance chain t a) m"]
  show ?case by auto
qed

lemma capture_tokens_keeps:
  "k \<notin> toLowerCase ` set toks \<Longrightarrow> map_of (capture_tokens chain a toks m) k = map_of m k"
  by (induction toks arbitrary: m) (auto simp: map_of_obj_set)

lemma capture_tokens_lookup:
  "t \<in> set toks \<Longrightarrow>
     \<exists>t' \<in> set toks. toLowerCase t' = toLowerCase t
       \<and> map_of (capture_tokens chain a toks m) (toLowerCase t)
           = Some (getTokenBalance chain t' a)"
proof (induction toks arbitrary: m t)
  case Nil
  then show ?case by simp
next
  case (Cons t0 toks)
  let ?m = "obj_set (toLowerCase t0) (getTokenBalance chain t0 a) m"
  show ?case
  proof (cases "toLowerCase t \<in> toLowerCase ` set toks")
    case True
    then obtain t2 where t2: "t2 \<in> set toks" "toLowerCase t2 = toLowerCase t" by auto
    from Cons.IH [OF t2(1), of ?m] t2(2) show ?thesis by auto
  next
    case False
    with Cons.prems have eq: "t = t0" by auto
    from False have "map_of (capture_tokens chain a toks ?m) (toLowerCase t)
                       = map_of ?m (toLowerCase t)"
      by (rule capture_tokens_keeps)
    with eq show ?thesis by (simp add: map_of_obj_set)
  qed
qed

lemma capture_loop_keys:
  "capture_loop chain addrs toks m = Inr snaps \<Longrightarrow>
     fst ` set snaps = fst ` set m \<union> toLowerCase ` set addrs"
proof (induction addrs arbitrary: m)
  case Nil
  then show ?case by simp
next
  case (Cons a addrs)
  from Cons.prems obtain bal where bal: "getBalance chain a = Returns bal"
    by (auto split: outcome.splits)
  let ?s = "\<lparr> native = bal, tokens = capture_tokens chain a toks [] \<rparr>"
  let ?m = "obj_set (toLowerCase a) ?s m"
  from Cons.prems bal have run: "capture_loop chain addrs toks ?m = Inr snaps" by simp
  have "fst ` set ?m = insert (toLowerCase a) (fst ` set m)"
    using keys_obj_set [of "toLowerCase a" ?s m]
    by (metis (no_types, lifting) insert_absorb list.set_map list.simps(15) set_append
          Un_insert_right sup_bot.right_neutral empty_set)
  with Cons.IH [OF run] show ?case by auto
qed

lemma capture_loop_keeps:
  "capture_loop chain addrs toks m = Inr snaps \<Longrightarrow> k \<notin> toLowerCase ` set addrs \<Longrightarrow>
     map_of snaps k = map_of m k"
proof (induction addrs arbitrary: m)
  case Nil
  then show ?case by simp
next
  case (Cons a addrs)
  from Cons.prems(1) obtain bal where bal: "getBalance chain a = Returns bal"
    by (auto split: outcome.splits)
  let ?m = "obj_set (toLowerCase a)
              \<lparr> native = bal, tokens = capture_tokens chain a toks [] \<rparr> m"
  from Cons.prems(1) bal have run: "capture_loop chain addrs toks ?m = Inr snaps" by simp
  from Cons.prems(2) have "k \<notin> toLowerCase ` set addrs" "k \<noteq> toLowerCase a" by auto
  with Cons.IH [OF run] show ?case by (simp add: map_of_obj_set)
qed

lemma capture_loop_lookup:
  "capture_loop chain addrs toks m = Inr snaps \<Longrightarrow> a \<in> set addrs \<Longrightarrow>
     \<exists>a' \<in> set addrs. toLowerCase a' = toLowerCase a
       \<and> (\<exists>bal. getBalance chain a' = Returns bal
             \<and> map_of snaps (toLowerCase a)
                 = Some \<lparr> native = bal, tokens = capture_tokens chain a' toks [] \<rparr>)"
proof (induction addrs arbitrary: m a)
  case Nil
  then show ?case by simp
next
  case (Cons a0 addrs)
  from Cons.prems(1) obtain bal where bal: "getBalance chain a0 = Returns bal"
    by (auto split: outcome.splits)
  let ?s = "\<lparr> native = bal, tokens = capture_tokens chain a0 toks [] \<rparr>"
  let ?m = "obj_set (toLowerCase a0) ?s m"
  from Cons.prems(1) bal have run: "capture_loop chain addrs toks ?m = Inr snaps" by simp
  show ?case
  proof (cases "toLowerCase a \<in> toLowerCase ` set addrs")
    case True
    then obtain a2 where a2: "a2 \<in> set addrs" "toLowerCase a2 = toLowerCase a" by auto
    from Cons.IH [OF run a2(1)] a2(2) show ?thesis by auto
  next
    case False
    with Cons.prems(2) have eq: "a = a0" by auto
    from capture_loop_keeps [OF run False]
    have "map_of snaps (toLowerCase a) = map_of ?m (toLowerCase a)" .
    with eq bal show ?thesis by (simp add: map_of_obj_set)
  qed
qed

lemma capture_loop_raises_iff:
  "(\<exists>e. capture_loop chain addrs toks snapshots = Inl e)
     \<longleftrightarrow> (\<exists>a \<in> set addrs. \<exists>e. getBalance chain a = Throws e)"
  by (induction addrs arbitrary: snapshots) (auto split: outcome.splits)

lemma captureBalances_entry:
  assumes "captureBalances chain addrs toks = Inr snaps" and "a \<in> set addrs"
  shows "\<exists>a' \<in> set addrs. toLowerCase a' = toLowerCase a
     \<and> (\<exists>s. map_of snaps (toLowerCase a) = Some s
           \<and> getBalance chain a' = Returns (native s)
           \<and> fst ` set (tokens s) = toLowerCase ` set toks
           \<and> (\<forall>t \<in> set toks. \<exists>t' \<in> set toks. toLowerCase t' = toLowerCase t
                 \<and> map_of (tokens s) (toLowerCase t)
                     = Some (case balanceOf chain t' a' of Throws e \<Rightarrow> 0 | Returns b \<Rightarrow> b)))"
proof -
  from assms(1) have run: "capture_loop chain addrs toks [] = Inr snaps"
    by (simp add: captureBalances_def)
  from capture_loop_lookup [OF run assms(2)] obtain a' bal where
    a': "a' \<in> set addrs" "toLowerCase a' = toLowerCase a"
    and bal: "getBalance chain a' = Returns bal"
    and m: "map_of snaps (toLowerCase a)
              = Some \<lparr> native = bal, tokens = capture_tokens chain a' toks [] \<rparr>"
    by blast
  let ?s = "\<lparr> native = bal, tokens = capture_tokens chain a' toks [] \<rparr>"
  have k: "fst ` set (tokens ?s) = toLowerCase ` set toks"
    using capture_tokens_keys [of chain a' toks "[]"] by simp
  have v: "\<forall>t \<in> set toks. \<exists>t' \<in> set toks. toLowerCase t' = toLowerCase t
                 \<and> map_of (tokens ?s) (toLowerCase t)
                     = Some (case balanceOf chain t' a' of Throws e \<Rightarrow> 0 | Returns b \<Rightarrow> b)"
    using capture_tokens_lookup [of _ toks chain a' "[]"]
    by (simp add: getTokenBalance_def)
  from a' bal m k v show ?thesis
    by (intro bexI [of _ a'] conjI exI [of _ ?s]) simp_all
qed

text \<open>
  Claim C7, as amended. The runtime-module snapshotter never raises and every requested
  address appears in the returned map. When its account record cannot be read (the read
  throws, or a balance of the record is no integer), the address has the zero snapshot
  and a warning is logged. When the record is read, the address has the balances of
  the record, and each requested asset has the balance of its asset account, or 0 when
  reading that account fails, when the account is missing or when its balance is no
  integer (without the assets pallet no asset is recorded). The account-model
  snapshotter raises exactly when a native balance read fails. When it returns, the
  keys of the map are the requested addresses in lower case; each has the native
  balance that was read and, for every requested token (in lower case), the balance
  that was read, or 0 when that read failed.
\<close>

theorem captureBalances_failures:
  "(\<exists>snaps log. wasm_captureBalances wchain addresses assetIds = Inr (snaps, log)
      \<and> (\<forall>a \<in> set addresses. map_of snaps a \<noteq> None)
      \<and> (\<forall>a \<in> set addresses.
            (\<exists>e. system_account wchain a = Throws e)
            \<or> (\<exists>d. system_account wchain a = Returns d
                   \<and> (BigInt (data_free d) = None \<or> BigInt (data_reserved d) = None
                        \<or> BigInt (case truthy_value (data_frozen d) of
                                      Some x \<Rightarrow> x | None \<Rightarrow> ''0'') = None)) \<longrightarrow>
            map_of snaps a = Some zero_wasm_snapshot \<and> balance_warning a \<in> set log)
      \<and> (\<forall>a \<in> set addresses. \<forall>d f r z.
            system_account wchain a = Returns d
            \<and> BigInt (data_free d) = Some f \<and> BigInt (data_reserved d) = Some r
            \<and> BigInt (case truthy_value (data_frozen d) of
                          Some x \<Rightarrow> x | None \<Rightarrow> ''0'') = Some z \<longrightarrow>
            (\<exists>s. map_of snaps a = Some s
                \<and> wasm_native s = \<lparr> free = f, reserved = r, frozen = z \<rparr>
                \<and> (assets_account wchain = None \<longrightarrow> assets s = [])
                \<and> (\<forall>query. assets_account wchain = Some query \<longrightarrow>
                      (\<forall>i \<in> set assetIds.
                         map_of (assets s) i =
                           Some (case query i a of
                                   Throws e \<Rightarrow> 0
                                 | Returns None \<Rightarrow> 0
                                 | Returns (Some bal) \<Rightarrow>
                                     (case BigInt bal of None \<Rightarrow> 0 | Some b \<Rightarrow> b)))))))
   \<and> ((\<exists>e. captureBalances echain addrs toks = Inl e)
         \<longleftrightarrow> (\<exists>a \<in> set addrs. \<exists>e. getBalance echain a = Throws e))
   \<and> (\<forall>snaps. captureBalances echain addrs toks = Inr snaps \<longrightarrow>
         fst ` set snaps = toLowerCase ` set addrs
         \<and> (\<forall>a \<in> set addrs. \<exists>a' \<in> set addrs. toLowerCase a' = toLowerCase a
               \<and> (\<exists>s. map_of snaps (toLowerCase a) = Some s
                     \<and> getBalance echain a' = Returns (native s)
                     \<and> fst ` set (tokens s) = toLowerCase ` set toks
                     \<and> (\<forall>t \<in> set toks. \<exists>t' \<in> set toks. toLowerCase t' = toLowerCase t
                           \<and> map_of (tokens s) (toLowerCase t)
                               = Some (case balanceOf echain t' a' of
                                         Throws e \<Rightarrow> 0
                                       | Returns b \<Rightarrow> b)))))"
proof -
  from wasm_capture_loop_result [of wchain addresses assetIds "[]" "[]"]
  obtain snaps log where
    r: "wasm_captureBalances wchain addresses assetIds = Inr (snaps, log)"
    and m: "\<forall>a. map_of snaps a =
            (if a \<in> set addresses
             then Some (case capture_address wchain a assetIds of
                          Inr s \<Rightarrow> s | Inl e \<Rightarrow> zero_wasm_snapshot)
             else None)"
    and l: "set log = {balance_warning a | a.
             a \<in> set addresses \<and> (\<exists>e. capture_address wchain a assetIds = Inl e)}"
    by (auto simp: wasm_captureBalances_def)
  have p1: "\<forall>a \<in> set addresses. map_of snaps a \<noteq> None"
    using m by simp
  have p2: "\<forall>a \<in> set addresses.
            (\<exists>e. system_account wchain a = Throws e)
            \<or> (\<exists>d. system_account wchain a = Returns d
                   \<and> (BigInt (data_free d) = None \<or> BigInt (data_reserved d) = None
                        \<or> BigInt (case truthy_value (data_frozen d) of
                                      Some x \<Rightarrow> x | None \<Rightarrow> ''0'') = None)) \<longrightarrow>
            map_of snaps a = Some zero_wasm_snapshot \<and> balance_warning a \<in> set log"
  proof (intro ballI impI)
    fix a
    assume a: "a \<in> set addresses"
      and "(\<exists>e. system_account wchain a = Throws e)
            \<or> (\<exists>d. system_account wchain a = Returns d
                   \<and> (BigInt (data_free d) = None \<or> BigInt (data_reserved d) = None
                        \<or> BigInt (case truthy_value (data_frozen d) of
                                      Some x \<Rightarrow> x | None \<Rightarrow> ''0'') = None))"
    then have "\<exists>e. capture_address wchain a assetIds = Inl e"
      using capture_address_read_failure [of wchain a _ assetIds]
        capture_address_unparsed [of wchain a _ assetIds]
      by blast
    then obtain e where e: "capture_address wchain a assetIds = Inl e" by blast
    from m a e have "map_of snaps a = Some zero_wasm_snapshot" by simp
    moreover from l a e have "balance_warning a \<in> set log" by blast
    ultimately show "map_of snaps a = Some zero_wasm_snapshot \<and> balance_warning a \<in> set log"
      by simp
  qed
  have p3: "\<forall>a \<in> set addresses. \<forall>d f r z.
            system_account wchain a = Returns d
            \<and> BigInt (data_free d) = Some f \<and> BigInt (data_reserved d) = Some r
            \<and> BigInt (case truthy_value (data_frozen d) of
                          Some x \<Rightarrow> x | None \<Rightarrow> ''0'') = Some z \<longrightarrow>
            (\<exists>s. map_of snaps a = Some s
                \<and> wasm_native s = \<lparr> free = f, reserved = r, frozen = z \<rparr>
                \<and> (assets_account wchain = None \<longrightarrow> assets s = [])
                \<and> (\<forall>query. assets_account wchain = Some query \<longrightarrow>
                      (\<forall>i \<in> set assetIds.
                         map_of (assets s) i =
                           Some (case query i a of
                                   Throws e \<Rightarrow> 0
                                 | Returns None \<Rightarrow> 0
                                 | Returns (Some bal) \<Rightarrow>
                                     (case BigInt bal of None \<Rightarrow> 0 | Some b \<Rightarrow> b)))))"
  proof (intro ballI allI impI)
    fix a d f r z
    assume a: "a \<in> set addresses"
      and h: "system_account wchain a = Returns d
            \<and> BigInt (data_free d) = Some f \<and> BigInt (data_reserved d) = Some r
            \<and> BigInt (case truthy_value (data_frozen d) of
                          Some x \<Rightarrow> x | None \<Rightarrow> ''0'') = Some z"
    let ?s = "\<lparr> wasm_native = \<lparr> free = f, reserved = r, frozen = z \<rparr>,
               assets = capture_assets wchain a assetIds [] \<rparr>"
    from h have c: "capture_address wchain a assetIds = Inr ?s"
      using capture_address_parsed [of wchain a d f r z assetIds] by simp
    from m a c have s: "map_of snaps a = Some ?s" by simp
    have n: "assets_account wchain = None \<longrightarrow> assets ?s = []"
      by (simp add: capture_assets_no_pallet)
    have q: "\<forall>query. assets_account wchain = Some query \<longrightarrow>
                      (\<forall>i \<in> set assetIds.
                         map_of (assets ?s) i =
                           Some (case query i a of
                                   Throws e \<Rightarrow> 0
                                 | Returns None \<Rightarrow> 0
                                 | Returns (Some bal) \<Rightarrow>
                                     (case BigInt bal of None \<Rightarrow> 0 | Some b \<Rightarrow> b)))"
      using capture_address_assets [OF c] by blast
    from s n q show "\<exists>s. map_of snaps a = Some s
                \<and> wasm_native s = \<lparr> free = f, reserved = r, frozen = z \<rparr>
                \<and> (assets_account wchain = None \<longrightarrow> assets s = [])
                \<and> (\<forall>query. assets_account wchain = Some query \<longrightarrow>
                      (\<forall>i \<in> set assetIds.
                         map_of (assets s) i =
                           Some (case query i a of
                                   Throws e \<Rightarrow> 0
                                 | Returns None \<Rightarrow> 0
                                 | Returns (Some bal) \<Rightarrow>
                                     (case BigInt bal of None \<Rightarrow> 0 | Some b \<Rightarrow> b))))"
      by (intro exI [of _ ?s]) simp
  qed
  have q1: "(\<exists>e. captureBalances echain addrs toks = Inl e)
         \<longleftrightarrow> (\<exists>a \<in> set addrs. \<exists>e. getBalance echain a = Throws e)"
    unfolding captureBalances_def by (rule capture_loop_raises_iff)
  have q2: "\<forall>snaps. captureBalances echain addrs toks = Inr snaps \<longrightarrow>
         fst ` set snaps = toLowerCase ` set addrs
         \<and> (\<forall>a \<in> set addrs. \<exists>a' \<in> set addrs. toLowerCase a' = toLowerCase a
               \<and> (\<exists>s. map_of snaps (toLowerCase a) = Some s
                     \<and> getBalance echain a' = Returns (native s)
                     \<and> fst ` set (tokens s) = toLowerCase ` set toks
                     \<and> (\<forall>t \<in> set toks. \<exists>t' \<in> set toks. toLowerCase t' = toLowerCase t
                           \<and> map_of (tokens s) (toLowerCase t)
                               = Some (case balanceOf echain t' a' of
                                         Throws e \<Rightarrow> 0
                                       | Returns b \<Rightarrow> b))))"
  proof (intro allI impI conjI ballI)
    fix snaps
    assume c: "captureBalances echain addrs toks = Inr snaps"
    then have "capture_loop echain addrs toks [] = Inr snaps"
      by (simp add: captureBalances_def)
    from capture_loop_keys [OF this] show "fst ` set snaps = toLowerCase ` set addrs"
      by simp
    fix a
    assume "a \<in> set addrs"
    from captureBalances_entry [OF c this]
    show "\<exists>a' \<in> set addrs. toLowerCase a' = toLowerCase a
               \<and> (\<exists>s. map_of snaps (toLowerCase a) = Some s
                     \<and> getBalance echain a' = Returns (native s)
                     \<and> fst ` set (tokens s) = toLowerCase ` set toks
                     \<and> (\<forall>t \<in> set toks. \<exists>t' \<in> set toks. toLowerCase t' = toLowerCase t
                           \<and> map_of (tokens s) (toLowerCase t)
                               = Some (case balanceOf echain t' a' of
                                         Throws e \<Rightarrow> 0
                                       | Returns b \<Rightarrow> b)))" .
  qed
  from r p1 p2 p3 q1 q2 show ?thesis by blast
qed

text \<open>
  The theorem at a runtime-module chain on which the account of \<open>bob\<close> and the account
  of asset 1 cannot be read and the account of asset 2 is missing, and at an
  account-model chain on which the token \<open>address_b\<close> cannot be read.
\<close>

theorem captureBalances_failures_witness:
  "wasm_captureBalances asset_failing_chain [''alice'', ''bob''] [1, 2, 3]
     = Inr ([(''alice'', \<lparr> wasm_native = \<lparr> free = 2000, reserved = 7, frozen = 0 \<rparr>,
                            assets = [(1, 0), (2, 0), (3, 42)] \<rparr>),
             (''bob'', zero_wasm_snapshot)],
            [balance_warning ''bob''])
   \<and> captureBalances token_failing_chain [address_a] [address_b, address_c]
     = Inr [(address_a, \<lparr> native = 5, tokens = [(address_b, 0), (address_c, 7)] \<rparr>)]"
proof -
  have w: "wasm_captureBalances asset_failing_chain [''alice'', ''bob''] [1, 2, 3]
     = Inr ([(''alice'', \<lparr> wasm_native = \<lparr> free = 2000, reserved = 7, frozen = 0 \<rparr>,
                            assets = [(1, 0), (2, 0), (3, 42)] \<rparr>),
             (''bob'', zero_wasm_snapshot)],
            [balance_warning ''bob''])"
    by code_simp
  have e: "captureBalances token_failing_chain [address_a] [address_b, address_c]
     = Inr [(address_a, \<lparr> native = 5, tokens = [(address_b, 0), (address_c, 7)] \<rparr>)]"
    by code_simp
  have b: "system_account asset_failing_chain ''bob'' = Throws (new_Error ''Query failed'')"
    by (simp add: asset_failing_chain_def)
  from captureBalances_failures [of asset_failing_chain "[''alice'', ''bob'']" "[1, 2, 3]"
      token_failing_chain "[address_a]" "[address_b, address_c]"]
  have "\<exists>snaps log. wasm_captureBalances asset_failing_chain [''alice'', ''bob''] [1, 2, 3]
          = Inr (snaps, log)
      \<and> (\<forall>a \<in> set [''alice'', ''bob'']. map_of snaps a \<noteq> None)
      \<and> (\<forall>a \<in> set [''alice'', ''bob''].
            (\<exists>e. system_account asset_failing_chain a = Throws e)
            \<or> (\<exists>d. system_account asset_failing_chain a = Returns d
                   \<and> (BigInt (data_free d) = None \<or> BigInt (data_reserved d) = None
                        \<or> BigInt (case truthy_value (data_frozen d) of
                                      Some x \<Rightarrow> x | None \<Rightarrow> ''0'') = None)) \<longrightarrow>
            map_of snaps a = Some zero_wasm_snapshot \<and> balance_warning a \<in> set log)"
    by (elim conjE exE) (intro exI conjI, assumption+)
  then obtain snaps log where
    r: "wasm_captureBalances asset_failing_chain [''alice'', ''bob''] [1, 2, 3]
          = Inr (snaps, log)"
    and z: "\<forall>a \<in> set [''alice'', ''bob''].
            (\<exists>e. system_account asset_failing_chain a = Throws e)
            \<or> (\<exists>d. system_account asset_failing_chain a = Returns d
                   \<and> (BigInt (data_free d) = None \<or> BigInt (data_reserved d) = None
                        \<or> BigInt (case truthy_value (data_frozen d) of
                                      Some x \<Rightarrow> x | None \<Rightarrow> ''0'') = None)) \<longrightarrow>
            map_of snaps a = Some zero_wasm_snapshot \<and> balance_warning a \<in> set log"
    by (elim conjE exE)
  from z b have "map_of snaps ''bob'' = Some zero_wasm_snapshot \<and> balance_warning ''bob'' \<in> set log"
    by auto
  with r w e show ?thesis by simp
qed

text \<open>
  Claim C7 as stated covers the account-model snapshotter as well. There a failed native
  balance read is not caught: the snapshotter raises and returns no map.
\<close>

theorem captureBalances_native_failure_counterexample:
  "captureBalances failing_evm_chain [address_a] []
     = Inl (new_Error ''Balance fetch failed'')"
  by (simp add: captureBalances_def failing_evm_chain_def)

section \<open>State impact from events (runtime-module): results\<close>

lemma strip_commas_separators_stripped: "strip_commas s = separators_stripped s"
  by (induction s) (simp_all add: strip_commas_def separators_stripped_def)

lemma the_amount_parsed: "parse_amount s = Some n \<Longrightarrow> amount_of s = n"
  by (simp add: amount_of_def parse_amount_def strip_commas_separators_stripped)

lemma last_index_loop_Max:
  "last_index_loop recs mx =
     (if extrinsic_indices recs = [] then mx
      else max mx (int (Max (set (extrinsic_indices recs)))))"
proof (induction recs arbitrary: mx)
  case Nil
  then show ?case by (simp add: extrinsic_indices_def)
next
  case (Cons r recs)
  show ?case
  proof (cases "rec_phase r")
    case (ApplyExtrinsic v)
    then have ei: "extrinsic_indices (r # recs) = v # extrinsic_indices recs"
      by (simp add: extrinsic_indices_def)
    have step: "last_index_loop (r # recs) mx = last_index_loop recs (max mx (int v))"
      using ApplyExtrinsic by (simp add: max_def)
    show ?thesis
    proof (cases "extrinsic_indices recs = []")
      case True
      with ei step Cons.IH [of "max mx (int v)"] show ?thesis by simp
    next
      case False
      then have "Max (set (v # extrinsic_indices recs))
                   = max v (Max (set (extrinsic_indices recs)))"
        by simp
      with False ei step Cons.IH [of "max mx (int v)"] show ?thesis
        by (simp add: max.assoc)
    qed
  next
    case Initialization
    then have "extrinsic_indices (r # recs) = extrinsic_indices recs"
      by (simp add: extrinsic_indices_def)
    with Initialization Cons.IH [of mx] show ?thesis by simp
  next
    case Finalization
    then have "extrinsic_indices (r # recs) = extrinsic_indices recs"
      by (simp add: extrinsic_indices_def)
    with Finalization Cons.IH [of mx] show ?thesis by simp
  next
    case UnknownPhase
    then have "extrinsic_indices (r # recs) = extrinsic_indices recs"
      by (simp add: extrinsic_indices_def)
    with UnknownPhase Cons.IH [of mx] show ?thesis by simp
  qed
qed

lemma getLastExtrinsicIndex_injected:
  "getLastExtrinsicIndex recs
     = (case injected_index recs of None \<Rightarrow> - 1 | Some i \<Rightarrow> int i)"
  by (simp add: getLastExtrinsicIndex_def last_index_loop_Max injected_index_def)

lemma our_events_injected: "our_events recs = injected_events recs"
proof -
  have eq: "(\<lambda>r. case rec_phase r of
                   ApplyExtrinsic v \<Rightarrow> int v = getLastExtrinsicIndex recs
                 | _ \<Rightarrow> False)
          = (\<lambda>r. injected_index recs \<noteq> None
                  \<and> rec_phase r = ApplyExtrinsic (the (injected_index recs)))"
  proof (rule ext)
    fix r
    show "(case rec_phase r of
             ApplyExtrinsic v \<Rightarrow> int v = getLastExtrinsicIndex recs
           | _ \<Rightarrow> False)
          = (injected_index recs \<noteq> None
             \<and> rec_phase r = ApplyExtrinsic (the (injected_index recs)))"
      by (cases "rec_phase r"; cases "injected_index recs")
         (auto simp: getLastExtrinsicIndex_injected)
  qed
  show ?thesis
    unfolding our_events_def filterEventsByExtrinsicIndex_def injected_events_def eq ..
qed








lemma reduce_events_delta:
  "reduce_events evs d = Inr d' \<Longrightarrow>
     get_or_zero d' a = get_or_zero d a + native_delta evs a"
proof (induction evs arbitrary: d)
  case Nil
  then show ?case by (simp add: native_delta_def)
next
  case (Cons event evs)
  have step: "native_delta (event # evs) a = event_contribution a event + native_delta evs a"
    by (simp add: native_delta_def)
  show ?case
  proof (cases "pallet event = ''balances''")
    case False
    with Cons show ?thesis by (simp add: step event_contribution_def)
  next
    case bal: True
    consider (transfer) "method_name event = ''Transfer''"
      | (withdraw) "method_name event = ''Withdraw''"
      | (deposit) "method_name event = ''Deposit''"
      | (other) "method_name event \<noteq> ''Transfer''" "method_name event \<noteq> ''Withdraw''"
          "method_name event \<noteq> ''Deposit''"
      by blast
    then show ?thesis
    proof cases
      case transfer
      with bal Cons.prems obtain amount where
        am: "parse_amount (data_amount event) = Some amount"
        by (auto split: option.splits)
      let ?d1 = "obj_set (data_from event) (get_or_zero d (data_from event) - amount) d"
      let ?d2 = "obj_set (data_to event) (get_or_zero ?d1 (data_to event) + amount) ?d1"
      from bal transfer am Cons.prems have "reduce_events evs ?d2 = Inr d'"
        by (simp add: Let_def)
      from Cons.IH [OF this]
      have "get_or_zero d' a = get_or_zero ?d2 a + native_delta evs a" .
      moreover have "get_or_zero ?d2 a = get_or_zero d a + event_contribution a event"
        using bal transfer the_amount_parsed [OF am]
        by (simp add: get_or_zero_obj_set event_contribution_def)
      ultimately show ?thesis by (simp add: step)
    next
      case withdraw
      with bal Cons.prems obtain amount where
        am: "parse_amount (data_amount event) = Some amount"
        by (auto split: option.splits)
      let ?d1 = "obj_set (data_who event) (get_or_zero d (data_who event) - amount) d"
      from bal withdraw am Cons.prems have "reduce_events evs ?d1 = Inr d'"
        by simp
      from Cons.IH [OF this]
      have "get_or_zero d' a = get_or_zero ?d1 a + native_delta evs a" .
      moreover have "get_or_zero ?d1 a = get_or_zero d a + event_contribution a event"
        using bal withdraw the_amount_parsed [OF am]
        by (simp add: get_or_zero_obj_set event_contribution_def)
      ultimately show ?thesis by (simp add: step)
    next
      case deposit
      with bal Cons.prems obtain amount where
        am: "parse_amount (data_amount event) = Some amount"
        by (auto split: option.splits)
      let ?d1 = "obj_set (data_who event) (get_or_zero d (data_who event) + amount) d"
      from bal deposit am Cons.prems have "reduce_events evs ?d1 = Inr d'"
        by simp
      from Cons.IH [OF this]
      have "get_or_zero d' a = get_or_zero ?d1 a + native_delta evs a" .
      moreover have "get_or_zero ?d1 a = get_or_zero d a + event_contribution a event"
        using bal deposit the_amount_parsed [OF am]
        by (simp add: get_or_zero_obj_set event_contribution_def)
      ultimately show ?thesis by (simp add: step)
    next
      case other
      with bal Cons show ?thesis by (simp add: step event_contribution_def)
    qed
  qed
qed

lemma reduce_events_distinct:
  "reduce_events evs d = Inr d' \<Longrightarrow> distinct (map fst d) \<Longrightarrow> distinct (map fst d')"
proof (induction evs arbitrary: d)
  case Nil
  then show ?case by simp
next
  case (Cons event evs)
  show ?case
    using Cons.prems
    by (auto simp: Let_def split: if_splits option.splits
          intro!: Cons.IH distinct_obj_set)
qed


lemma other_affected_rows:
  "row \<in> set (other_affected_loop sndr rcpt bb ns nd ds) \<Longrightarrow>
     \<exists>a delta. (a, delta) \<in> set ds \<and> a \<noteq> sndr \<and> Some a \<noteq> rcpt \<and> delta \<noteq> 0
        \<and> row = changed_row ns nd a (total_before bb a) delta"
proof (induction ds)
  case Nil
  then show ?case by simp
next
  case (Cons p ds)
  obtain a d where p: "p = (a, d)" by (cases p)
  show ?case
  proof (cases "a = sndr \<or> Some a = rcpt \<or> d = 0")
    case True
    with Cons p show ?thesis by fastforce
  next
    case False
    with Cons.prems p have "row = changed_row ns nd a (total_before bb a) d
        \<or> row \<in> set (other_affected_loop sndr rcpt bb ns nd ds)"
      by auto
    then show ?thesis
    proof
      assume "row = changed_row ns nd a (total_before bb a) d"
      with False p show ?thesis by auto
    next
      assume "row \<in> set (other_affected_loop sndr rcpt bb ns nd ds)"
      from Cons.IH [OF this] show ?thesis by auto
    qed
  qed
qed

lemma distinct_entry_get_or_zero:
  "distinct (map fst ds) \<Longrightarrow> (a, delta) \<in> set ds \<Longrightarrow> get_or_zero ds a = delta"
  by (simp add: get_or_zero_def)


lemma buildStateFromEvents_policy:
  assumes "buildStateFromEvents sndr rcpt evs bb ns nd = Inr r"
  shows "wasm_address (wasm_sender r) = sndr
     \<and> (wasm_recipient r \<noteq> None
          \<longleftrightarrow> (\<exists>a. rcpt = Some a \<and> a \<noteq> [] \<and> native_delta evs a \<noteq> 0))
     \<and> (\<forall>x. wasm_recipient r = Some x \<longrightarrow> rcpt = Some (wasm_address x))
     \<and> (\<forall>row \<in> set (otherAffected r).
           native_delta evs (wasm_address row) \<noteq> 0
           \<and> wasm_address row \<noteq> sndr \<and> rcpt \<noteq> Some (wasm_address row))"
proof -
  from assms(1) obtain ds where ds: "reduce_events evs [] = Inr ds"
    by (auto simp: buildStateFromEvents_def split: sum.splits)
  have delta: "get_or_zero ds a = native_delta evs a" for a
    using reduce_events_delta [OF ds, of a] by (simp add: get_or_zero_def)
  have dist: "distinct (map fst ds)"
    using reduce_events_distinct [OF ds] by simp
  from assms(1) ds have r:
    "wasm_address (wasm_sender r) = sndr"
    "wasm_recipient r =
       (case truthy_value rcpt of
          None \<Rightarrow> None
        | Some x \<Rightarrow>
            if get_or_zero ds x \<noteq> 0
            then Some (changed_row ns nd x (total_before bb x) (get_or_zero ds x))
            else None)"
    "otherAffected r = other_affected_loop sndr rcpt bb ns nd ds"
    by (auto simp: buildStateFromEvents_def Let_def split: option.splits)
  have p2: "wasm_recipient r \<noteq> None
          \<longleftrightarrow> (\<exists>a. rcpt = Some a \<and> a \<noteq> [] \<and> native_delta evs a \<noteq> 0)"
    using r(2) delta
    by (auto simp: truthy_value_def truthy_def split: option.splits if_splits)
  have p3: "\<forall>x. wasm_recipient r = Some x \<longrightarrow> rcpt = Some (wasm_address x)"
    using r(2)
    by (auto simp: truthy_value_def truthy_def changed_row_def split: option.splits if_splits)
  have p4: "\<forall>row \<in> set (otherAffected r).
           native_delta evs (wasm_address row) \<noteq> 0
           \<and> wasm_address row \<noteq> sndr \<and> rcpt \<noteq> Some (wasm_address row)"
  proof
    fix row
    assume "row \<in> set (otherAffected r)"
    with r(3) other_affected_rows [of row sndr rcpt bb ns nd ds]
    obtain a d where ad: "(a, d) \<in> set ds" "a \<noteq> sndr" "Some a \<noteq> rcpt" "d \<noteq> 0"
      "row = changed_row ns nd a (total_before bb a) d"
      by auto
    from distinct_entry_get_or_zero [OF dist ad(1)] delta have "d = native_delta evs a"
      by simp
    with ad show "native_delta evs (wasm_address row) \<noteq> 0
           \<and> wasm_address row \<noteq> sndr \<and> rcpt \<noteq> Some (wasm_address row)"
      by (auto simp: changed_row_def)
  qed
  from r(1) p2 p3 p4 show ?thesis by blast
qed




section \<open>Simulation engines: the responses that are returned\<close>

lemma failure_exit_Returns:
  "failure_exit env w sndr symbol decimals paymentInfo relevantEvents failedEvent = Returns resp
     \<Longrightarrow> \<not> success resp \<and> error resp \<noteq> None"
  by (auto simp: failure_exit_def await_Returns)

lemma success_exit_Returns:
  "success_exit env w sndr rcpt symbol decimals paymentInfo bb ourEvents relevantEvents
     = Returns resp
     \<Longrightarrow> success resp \<and> error resp = None
       \<and> buildStateFromEvents sndr rcpt ourEvents bb symbol decimals = Inr (stateChanges resp)"
  by (auto simp: success_exit_def await_Returns raising_Returns)

lemma submit_and_report_Returns:
  assumes "submit_and_report env w request symbol decimals rcpt = Returns resp"
  shows "\<exists>allEventRecords captured.
     cw_events w = Returns allEventRecords
     \<and> wasm_captureBalances (cw_chain w)
          (wasm_req_sender request
           # (case truthy_value rcpt of None \<Rightarrow> [] | Some r \<Rightarrow> [r]))
          (case req_trackAssets request of None \<Rightarrow> [] | Some a \<Rightarrow> a) = Inr captured
     \<and> (case find_failed (our_events allEventRecords) of
          Some failedEvent \<Rightarrow> \<not> success resp \<and> error resp \<noteq> None
        | None \<Rightarrow>
            success resp \<and> error resp = None
            \<and> buildStateFromEvents (wasm_req_sender request) rcpt
                 (our_events allEventRecords) (fst captured) symbol decimals
               = Inr (stateChanges resp))"
proof -
  from assms obtain captured paymentInfo allEventRecords where
    c: "wasm_captureBalances (cw_chain w)
          (wasm_req_sender request
           # (case truthy_value rcpt of None \<Rightarrow> [] | Some r \<Rightarrow> [r]))
          (case req_trackAssets request of None \<Rightarrow> [] | Some a \<Rightarrow> a) = Inr captured"
    and e: "cw_events w = Returns allEventRecords"
    and x: "(case find_failed (our_events allEventRecords) of
              Some failedEvent \<Rightarrow>
                failure_exit env w (wasm_req_sender request) symbol decimals paymentInfo
                  (filterRelevantEvents (our_events allEventRecords)) failedEvent
            | None \<Rightarrow>
                success_exit env w (wasm_req_sender request) rcpt symbol decimals paymentInfo
                  (fst captured) (our_events allEventRecords)
                  (filterRelevantEvents (our_events allEventRecords))) = Returns resp"
    unfolding submit_and_report_def Let_def await_Returns throwing_Returns by blast
  show ?thesis
  proof (cases "find_failed (our_events allEventRecords)")
    case None
    with x success_exit_Returns c e show ?thesis by fastforce
  next
    case (Some failedEvent)
    with x failure_exit_Returns c e show ?thesis by fastforce
  qed
qed

lemma try_block_Returns:
  assumes "try_block env w request symbol decimals = Returns resp"
  shows "(\<not> success resp \<and> error resp \<noteq> None)
     \<or> submit_and_report env w request symbol decimals (request_recipient request)
         = Returns resp"
proof (cases "req_extrinsic request")
  case (RawHex hex)
  with assms show ?thesis
    by (auto simp: try_block_def await_Returns request_recipient_def)
next
  case (Structured pal meth args)
  with assms show ?thesis
    by (auto simp: try_block_def await_Returns request_recipient_def split: if_splits)
qed

lemma wasm_catch_block_Returns:
  "wasm_catch_block w tried = Returns resp \<longleftrightarrow> tried = Returns resp"
  by (auto simp: wasm_catch_block_def await_def split: outcome.splits)

lemma executeWasmSimulation_Returns:
  assumes "executeWasmSimulation env w request = Returns resp"
  shows "\<exists>symbol decimals. cw_properties w = Returns (symbol, decimals)
     \<and> try_block env w request symbol decimals = Returns resp"
  using assms
  by (auto simp: executeWasmSimulation_def await_Returns wasm_catch_block_Returns
        split: if_splits)

lemma executeWasmSimulation_error_iff:
  assumes "executeWasmSimulation env w request = Returns resp"
  shows "success resp \<longleftrightarrow> error resp = None"
proof -
  from executeWasmSimulation_Returns [OF assms] obtain symbol decimals where
    t: "try_block env w request symbol decimals = Returns resp" by blast
  from try_block_Returns [OF t] show ?thesis
  proof
    assume "\<not> success resp \<and> error resp \<noteq> None"
    then show ?thesis by simp
  next
    assume "submit_and_report env w request symbol decimals (request_recipient request)
              = Returns resp"
    from submit_and_report_Returns [OF this] show ?thesis
      by (auto split: option.splits)
  qed
qed


lemma execute_and_report_error_iff:
  assumes "execute_and_report env w request prepared = Returns resp"
  shows "success resp \<longleftrightarrow> error resp = None"
proof -
  obtain tracked extracted bb where p: "prepared = (tracked, extracted, bb)"
    by (cases prepared)
  from assms show ?thesis
    unfolding execute_and_report_def p
    by (auto simp: await_Returns Let_def split: if_splits)
qed

lemma catch_block_error_iff:
  assumes "catch_block env request tried = Returns resp"
    and "\<And>r. tried = Returns r \<Longrightarrow> (success r \<longleftrightarrow> error r = None)"
  shows "success resp \<longleftrightarrow> error resp = None"
  using assms
  by (cases tried) (auto simp: catch_block_def await_Returns)

lemma executeSimulation_error_iff:
  assumes "executeSimulation env w request = Returns resp"
  shows "success resp \<longleftrightarrow> error resp = None"
proof -
  let ?tried = "await (prepare env w request) (execute_and_report env w request)"
  from assms have c: "catch_block env request ?tried = Returns resp"
    by (auto simp: executeSimulation_def await_Returns Let_def
          split: if_splits outcome.splits)
  show ?thesis
  proof (rule catch_block_error_iff [OF c])
    fix r
    assume "?tried = Returns r"
    then obtain p where "execute_and_report env w request p = Returns r"
      by (auto simp: await_Returns)
    then show "success r \<longleftrightarrow> error r = None"
      by (rule execute_and_report_error_iff)
  qed
qed

lemma prepare_extracted:
  assumes "prepare env w request = Returns (tracked, extracted, bb)"
  shows "extracted = extractTransferRecipient (env_isAddress env) (tx_data request)"
  using assms by (auto simp: prepare_def Let_def await_Returns)

lemma execute_and_report_built:
  assumes "execute_and_report env w request (tracked, extracted, bb) = Returns resp"
  shows "\<exists>tokenAddresses balancesBefore balancesAfter.
     buildStateImpactReport (env_getTokenMetadata env) (req_sender request) (tx_to request)
       tokenAddresses balancesBefore balancesAfter (NATIVE_SYMBOL env) extracted
     = Inr (stateChanges resp)"
proof -
  from assms obtain tokenAddresses balancesBefore balancesAfter report ok where
    b: "buildStateImpactReport (env_getTokenMetadata env) (req_sender request) (tx_to request)
          tokenAddresses balancesBefore balancesAfter (NATIVE_SYMBOL env) extracted
        = Inr report"
    and r: "stateChanges resp = report"
    unfolding execute_and_report_def
    by (auto simp: await_Returns raising_Returns Let_def split: if_splits)
  then show ?thesis by blast
qed

lemma executeSimulation_success_built:
  assumes "executeSimulation env w request = Returns resp" and "success resp"
  shows "\<exists>tokenAddresses balancesBefore balancesAfter.
     buildStateImpactReport (env_getTokenMetadata env) (req_sender request) (tx_to request)
       tokenAddresses balancesBefore balancesAfter (NATIVE_SYMBOL env)
       (extractTransferRecipient (env_isAddress env) (tx_data request))
     = Inr (stateChanges resp)"
proof -
  let ?tried = "await (prepare env w request) (execute_and_report env w request)"
  from assms(1) have c: "catch_block env request ?tried = Returns resp"
    by (auto simp: executeSimulation_def await_Returns Let_def
          split: if_splits outcome.splits)
  have "?tried = Returns resp"
  proof (cases ?tried)
    case (Returns r)
    with c show ?thesis by (simp add: catch_block_def)
  next
    case (Throws e)
    with c assms(2) show ?thesis by (auto simp: catch_block_def await_Returns)
  qed
  then obtain tracked extracted bb where
    p: "prepare env w request = Returns (tracked, extracted, bb)"
    and x: "execute_and_report env w request (tracked, extracted, bb) = Returns resp"
    by (auto simp: await_Returns)
  from execute_and_report_built [OF x] prepare_extracted [OF p] show ?thesis by simp
qed

lemma buildAddressState_before:
  "before (buildAddressState addr bef aft tokenMetadata nativeSym) \<noteq> []"
  by (simp add: buildAddressState_def Let_def)

lemma buildStateImpactReport_before:
  assumes "buildStateImpactReport getTokenMetadata sndr transactionTo tokenAddresses
             balancesBefore balancesAfter nativeSym tokenRecipient = Inr r"
  shows "before (recipient r) \<noteq> []"
  using assms
  by (auto simp: buildStateImpactReport_def Let_def buildAddressState_before
        split: option.splits)

lemma executeSimulation_report:
  assumes "executeSimulation env w request = Returns resp"
  shows "(\<exists>tokenAddresses balancesBefore balancesAfter.
            buildStateImpactReport (env_getTokenMetadata env) (req_sender request)
              (tx_to request) tokenAddresses balancesBefore balancesAfter (NATIVE_SYMBOL env)
              (extractTransferRecipient (env_isAddress env) (tx_data request))
            = Inr (stateChanges resp))
     \<or> (\<not> success resp \<and> stateChanges resp = emptyStateReport request)"
proof -
  let ?tried = "await (prepare env w request) (execute_and_report env w request)"
  from assms have c: "catch_block env request ?tried = Returns resp"
    by (auto simp: executeSimulation_def await_Returns Let_def
          split: if_splits outcome.splits)
  show ?thesis
  proof (cases ?tried)
    case (Returns r)
    with c have "?tried = Returns resp" by (simp add: catch_block_def)
    then obtain tracked extracted bb where
      p: "prepare env w request = Returns (tracked, extracted, bb)"
      and x: "execute_and_report env w request (tracked, extracted, bb) = Returns resp"
      by (auto simp: await_Returns)
    from execute_and_report_built [OF x] prepare_extracted [OF p] show ?thesis by simp
  next
    case (Throws e)
    with c show ?thesis by (auto simp: catch_block_def await_Returns)
  qed
qed

lemma failure_exit_report:
  "failure_exit env w sndr symbol decimals paymentInfo relevantEvents failedEvent = Returns resp
     \<Longrightarrow> \<not> success resp \<and> stateChanges resp = wasm_emptyStateReport sndr"
  by (auto simp: failure_exit_def await_Returns)

lemma submit_and_report_report:
  assumes "submit_and_report env w request symbol decimals rcpt = Returns resp"
  shows "(success resp
          \<and> (\<exists>allEventRecords captured.
                cw_events w = Returns allEventRecords
                \<and> wasm_captureBalances (cw_chain w)
                     (wasm_req_sender request
                      # (case truthy_value rcpt of None \<Rightarrow> [] | Some r \<Rightarrow> [r]))
                     (case req_trackAssets request of None \<Rightarrow> [] | Some a \<Rightarrow> a)
                   = Inr captured
                \<and> buildStateFromEvents (wasm_req_sender request) rcpt
                     (our_events allEventRecords) (fst captured) symbol decimals
                   = Inr (stateChanges resp)))
     \<or> (\<not> success resp
          \<and> stateChanges resp = wasm_emptyStateReport (wasm_req_sender request))"
proof -
  from assms obtain captured paymentInfo allEventRecords where
    c: "wasm_captureBalances (cw_chain w)
          (wasm_req_sender request
           # (case truthy_value rcpt of None \<Rightarrow> [] | Some r \<Rightarrow> [r]))
          (case req_trackAssets request of None \<Rightarrow> [] | Some a \<Rightarrow> a) = Inr captured"
    and e: "cw_events w = Returns allEventRecords"
    and x: "(case find_failed (our_events allEventRecords) of
              Some failedEvent \<Rightarrow>
                failure_exit env w (wasm_req_sender request) symbol decimals paymentInfo
                  (filterRelevantEvents (our_events allEventRecords)) failedEvent
            | None \<Rightarrow>
                success_exit env w (wasm_req_sender request) rcpt symbol decimals paymentInfo
                  (fst captured) (our_events allEventRecords)
                  (filterRelevantEvents (our_events allEventRecords))) = Returns resp"
    unfolding submit_and_report_def Let_def await_Returns throwing_Returns by blast
  show ?thesis
  proof (cases "find_failed (our_events allEventRecords)")
    case None
    with x success_exit_Returns c e show ?thesis by fastforce
  next
    case (Some failedEvent)
    with x failure_exit_report show ?thesis by fastforce
  qed
qed

lemma try_block_report:
  assumes "try_block env w request symbol decimals = Returns resp"
  shows "(\<not> success resp \<and> stateChanges resp = wasm_emptyStateReport (wasm_req_sender request))
     \<or> submit_and_report env w request symbol decimals (request_recipient request)
         = Returns resp"
proof (cases "req_extrinsic request")
  case (RawHex hex)
  with assms show ?thesis
    by (auto simp: try_block_def await_Returns request_recipient_def)
next
  case (Structured pal meth args)
  with assms show ?thesis
    by (auto simp: try_block_def await_Returns request_recipient_def split: if_splits)
qed

lemma executeWasmSimulation_report:
  assumes "executeWasmSimulation env w request = Returns resp"
  shows "(success resp
          \<and> (\<exists>allEventRecords symbol decimals.
                cw_events w = Returns allEventRecords
                \<and> buildStateFromEvents (wasm_req_sender request) (request_recipient request)
                     (our_events allEventRecords) (balances_before w request) symbol decimals
                   = Inr (stateChanges resp)))
     \<or> (\<not> success resp
          \<and> stateChanges resp = wasm_emptyStateReport (wasm_req_sender request))"
proof -
  from executeWasmSimulation_Returns [OF assms] obtain symbol decimals where
    t: "try_block env w request symbol decimals = Returns resp" by blast
  from try_block_report [OF t] show ?thesis
  proof
    assume "\<not> success resp
              \<and> stateChanges resp = wasm_emptyStateReport (wasm_req_sender request)"
    then show ?thesis by simp
  next
    assume "submit_and_report env w request symbol decimals (request_recipient request)
              = Returns resp"
    from submit_and_report_report [OF this] show ?thesis
    proof
      assume "\<not> success resp
                \<and> stateChanges resp = wasm_emptyStateReport (wasm_req_sender request)"
      then show ?thesis by simp
    next
      assume "success resp
          \<and> (\<exists>allEventRecords captured.
                cw_events w = Returns allEventRecords
                \<and> wasm_captureBalances (cw_chain w)
                     (wasm_req_sender request
                      # (case truthy_value (request_recipient request) of
                           None \<Rightarrow> [] | Some r \<Rightarrow> [r]))
                     (case req_trackAssets request of None \<Rightarrow> [] | Some a \<Rightarrow> a)
                   = Inr captured
                \<and> buildStateFromEvents (wasm_req_sender request) (request_recipient request)
                     (our_events allEventRecords) (fst captured) symbol decimals
                   = Inr (stateChanges resp))"
      then obtain allEventRecords captured where
        s: "success resp" and e: "cw_events w = Returns allEventRecords"
        and c: "wasm_captureBalances (cw_chain w)
                     (wasm_req_sender request
                      # (case truthy_value (request_recipient request) of
                           None \<Rightarrow> [] | Some r \<Rightarrow> [r]))
                     (case req_trackAssets request of None \<Rightarrow> [] | Some a \<Rightarrow> a)
                   = Inr captured"
        and b: "buildStateFromEvents (wasm_req_sender request) (request_recipient request)
                     (our_events allEventRecords) (fst captured) symbol decimals
                   = Inr (stateChanges resp)"
        by blast
      from c have "balances_before w request = fst captured"
        by (simp add: balances_before_def)
      with s e b show ?thesis by auto
    qed
  qed
qed

lemma executeSimulation_success_path:
  assumes "aw_connected w" and "aw_snapshot w = Returns snapshotId"
    and "prepare env w request = Returns (tracked, extracted, bb)"
    and "optional_BigInt (tx_value request) = Returns val"
    and "optional_BigInt (tx_gasLimit request) = Returns gasLimit"
    and "aw_sendTransaction w = Returns ()" and "aw_wait w = Returns (Some rc)"
    and "rc_status rc = Some 1" and "rc_logs rc = Some logs"
    and "discover (decodeLogs (env_catalogue env) logs) tracked [] = []"
    and "captureBalances (aw_chain_after w) tracked
           (case req_trackTokens request of None \<Rightarrow> [] | Some ts \<Rightarrow> ts) = Inr ba"
    and "buildStateImpactReport (env_getTokenMetadata env) (req_sender request)
           (tx_to request) (case req_trackTokens request of None \<Rightarrow> [] | Some ts \<Rightarrow> ts)
           bb ba (NATIVE_SYMBOL env) extracted = Inr report"
    and "cleanup w True = Returns ()"
  shows "executeSimulation env w request
     = Returns
         \<lparr> success = True, stateChanges = report,
           events = decodeLogs (env_catalogue env) logs,
           gas = calculateGasReport (env_formatEther env) (Some rc) (NATIVE_SYMBOL env),
           error = None \<rparr>"
proof -
  have h: "historical_lookup w request [] = Returns None"
    by (simp add: historical_lookup_def)
  have t: "execute_and_report env w request (tracked, extracted, bb)
     = Returns
         \<lparr> success = True, stateChanges = report,
           events = decodeLogs (env_catalogue env) logs,
           gas = calculateGasReport (env_formatEther env) (Some rc) (NATIVE_SYMBOL env),
           error = None \<rparr>"
    using assms(4-12) h
    by (simp add: execute_and_report_def await_def Let_def throwing_def raising_def)
  show ?thesis
    using assms(1,2,3,13) t
    by (simp add: executeSimulation_def await_def Let_def catch_block_def)
qed

text \<open>
  Claim C4. In every response that either engine returns, \<open>success\<close> true means that
  the \<open>error\<close> property is absent, and \<open>success\<close> false that it is present.
\<close>

theorem response_error_iff_failure:
  "(simulateTransaction env w request = Returns resp \<longrightarrow>
      (success resp \<longrightarrow> error resp = None) \<and> (\<not> success resp \<longrightarrow> error resp \<noteq> None))
   \<and> (simulateWasmTransaction wenv ww wrequest = Returns wresp \<longrightarrow>
      (success wresp \<longrightarrow> error wresp = None) \<and> (\<not> success wresp \<longrightarrow> error wresp \<noteq> None))"
  using executeSimulation_error_iff [of env w request resp]
    executeWasmSimulation_error_iff [of wenv ww wrequest wresp]
  by (auto simp: simulateTransaction_def simulateWasmTransaction_def)

text \<open>
  The theorem at a successful runtime-module transfer and at an account-model run that
  fails.
\<close>

theorem response_error_iff_failure_witness:
  "(case simulateWasmTransaction plain_wasm_env transfer_world transfer_request of
      Returns r \<Rightarrow> success r \<and> error r = None
    | Throws e \<Rightarrow> False)
   \<and> (case simulateTransaction example_env lookup_revert_false_world example_request of
      Returns r \<Rightarrow> \<not> success r \<and> error r \<noteq> None
    | Throws e \<Rightarrow> False)"
proof -
  have b: "(case simulateWasmTransaction plain_wasm_env transfer_world transfer_request of
              Returns r \<Rightarrow> success r | Throws e \<Rightarrow> False)"
    by code_simp
  have a: "(case simulateTransaction example_env lookup_revert_false_world example_request of
              Returns r \<Rightarrow> \<not> success r | Throws e \<Rightarrow> False)"
    by code_simp
  from b obtain rb where rb:
    "simulateWasmTransaction plain_wasm_env transfer_world transfer_request = Returns rb"
    "success rb"
    by (auto split: outcome.splits)
  from a obtain ra where ra:
    "simulateTransaction example_env lookup_revert_false_world example_request = Returns ra"
    "\<not> success ra"
    by (auto split: outcome.splits)
  from response_error_iff_failure [of example_env lookup_revert_false_world example_request ra
      plain_wasm_env transfer_world transfer_request rb] ra rb
  show ?thesis by simp
qed

section \<open>Native deltas and the counterparty policy: results\<close>



text \<open>
  Claim C5, as amended. In a report built by the account-model builder the counterparty
  row is always there, and its address is (in lower case) the token recipient extracted
  from the calldata when there is one, the \<open>to\<close> address of the transaction otherwise.
  Such is the report of every account-model response whose counterparty row has
  balances, the successful responses among them. The other account-model responses are
  failures that carry the fixed empty report, whose counterparty is the \<open>to\<close> address of
  the transaction whatever the calldata. In a report built by the runtime-module builder
  the sender row is always there; the counterparty row is there exactly when a recipient
  was recognised and its delta reduced from the events is not zero, and it is then the
  row of that recipient; and no other affected address has a zero delta. In every
  runtime-module response the sender row is the row of the sender, the counterparty row
  is there exactly when the simulation succeeded, a recipient was recognised and its
  delta reduced from the events of the injected extrinsic is not zero, and every other
  affected address has a non-zero delta.
\<close>

theorem counterparty_policy:
  "(buildStateImpactReport getTokenMetadata sndr transactionTo tokenAddresses balancesBefore
       balancesAfter nativeSym tokenRecipient = Inr ra \<longrightarrow>
      address (sender ra) = toLowerCase sndr
      \<and> address (recipient ra)
          = toLowerCase (case truthy_value tokenRecipient of
                           Some t \<Rightarrow> t
                         | None \<Rightarrow> transactionTo))
   \<and> (buildStateFromEvents wsndr rcpt evs bb symbol decimals = Inr rb \<longrightarrow>
      wasm_address (wasm_sender rb) = wsndr
      \<and> (wasm_recipient rb \<noteq> None
           \<longleftrightarrow> (\<exists>a. rcpt = Some a \<and> a \<noteq> [] \<and> native_delta evs a \<noteq> 0))
      \<and> (\<forall>x. wasm_recipient rb = Some x \<longrightarrow> rcpt = Some (wasm_address x))
      \<and> (\<forall>row \<in> set (otherAffected rb).
            native_delta evs (wasm_address row) \<noteq> 0
            \<and> wasm_address row \<noteq> wsndr \<and> rcpt \<noteq> Some (wasm_address row)))
   \<and> (simulateTransaction env w request = Returns resp \<longrightarrow>
      address (sender (stateChanges resp)) = toLowerCase (req_sender request)
      \<and> (success resp \<longrightarrow> before (recipient (stateChanges resp)) \<noteq> [])
      \<and> (before (recipient (stateChanges resp)) \<noteq> [] \<longrightarrow>
           address (recipient (stateChanges resp))
             = toLowerCase
                 (case truthy_value
                         (extractTransferRecipient (env_isAddress env) (tx_data request)) of
                    Some t \<Rightarrow> t
                  | None \<Rightarrow> tx_to request))
      \<and> (before (recipient (stateChanges resp)) = [] \<longrightarrow>
           \<not> success resp \<and> stateChanges resp = emptyStateReport request
           \<and> address (recipient (stateChanges resp)) = toLowerCase (tx_to request)))
   \<and> (simulateWasmTransaction wenv ww wrequest = Returns wresp \<longrightarrow>
      wasm_address (wasm_sender (stateChanges wresp)) = wasm_req_sender wrequest
      \<and> (wasm_recipient (stateChanges wresp) \<noteq> None
           \<longleftrightarrow> success wresp
               \<and> (\<exists>a recs. request_recipient wrequest = Some a \<and> a \<noteq> []
                      \<and> cw_events ww = Returns recs
                      \<and> native_delta (injected_events recs) a \<noteq> 0))
      \<and> (\<forall>x. wasm_recipient (stateChanges wresp) = Some x \<longrightarrow>
             request_recipient wrequest = Some (wasm_address x))
      \<and> (\<forall>row \<in> set (otherAffected (stateChanges wresp)).
            (\<exists>recs. cw_events ww = Returns recs
                \<and> native_delta (injected_events recs) (wasm_address row) \<noteq> 0)
            \<and> wasm_address row \<noteq> wasm_req_sender wrequest
            \<and> request_recipient wrequest \<noteq> Some (wasm_address row)))"
proof -
  have a: "address (sender ra) = toLowerCase sndr
      \<and> address (recipient ra)
          = toLowerCase (case truthy_value tokenRecipient of
                           Some t \<Rightarrow> t
                         | None \<Rightarrow> transactionTo)"
    if "buildStateImpactReport getTokenMetadata sndr transactionTo tokenAddresses
          balancesBefore balancesAfter nativeSym tokenRecipient = Inr ra"
    using that by (rule buildStateImpactReport_addresses)
  have e: "address (sender (stateChanges resp)) = toLowerCase (req_sender request)
      \<and> (success resp \<longrightarrow> before (recipient (stateChanges resp)) \<noteq> [])
      \<and> (before (recipient (stateChanges resp)) \<noteq> [] \<longrightarrow>
           address (recipient (stateChanges resp))
             = toLowerCase
                 (case truthy_value
                         (extractTransferRecipient (env_isAddress env) (tx_data request)) of
                    Some t \<Rightarrow> t
                  | None \<Rightarrow> tx_to request))
      \<and> (before (recipient (stateChanges resp)) = [] \<longrightarrow>
           \<not> success resp \<and> stateChanges resp = emptyStateReport request
           \<and> address (recipient (stateChanges resp)) = toLowerCase (tx_to request))"
    if "simulateTransaction env w request = Returns resp"
  proof -
    from that have "executeSimulation env w request = Returns resp"
      by (simp add: simulateTransaction_def)
    from executeSimulation_report [OF this] show ?thesis
    proof
      assume "\<exists>tokenAddresses balancesBefore balancesAfter.
            buildStateImpactReport (env_getTokenMetadata env) (req_sender request)
              (tx_to request) tokenAddresses balancesBefore balancesAfter (NATIVE_SYMBOL env)
              (extractTransferRecipient (env_isAddress env) (tx_data request))
            = Inr (stateChanges resp)"
      then obtain tokenAddresses balancesBefore balancesAfter where
        b: "buildStateImpactReport (env_getTokenMetadata env) (req_sender request)
              (tx_to request) tokenAddresses balancesBefore balancesAfter (NATIVE_SYMBOL env)
              (extractTransferRecipient (env_isAddress env) (tx_data request))
            = Inr (stateChanges resp)"
        by blast
      from buildStateImpactReport_addresses [OF b] buildStateImpactReport_before [OF b]
      show ?thesis by simp
    next
      assume "\<not> success resp \<and> stateChanges resp = emptyStateReport request"
      then show ?thesis by (simp add: emptyStateReport_def)
    qed
  qed
  have f: "wasm_address (wasm_sender (stateChanges wresp)) = wasm_req_sender wrequest
      \<and> (wasm_recipient (stateChanges wresp) \<noteq> None
           \<longleftrightarrow> success wresp
               \<and> (\<exists>a recs. request_recipient wrequest = Some a \<and> a \<noteq> []
                      \<and> cw_events ww = Returns recs
                      \<and> native_delta (injected_events recs) a \<noteq> 0))
      \<and> (\<forall>x. wasm_recipient (stateChanges wresp) = Some x \<longrightarrow>
             request_recipient wrequest = Some (wasm_address x))
      \<and> (\<forall>row \<in> set (otherAffected (stateChanges wresp)).
            (\<exists>recs. cw_events ww = Returns recs
                \<and> native_delta (injected_events recs) (wasm_address row) \<noteq> 0)
            \<and> wasm_address row \<noteq> wasm_req_sender wrequest
            \<and> request_recipient wrequest \<noteq> Some (wasm_address row))"
    if "simulateWasmTransaction wenv ww wrequest = Returns wresp"
  proof -
    from that have "executeWasmSimulation wenv ww wrequest = Returns wresp"
      by (simp add: simulateWasmTransaction_def)
    from executeWasmSimulation_report [OF this] show ?thesis
    proof
      assume "success wresp
          \<and> (\<exists>allEventRecords symbol decimals.
                cw_events ww = Returns allEventRecords
                \<and> buildStateFromEvents (wasm_req_sender wrequest)
                     (request_recipient wrequest) (our_events allEventRecords)
                     (balances_before ww wrequest) symbol decimals
                   = Inr (stateChanges wresp))"
      then obtain recs symbol decimals where
        s: "success wresp" and ev: "cw_events ww = Returns recs"
        and b: "buildStateFromEvents (wasm_req_sender wrequest)
                  (request_recipient wrequest) (injected_events recs)
                  (balances_before ww wrequest) symbol decimals
                = Inr (stateChanges wresp)"
        by (auto simp: our_events_injected)
      from buildStateFromEvents_policy [OF b] s ev show ?thesis by auto
    next
      assume "\<not> success wresp
          \<and> stateChanges wresp = wasm_emptyStateReport (wasm_req_sender wrequest)"
      then show ?thesis by (simp add: wasm_emptyStateReport_def)
    qed
  qed
  from a e f buildStateFromEvents_policy [of wsndr rcpt evs bb symbol decimals rb]
  show ?thesis by blast
qed

text \<open>
  The theorem at a token transfer whose calldata names \<open>address_c\<close>, on a fork where
  no balance changes: the response is successful and its counterparty is \<open>address_c\<close>,
  without changes. And at the runtime-module transfer to \<open>bob\<close>: the counterparty is
  \<open>bob\<close>, and the treasury is the other affected address.
\<close>

theorem counterparty_policy_witness:
  "(case simulateTransaction example_env transfer_success_world token_transfer_request of
      Returns r \<Rightarrow>
        success r \<and> address (recipient (stateChanges r)) = address_c
        \<and> changes (recipient (stateChanges r)) = []
    | Throws e \<Rightarrow> False)
   \<and> (case simulateWasmTransaction plain_wasm_env transfer_world transfer_request of
      Returns r \<Rightarrow>
        wasm_address (wasm_sender (stateChanges r)) = ''alice''
        \<and> map_option wasm_address (wasm_recipient (stateChanges r)) = Some ''bob''
        \<and> map wasm_address (otherAffected (stateChanges r)) = [''treasury'']
    | Throws e \<Rightarrow> False)"
proof -
  let ?snaps = "[(address_a, \<lparr> native = 100, tokens = [] \<rparr>),
                 (address_b, \<lparr> native = 100, tokens = [] \<rparr>),
                 (address_c, \<lparr> native = 100, tokens = [] \<rparr>)]"
  have p: "prepare example_env transfer_success_world token_transfer_request
             = Returns ([address_a, address_b, address_c], Some address_c, ?snaps)"
    by code_simp
  have d: "discover (decodeLogs (env_catalogue example_env)
                       [transfer_log address_b address_a address_c 0])
             [address_a, address_b, address_c] [] = []"
    by code_simp
  have c: "captureBalances (aw_chain_after transfer_success_world)
             [address_a, address_b, address_c]
             (case req_trackTokens token_transfer_request of None \<Rightarrow> [] | Some ts \<Rightarrow> ts)
           = Inr ?snaps"
    by code_simp
  have "(case buildStateImpactReport (env_getTokenMetadata example_env)
                (req_sender token_transfer_request) (tx_to token_transfer_request)
                (case req_trackTokens token_transfer_request of None \<Rightarrow> [] | Some ts \<Rightarrow> ts)
                ?snaps ?snaps (NATIVE_SYMBOL example_env) (Some address_c) of
           Inr r \<Rightarrow> changes (recipient r) = []
         | Inl e \<Rightarrow> False)"
    by code_simp
  then obtain report where b:
    "buildStateImpactReport (env_getTokenMetadata example_env)
       (req_sender token_transfer_request) (tx_to token_transfer_request)
       (case req_trackTokens token_transfer_request of None \<Rightarrow> [] | Some ts \<Rightarrow> ts)
       ?snaps ?snaps (NATIVE_SYMBOL example_env) (Some address_c) = Inr report"
    and nc: "changes (recipient report) = []"
    by (auto split: sum.splits)
  have w: "aw_connected transfer_success_world"
    "aw_snapshot transfer_success_world = Returns ''0x1''"
    "optional_BigInt (tx_value token_transfer_request) = Returns None"
    "optional_BigInt (tx_gasLimit token_transfer_request) = Returns None"
    "aw_sendTransaction transfer_success_world = Returns ()"
    "aw_wait transfer_success_world = Returns (Some transfer_receipt)"
    "rc_status transfer_receipt = Some 1"
    "rc_logs transfer_receipt = Some [transfer_log address_b address_a address_c 0]"
    "cleanup transfer_success_world True = Returns ()"
    by code_simp+
  from executeSimulation_success_path [OF w(1,2) p w(3,4,5,6,7,8) d c b w(9)]
  obtain ra where ra:
    "simulateTransaction example_env transfer_success_world token_transfer_request
       = Returns ra"
    "success ra" "changes (recipient (stateChanges ra)) = []"
    using nc by (simp add: simulateTransaction_def)
  have "(case simulateWasmTransaction plain_wasm_env transfer_world transfer_request of
           Returns r \<Rightarrow>
             wasm_recipient (stateChanges r) \<noteq> None
             \<and> map wasm_address (otherAffected (stateChanges r)) = [''treasury'']
         | Throws e \<Rightarrow> False)"
    by code_simp
  then obtain rb where rb:
    "simulateWasmTransaction plain_wasm_env transfer_world transfer_request = Returns rb"
    "wasm_recipient (stateChanges rb) \<noteq> None"
    "map wasm_address (otherAffected (stateChanges rb)) = [''treasury'']"
    by (auto split: outcome.splits)
  have x: "toLowerCase
             (case truthy_value
                     (extractTransferRecipient (env_isAddress example_env)
                        (tx_data token_transfer_request)) of
                Some t \<Rightarrow> t
              | None \<Rightarrow> tx_to token_transfer_request) = address_c"
    by code_simp
  have q: "request_recipient transfer_request = Some ''bob''"
    "wasm_req_sender transfer_request = ''alice''"
    by code_simp+
  note policy = counterparty_policy [where env = example_env and w = transfer_success_world
      and request = token_transfer_request and resp = ra and wenv = plain_wasm_env
      and ww = transfer_world and wrequest = transfer_request and wresp = rb]
  note account = policy [THEN conjunct2, THEN conjunct2, THEN conjunct1, THEN mp, OF ra(1)]
  note runtime = policy [THEN conjunct2, THEN conjunct2, THEN conjunct2, THEN mp, OF rb(1)]
  from account ra(2) have "before (recipient (stateChanges ra)) \<noteq> []" by simp
  with account x have a: "address (recipient (stateChanges ra)) = address_c" by simp
  from runtime q have s: "wasm_address (wasm_sender (stateChanges rb)) = ''alice''" by simp
  from rb(2) obtain y where y: "wasm_recipient (stateChanges rb) = Some y" by auto
  with runtime q have "wasm_address y = ''bob''" by simp
  with y have rcp: "map_option wasm_address (wasm_recipient (stateChanges rb)) = Some ''bob''"
    by simp
  from a s rcp ra rb show ?thesis by simp
qed

text \<open>
  Claim C5 as stated covers every state-impact report. When sending the transaction is
  rejected, the account-model engine returns a failed response with its fixed empty
  report: the calldata names \<open>address_c\<close> as the token recipient, and the counterparty
  of the report is the \<open>to\<close> address \<open>address_b\<close>.
\<close>

theorem counterparty_policy_failure_counterexample:
  "extractTransferRecipient (env_isAddress example_env) (tx_data token_transfer_request)
     = Some address_c
   \<and> (case simulateTransaction example_env send_failure_world token_transfer_request of
        Returns r \<Rightarrow>
          \<not> success r \<and> address (recipient (stateChanges r)) = address_b
          \<and> address (recipient (stateChanges r)) \<noteq> address_c
      | Throws e \<Rightarrow> False)"
  by code_simp

section \<open>A failed revert of the historical lookup\<close>

lemma decode_lookup_revert_error:
  "decodeEVMError abi
     (new_Error ''FATAL: Failed to revert to snapshot for historical balance lookup'')
   = Inr \<lparr> err_type = Unknown,
           message = JsString ''FATAL: Failed to revert to snapshot for historical balance lookup'',
           raw = None \<rparr>"
proof -
  have m: "match_data ''FATAL: Failed to revert to snapshot for historical balance lookup''
             = None"
    by code_simp
  have c: "cleanErrorMessage
             ''FATAL: Failed to revert to snapshot for historical balance lookup''
           = ''FATAL: Failed to revert to snapshot for historical balance lookup''"
    by code_simp
  show ?thesis
    by (simp add: decodeEVMError_def new_Error_def properties_def empty_error_object_def
          extractErrorData_def truthy_prim_def is_string_def info_error_data_def
          error_error_data_def m parseErrorFallback_def info_error_message_def
          clean_message_def c)
qed

text \<open>
  Whatever the request and the fork: when the first execution discovers new addresses
  and the revert of the historical lookup answers false, while the cleanup succeeds,
  the engine returns the failed response with the decoded fatal message.
\<close>

lemma lookup_revert_false_is_caught:
  assumes "aw_connected w" and "aw_snapshot w = Returns snapshotId"
    and "prepare env w request = Returns (tracked, extracted, bb)"
    and "optional_BigInt (tx_value request) = Returns val"
    and "optional_BigInt (tx_gasLimit request) = Returns gasLimit"
    and "aw_sendTransaction w = Returns ()" and "aw_wait w = Returns rcpt"
    and "discover (case rcpt of
                     None \<Rightarrow> []
                   | Some r \<Rightarrow> (case rc_logs r of
                                 None \<Rightarrow> []
                               | Some logs \<Rightarrow> decodeLogs (env_catalogue env) logs))
           tracked [] \<noteq> []"
    and "aw_revert_lookup w = Returns False"
    and "cleanup w True = Returns ()"
  shows "executeSimulation env w request
     = Returns
         \<lparr> success = False, stateChanges = emptyStateReport request, events = [],
           gas = emptyGasReport (NATIVE_SYMBOL env),
           error = Some \<lparr> err_type = Unknown,
                         message = JsString ''FATAL: Failed to revert to snapshot for historical balance lookup'',
                         raw = None \<rparr> \<rparr>"
proof -
  let ?fatal = "new_Error ''FATAL: Failed to revert to snapshot for historical balance lookup''"
  have h: "historical_lookup w request
             (discover (case rcpt of
                          None \<Rightarrow> []
                        | Some r \<Rightarrow> (case rc_logs r of
                                      None \<Rightarrow> []
                                    | Some logs \<Rightarrow> decodeLogs (env_catalogue env) logs))
                tracked []) = Throws ?fatal"
    using assms(8,9) by (simp add: historical_lookup_def await_def)
  have t: "execute_and_report env w request (tracked, extracted, bb) = Throws ?fatal"
    using assms(4,5,6,7) h by (simp add: execute_and_report_def await_def Let_def)
  have c: "catch_block env request (Throws ?fatal)
     = Returns
         \<lparr> success = False, stateChanges = emptyStateReport request, events = [],
           gas = emptyGasReport (NATIVE_SYMBOL env),
           error = Some \<lparr> err_type = Unknown,
                         message = JsString ''FATAL: Failed to revert to snapshot for historical balance lookup'',
                         raw = None \<rparr> \<rparr>"
    by (simp add: catch_block_def decode_lookup_revert_error raising_def await_def)
  show ?thesis
    using assms(1,2,3,10) t c
    by (simp add: executeSimulation_def await_def Let_def)
qed

text \<open>When the cleanup throws, its fatal message names the revert error and the reset error of the cleanup.\<close>

lemma cleanup_fatal_message:
  assumes "cleanup w impersonating = Throws fatal"
  shows "\<exists>revertError resetError.
     aw_reset w = Throws resetError
     \<and> (aw_revert_cleanup w = Throws revertError
          \<or> aw_revert_cleanup w = Returns False
             \<and> revertError
                 = new_Error ''FATAL: Failed to revert snapshot - state may be corrupted'')
     \<and> fatal = new_Error
          (''FATAL: State cleanup failed - both revert and reset failed. State is corrupted. Revert error: ''
           @ template_text revertError @ ''. Reset error: '' @ template_text resetError)"
  using assms
  by (auto simp: cleanup_def Let_def split: outcome.splits if_splits)

text \<open>
  Claim C3 asks that a failed revert of the two-pass step be fatal: the engine raises
  and returns no response. In the run below the first execution emits a Transfer to an
  address that is not tracked, the revert of the historical lookup answers false, and
  the revert of the cleanup answers true. The fatal error thrown for the first revert
  is caught by the \<open>catch\<close> block of the engine like any other error: the engine
  returns a response with \<open>success\<close> false whose error is the decoded fatal message.
\<close>

theorem executeSimulation_lookup_revert_failure:
  "discover (decodeLogs transfer_catalogue (the_logs transfer_receipt))
     [address_a, address_b] [] = [address_c]
   \<and> aw_revert_lookup lookup_revert_false_world = Returns False
   \<and> simulateTransaction example_env lookup_revert_false_world example_request
     = Returns
         \<lparr> success = False, stateChanges = emptyStateReport example_request, events = [],
           gas = emptyGasReport ''GLMR'',
           error = Some \<lparr> err_type = Unknown,
                         message = JsString ''FATAL: Failed to revert to snapshot for historical balance lookup'',
                         raw = None \<rparr> \<rparr>"
  by code_simp

end
